theory Spec2Isabelle
  imports Main "HOL-Library.Sublist"
begin

section \<open>Python values and exceptions\<close>

text \<open>
  Strings are byte lists (UTF-8); the emoji of the source are written as their bytes.
  A tool receives its arguments as a Python dict parsed from JSON: a map from keys to
  values of type \<open>pyval\<close>. JSON numbers with a fractional part are outside the model.
\<close>

datatype pyval =
    PNone
  | PBool bool
  | PInt int
  | PStr string
  | PList "pyval list"
  | PDict "(string \<times> pyval) list"

type_synonym arguments = "string \<rightharpoonup> pyval"

text \<open>One entry of \<open>ValidationError.errors()\<close>: location, message and error type.\<close>

datatype loc_item = LKey string | LIdx nat

record error_details =
  loc :: "loc_item list"
  msg :: string
  etype :: string

text \<open>
  The exceptions the handlers distinguish: pydantic's \<open>ValidationError\<close>, which carries
  its error entries, and every other subclass of \<open>Exception\<close>, of which the handlers
  use \<open>str(e)\<close> only. What is no \<open>Exception\<close> (\<open>KeyboardInterrupt\<close>, \<open>SystemExit\<close>)
  is outside the model.
\<close>

datatype exn = ValidationError "error_details list" | PyException string

section \<open>The Pipelines API as seen by the core\<close>

record notebook_library =
  path :: string

record pipeline_library =
  notebook :: notebook_library

datatype kwval = KStr string | KBool bool | KLibs "pipeline_library list"

type_synonym kwargs = "(string \<times> kwval) list"

record create_kwargs =
  ck_name :: string
  ck_storage :: string
  ck_target :: string
  ck_libraries :: "pipeline_library list"
  ck_continuous :: bool
  ck_serverless :: bool

record start_update_kwargs =
  su_pipeline_id :: string
  su_refresh_selection :: "string list option"
  su_full_refresh :: bool
  su_full_refresh_selection :: "string list option"
  su_validate_only :: bool

record create_pipeline_response =
  cr_pipeline_id :: string

record pipeline_spec =
  target :: "string option"

text \<open>The state of a pipeline, an enum too, is the string its \<open>str()\<close> gives.\<close>

record get_pipeline_response =
  gp_name :: "string option"
  gp_state :: "string option"
  gp_spec :: "pipeline_spec option"
  gp_as_dict :: pyval

text \<open>
  The state of an update is a member of the SDK's \<open>UpdateInfoState\<close>, a plain \<open>Enum\<close>,
  given here by its name: a member is equal to no string, and \<open>str()\<close> of it is the name
  of the class, a dot and the name of the member.
\<close>

datatype UpdateInfoState = UpdateInfoState string

record update_info =
  state :: "UpdateInfoState option"

record get_update_response =
  update :: "update_info option"
  gu_as_dict :: pyval

record start_update_response =
  update_id :: string

record pipeline_event =
  event_type :: "string option"
  ev_as_dict :: pyval

text \<open>The requests a \<open>WorkspaceClient\<close> is asked to send.\<close>

datatype api_call =
    PipelinesCreate create_kwargs
  | PipelinesGet string
  | PipelinesUpdate kwargs
  | PipelinesDelete string
  | PipelinesStartUpdate start_update_kwargs
  | PipelinesGetUpdate string string
  | PipelinesStop string
  | PipelinesListEvents string int

text \<open>
  The remote platform: what it answers to each request (an exception or a response
  object), and the requests it has received so far, oldest first. Every core function
  builds a fresh \<open>WorkspaceClient()\<close> on the same platform, so the platform is passed in
  and returned.
\<close>

record workspace_client =
  on_create :: "create_kwargs \<Rightarrow> exn + create_pipeline_response"
  on_get_pipeline :: "string \<Rightarrow> exn + get_pipeline_response"
  on_update :: "kwargs \<Rightarrow> exn + unit"
  on_delete :: "string \<Rightarrow> exn + unit"
  on_start_update :: "start_update_kwargs \<Rightarrow> exn + start_update_response"
  on_get_update :: "string \<Rightarrow> string \<Rightarrow> exn + get_update_response"
  on_stop :: "string \<Rightarrow> exn + unit"
  on_list_pipeline_events :: "string \<Rightarrow> int \<Rightarrow> exn + pipeline_event list"
  captured :: "api_call list"

definition send :: "api_call \<Rightarrow> workspace_client \<Rightarrow> workspace_client" where
  "send c w = w\<lparr>captured := captured w @ [c]\<rparr>"

section \<open>pipelines.py\<close>

definition notebook_libraries :: "string list \<Rightarrow> pipeline_library list" where
  "notebook_libraries paths = map (\<lambda>p. \<lparr>notebook = \<lparr>path = p\<rparr>\<rparr>) paths"

definition create_pipeline ::
  "string \<Rightarrow> string \<Rightarrow> string \<Rightarrow> string \<Rightarrow> string list \<Rightarrow> bool \<Rightarrow> workspace_client
     \<Rightarrow> (exn + create_pipeline_response) \<times> workspace_client" where
  "create_pipeline name root_path catalog schema workspace_notebook_paths serverless w =
     (let libraries = notebook_libraries workspace_notebook_paths;
          kw = \<lparr>ck_name = name, ck_storage = root_path,
                ck_target = catalog @ ''.'' @ schema,
                ck_libraries = libraries, ck_continuous = False,
                ck_serverless = serverless\<rparr>
      in (on_create w kw, send (PipelinesCreate kw) w))"

definition get_pipeline ::
  "string \<Rightarrow> workspace_client \<Rightarrow> (exn + get_pipeline_response) \<times> workspace_client" where
  "get_pipeline pipeline_id w = (on_get_pipeline w pipeline_id, send (PipelinesGet pipeline_id) w)"

text \<open>
  \<open>update_pipeline\<close> builds its keyword arguments conditionally. The tests
  \<open>if name:\<close> and the like are Python truthiness: \<open>None\<close>, the empty string and the
  empty list are all false. Only \<open>serverless\<close> is compared with \<open>None\<close>.
\<close>

definition truthy_str :: "string option \<Rightarrow> bool" where
  "truthy_str s = (case s of None \<Rightarrow> False | Some v \<Rightarrow> v \<noteq> [])"

definition truthy_list :: "'a list option \<Rightarrow> bool" where
  "truthy_list xs = (case xs of None \<Rightarrow> False | Some v \<Rightarrow> v \<noteq> [])"

definition update_kwargs ::
  "string \<Rightarrow> string option \<Rightarrow> string option \<Rightarrow> string option \<Rightarrow> string option
     \<Rightarrow> string list option \<Rightarrow> bool option \<Rightarrow> kwargs" where
  "update_kwargs pipeline_id name root_path catalog schema workspace_notebook_paths serverless =
     [(''pipeline_id'', KStr pipeline_id)]
     @ (if truthy_str name then [(''name'', KStr (the name))] else [])
     @ (if truthy_str root_path then [(''storage'', KStr (the root_path))] else [])
     @ (if truthy_str catalog \<and> truthy_str schema
        then [(''target'', KStr (the catalog @ ''.'' @ the schema))] else [])
     @ (if truthy_list workspace_notebook_paths
        then [(''libraries'', KLibs (notebook_libraries (the workspace_notebook_paths)))] else [])
     @ (case serverless of None \<Rightarrow> [] | Some b \<Rightarrow> [(''serverless'', KBool b)])"

definition update_pipeline ::
  "string \<Rightarrow> string option \<Rightarrow> string option \<Rightarrow> string option \<Rightarrow> string option
     \<Rightarrow> string list option \<Rightarrow> bool option \<Rightarrow> workspace_client
     \<Rightarrow> (exn + unit) \<times> workspace_client" where
  "update_pipeline pipeline_id name root_path catalog schema workspace_notebook_paths serverless w =
     (let kw = update_kwargs pipeline_id name root_path catalog schema
                 workspace_notebook_paths serverless
      in (on_update w kw, send (PipelinesUpdate kw) w))"

definition delete_pipeline ::
  "string \<Rightarrow> workspace_client \<Rightarrow> (exn + unit) \<times> workspace_client" where
  "delete_pipeline pipeline_id w = (on_delete w pipeline_id, send (PipelinesDelete pipeline_id) w)"

definition start_update ::
  "string \<Rightarrow> string list option \<Rightarrow> bool \<Rightarrow> string list option \<Rightarrow> bool \<Rightarrow> workspace_client
     \<Rightarrow> (exn + string) \<times> workspace_client" where
  "start_update pipeline_id refresh_selection full_refresh full_refresh_selection validate_only w =
     (let kw = \<lparr>su_pipeline_id = pipeline_id, su_refresh_selection = refresh_selection,
                su_full_refresh = full_refresh,
                su_full_refresh_selection = full_refresh_selection,
                su_validate_only = validate_only\<rparr>
      in (case on_start_update w kw of
            Inl e \<Rightarrow> Inl e
          | Inr response \<Rightarrow> Inr (update_id response),
          send (PipelinesStartUpdate kw) w))"

definition get_update ::
  "string \<Rightarrow> string \<Rightarrow> workspace_client \<Rightarrow> (exn + get_update_response) \<times> workspace_client" where
  "get_update pipeline_id upd_id w =
     (on_get_update w pipeline_id upd_id, send (PipelinesGetUpdate pipeline_id upd_id) w)"

definition stop_pipeline ::
  "string \<Rightarrow> workspace_client \<Rightarrow> (exn + unit) \<times> workspace_client" where
  "stop_pipeline pipeline_id w = (on_stop w pipeline_id, send (PipelinesStop pipeline_id) w)"

definition get_pipeline_events ::
  "string \<Rightarrow> int \<Rightarrow> workspace_client \<Rightarrow> (exn + pipeline_event list) \<times> workspace_client" where
  "get_pipeline_events pipeline_id max_results w =
     (on_list_pipeline_events w pipeline_id max_results,
      send (PipelinesListEvents pipeline_id max_results) w)"

section \<open>Code outside the repository's sources\<close>

text \<open>
  The objects the Unity Catalog, workspace and execution functions of the core return,
  with the attributes the tool wrappers read. An enum attribute is the string its
  \<open>str()\<close> gives.
\<close>

record column_info =
  col_name :: "string option"
  col_type_name :: "string option"
  col_comment :: "string option"

record catalog_info =
  cat_name :: "string option"
  cat_full_name :: "string option"
  cat_owner :: "string option"
  cat_comment :: "string option"
  cat_created_at :: "int option"
  cat_updated_at :: "int option"
  cat_storage_location :: "string option"

record schema_info =
  sch_name :: "string option"
  sch_full_name :: "string option"
  sch_catalog_name :: "string option"
  sch_owner :: "string option"
  sch_comment :: "string option"
  sch_created_at :: "int option"
  sch_updated_at :: "int option"
  sch_storage_location :: "string option"

record table_info =
  tbl_name :: "string option"
  tbl_full_name :: "string option"
  tbl_catalog_name :: "string option"
  tbl_schema_name :: "string option"
  tbl_table_type :: "string option"
  tbl_owner :: "string option"
  tbl_comment :: "string option"
  tbl_created_at :: "int option"
  tbl_updated_at :: "int option"
  tbl_storage_location :: "string option"
  tbl_columns :: "column_info list option"

record object_info =
  obj_path :: "string option"
  obj_object_type :: "string option"
  obj_language :: "string option"
  obj_size :: "int option"

record execution_result =
  res_success :: bool
  res_output :: string
  res_error :: "string option"

datatype TableType = MANAGED | EXTERNAL

text \<open>
  What the tool wrappers use and the sources do not contain is a parameter of the model:
  \<^item> of Python and its libraries: \<open>json.dumps(\<cdot>, indent=2)\<close>, \<open>str()\<close> of a JSON value,
    the parser pydantic applies to a string given for an integer field, \<open>str()\<close> of a
    \<open>ValidationError\<close>, and the constructor of the SDK enum \<open>ColumnTypeName\<close>, which raises on an unknown name;
  \<^item> of the core: the modules \<open>workspace_files\<close>, \<open>catalogs\<close>, \<open>schemas\<close>, \<open>tables\<close>
    and \<open>execution\<close>; each function returns its result or raises.
\<close>

record environment =
  json_dumps :: "pyval \<Rightarrow> string"
  py_str :: "pyval \<Rightarrow> string"
  str_as_int :: "string \<Rightarrow> int option"
  str_validation_error :: "error_details list \<Rightarrow> string"
  ColumnTypeName :: "string \<Rightarrow> exn + string"
  list_files :: "string \<Rightarrow> exn + object_info list"
  get_file_status :: "string \<Rightarrow> exn + object_info"
  read_file :: "string \<Rightarrow> exn + string"
  write_file :: "string \<Rightarrow> string \<Rightarrow> string \<Rightarrow> bool \<Rightarrow> exn + unit"
  create_directory :: "string \<Rightarrow> exn + unit"
  delete_path :: "string \<Rightarrow> bool \<Rightarrow> exn + unit"
  list_catalogs :: "exn + catalog_info list"
  get_catalog :: "string \<Rightarrow> exn + catalog_info"
  list_schemas :: "string \<Rightarrow> exn + schema_info list"
  get_schema :: "pyval \<Rightarrow> exn + schema_info"
  create_schema :: "string \<Rightarrow> string \<Rightarrow> string option \<Rightarrow> exn + schema_info"
  update_schema :: "string \<Rightarrow> string option \<Rightarrow> string option \<Rightarrow> string option \<Rightarrow> exn + schema_info"
  delete_schema :: "string \<Rightarrow> exn + unit"
  list_tables :: "string \<Rightarrow> string \<Rightarrow> exn + table_info list"
  get_table :: "pyval \<Rightarrow> exn + table_info"
  create_table :: "string \<Rightarrow> string \<Rightarrow> string \<Rightarrow> column_info list \<Rightarrow> TableType
                     \<Rightarrow> string option \<Rightarrow> string option \<Rightarrow> exn + table_info"
  delete_table :: "pyval \<Rightarrow> exn + unit"
  create_context :: "string \<Rightarrow> string \<Rightarrow> exn + string"
  execute_command_with_context :: "string \<Rightarrow> string \<Rightarrow> string \<Rightarrow> exn + execution_result"
  destroy_context :: "string \<Rightarrow> string \<Rightarrow> exn + unit"
  execute_databricks_command :: "string \<Rightarrow> string \<Rightarrow> string \<Rightarrow> int \<Rightarrow> exn + execution_result"

text \<open>\<open>str()\<close> of a bool, of an int and of an optional string, as an f-string renders them.\<close>

definition str_bool :: "bool \<Rightarrow> string" where
  "str_bool b = (if b then ''True'' else ''False'')"

definition digit :: "nat \<Rightarrow> char" where
  "digit d = ''0123456789'' ! d"

fun str_nat :: "nat \<Rightarrow> string" where
  "str_nat n = (if n < 10 then [digit n] else str_nat (n div 10) @ [digit (n mod 10)])"

definition str_int :: "int \<Rightarrow> string" where
  "str_int i = (if i < 0 then ''-'' @ str_nat (nat (- i)) else str_nat (nat i))"

definition str_opt :: "string option \<Rightarrow> string" where
  "str_opt s = (case s of None \<Rightarrow> ''None'' | Some v \<Rightarrow> v)"

text \<open>\<open>s.endswith(suffix)\<close>: the last \<open>len(suffix)\<close> characters of \<open>s\<close> are \<open>suffix\<close>.\<close>

definition endswith :: "string \<Rightarrow> string \<Rightarrow> bool" where
  "endswith s suf = (length suf \<le> length s \<and> drop (length s - length suf) s = suf)"

section \<open>models/base.py: pydantic validation\<close>

text \<open>
  pydantic (version 2, lax mode) is modelled on JSON input. A field validator returns the
  coerced value or the error entries of the field; a model collects the entries of all its
  fields, in field order, and raises one \<open>ValidationError\<close> with them. A
  \<open>model_validator(mode='after')\<close> runs only when every field has validated; a
  \<open>ValueError\<close> it raises becomes a \<open>ValidationError\<close> with one entry of type
  \<open>value_error\<close> and empty location. The configuration of \<open>MCPInputModel\<close>:
  \<open>extra="ignore"\<close> (keys that are not fields are never looked at) and
  \<open>str_strip_whitespace=True\<close> (string fields are stripped).
\<close>

type_synonym 'a validated = "error_details list + 'a"

definition error_entry :: "loc_item list \<Rightarrow> string \<Rightarrow> string \<Rightarrow> error_details" where
  "error_entry l m t = \<lparr>loc = l, msg = m, etype = t\<rparr>"

text \<open>
  \<open>str_strip_whitespace\<close> trims the characters of Unicode's \<open>White_Space\<close> from both ends
  of the string: U+0009 to U+000D and U+0020 (one byte in UTF-8), U+0085 and U+00A0 (two
  bytes), U+1680, U+2000 to U+200A, U+2028, U+2029, U+202F, U+205F and U+3000 (three
  bytes).
\<close>

definition white_space1 :: "char \<Rightarrow> bool" where
  "white_space1 a = (a \<in> set [CHR 0x09, CHR 0x0A, CHR 0x0B, CHR 0x0C, CHR 0x0D, CHR 0x20])"

definition white_space2 :: "char \<Rightarrow> char \<Rightarrow> bool" where
  "white_space2 a b = (a = CHR 0xC2 \<and> b \<in> set [CHR 0x85, CHR 0xA0])"

definition white_space3 :: "char \<Rightarrow> char \<Rightarrow> char \<Rightarrow> bool" where
  "white_space3 a b c =
     ((a = CHR 0xE1 \<and> b = CHR 0x9A \<and> c = CHR 0x80)
      \<or> (a = CHR 0xE2 \<and> b = CHR 0x80
          \<and> c \<in> set [CHR 0x80, CHR 0x81, CHR 0x82, CHR 0x83, CHR 0x84, CHR 0x85, CHR 0x86,
                       CHR 0x87, CHR 0x88, CHR 0x89, CHR 0x8A, CHR 0xA8, CHR 0xA9, CHR 0xAF])
      \<or> (a = CHR 0xE2 \<and> b = CHR 0x81 \<and> c = CHR 0x9F)
      \<or> (a = CHR 0xE3 \<and> b = CHR 0x80 \<and> c = CHR 0x80))"

fun trim_start :: "string \<Rightarrow> string" where
  "trim_start (a # b # c # s) =
     (if white_space1 a then trim_start (b # c # s)
      else if white_space2 a b then trim_start (c # s)
      else if white_space3 a b c then trim_start s
      else a # b # c # s)"
| "trim_start [a, b] =
     (if white_space1 a then trim_start [b]
      else if white_space2 a b then []
      else [a, b])"
| "trim_start [a] = (if white_space1 a then [] else [a])"
| "trim_start [] = []"

text \<open>The same from the end, on the bytes in reverse order.\<close>

fun trim_end_rev :: "string \<Rightarrow> string" where
  "trim_end_rev (c # b # a # s) =
     (if white_space1 c then trim_end_rev (b # a # s)
      else if white_space2 b c then trim_end_rev (a # s)
      else if white_space3 a b c then trim_end_rev s
      else c # b # a # s)"
| "trim_end_rev [c, b] =
     (if white_space1 c then trim_end_rev [b]
      else if white_space2 b c then []
      else [c, b])"
| "trim_end_rev [c] = (if white_space1 c then [] else [c])"
| "trim_end_rev [] = []"

definition strip :: "string \<Rightarrow> string" where
  "strip s = rev (trim_end_rev (rev (trim_start s)))"

definition ascii_lower :: "string \<Rightarrow> string" where
  "ascii_lower s = map (\<lambda>c. if (65 :: nat) \<le> of_char c \<and> of_char c \<le> (90 :: nat)
                 then char_of (of_char c + (32 :: nat)) else c) s"

definition validate_str :: "loc_item list \<Rightarrow> pyval \<Rightarrow> string validated" where
  "validate_str l v =
     (case v of
        PStr s \<Rightarrow> Inr (strip s)
      | _ \<Rightarrow> Inl [error_entry l ''Input should be a valid string'' ''string_type''])"

definition validate_bool :: "loc_item list \<Rightarrow> pyval \<Rightarrow> bool validated" where
  "validate_bool l v =
     (let unable = Inl [error_entry l
            ''Input should be a valid boolean, unable to interpret input'' ''bool_parsing'']
      in case v of
        PBool b \<Rightarrow> Inr b
      | PInt i \<Rightarrow> if i = 0 then Inr False else if i = 1 then Inr True else unable
      | PStr s \<Rightarrow>
          if ascii_lower s \<in> set [''0'', ''f'', ''n'', ''no'', ''off'', ''false''] then Inr False
          else if ascii_lower s \<in> set [''1'', ''t'', ''y'', ''on'', ''yes'', ''true''] then Inr True
          else unable
      | _ \<Rightarrow> Inl [error_entry l ''Input should be a valid boolean'' ''bool_type''])"

definition validate_int :: "environment \<Rightarrow> int \<Rightarrow> int \<Rightarrow> loc_item list \<Rightarrow> pyval \<Rightarrow> int validated" where
  "validate_int lib ge le l v =
     (let bounded = (\<lambda>i.
            if le < i then Inl [error_entry l
                 (''Input should be less than or equal to '' @ str_int le) ''less_than_equal'']
            else if i < ge then Inl [error_entry l
                 (''Input should be greater than or equal to '' @ str_int ge) ''greater_than_equal'']
            else Inr i)
      in case v of
        PInt i \<Rightarrow> bounded i
      | PBool b \<Rightarrow> bounded (if b then 1 else 0)
      | PStr s \<Rightarrow>
          (case str_as_int lib s of
             Some i \<Rightarrow> bounded i
           | None \<Rightarrow> Inl [error_entry l
               ''Input should be a valid integer, unable to parse string as an integer''
               ''int_parsing''])
      | _ \<Rightarrow> Inl [error_entry l ''Input should be a valid integer'' ''int_type''])"

text \<open>The entries of the items of a list, each located by its index.\<close>

fun validate_items ::
  "(loc_item list \<Rightarrow> pyval \<Rightarrow> 'a validated) \<Rightarrow> loc_item list \<Rightarrow> nat \<Rightarrow> pyval list
     \<Rightarrow> 'a list validated" where
  "validate_items item l i [] = Inr []"
| "validate_items item l i (x # xs) =
     (case (item (l @ [LIdx i]) x, validate_items item l (Suc i) xs) of
        (Inr v, Inr vs) \<Rightarrow> Inr (v # vs)
      | (Inl e, Inr vs) \<Rightarrow> Inl e
      | (Inr v, Inl es) \<Rightarrow> Inl es
      | (Inl e, Inl es) \<Rightarrow> Inl (e @ es))"

definition validate_list ::
  "(loc_item list \<Rightarrow> pyval \<Rightarrow> 'a validated) \<Rightarrow> nat \<Rightarrow> loc_item list \<Rightarrow> pyval
     \<Rightarrow> 'a list validated" where
  "validate_list item min_length l v =
     (case v of
        PList xs \<Rightarrow>
          (case validate_items item l 0 xs of
             Inl es \<Rightarrow> Inl es
           | Inr vs \<Rightarrow>
               if length vs < min_length
               then Inl [error_entry l
                      (''List should have at least '' @ str_nat min_length
                       @ (if min_length = 1 then '' item'' else '' items'')
                       @ '' after validation, not '' @ str_nat (length vs)) ''too_short'']
               else Inr vs)
      | _ \<Rightarrow> Inl [error_entry l ''Input should be a valid list'' ''list_type''])"

text \<open>\<open>Optional[T]\<close>: \<open>None\<close> is accepted as it is.\<close>

definition nullable ::
  "(loc_item list \<Rightarrow> pyval \<Rightarrow> 'a validated) \<Rightarrow> loc_item list \<Rightarrow> pyval \<Rightarrow> 'a option validated" where
  "nullable inner l v =
     (case v of
        PNone \<Rightarrow> Inr None
      | _ \<Rightarrow> (case inner l v of Inl es \<Rightarrow> Inl es | Inr x \<Rightarrow> Inr (Some x)))"

text \<open>\<open>Field(...)\<close>: a required field. \<open>Field(default)\<close>: the default when the key is absent.\<close>

definition required ::
  "(loc_item list \<Rightarrow> pyval \<Rightarrow> 'a validated) \<Rightarrow> arguments \<Rightarrow> string \<Rightarrow> 'a validated" where
  "required inner args f =
     (case args f of
        None \<Rightarrow> Inl [error_entry [LKey f] ''Field required'' ''missing'']
      | Some v \<Rightarrow> inner [LKey f] v)"

definition with_default ::
  "'a \<Rightarrow> (loc_item list \<Rightarrow> pyval \<Rightarrow> 'a validated) \<Rightarrow> arguments \<Rightarrow> string \<Rightarrow> 'a validated" where
  "with_default d inner args f =
     (case args f of
        None \<Rightarrow> Inr d
      | Some v \<Rightarrow> inner [LKey f] v)"

text \<open>One more field of a model: the entries of all fields are kept, in field order.\<close>

definition field :: "('a \<Rightarrow> 'b) validated \<Rightarrow> 'a validated \<Rightarrow> 'b validated" where
  "field m x =
     (case (m, x) of
        (Inr g, Inr v) \<Rightarrow> Inr (g v)
      | (Inl es, Inr v) \<Rightarrow> Inl es
      | (Inr g, Inl es) \<Rightarrow> Inl es
      | (Inl es, Inl es') \<Rightarrow> Inl (es @ es'))"

definition model :: "'a validated \<Rightarrow> exn + 'a" where
  "model m = (case m of Inl es \<Rightarrow> Inl (ValidationError es) | Inr v \<Rightarrow> Inr v)"

definition value_error :: "string \<Rightarrow> exn" where
  "value_error m = ValidationError [error_entry [] (''Value error, '' @ m) ''value_error'']"

text \<open>The response envelope: \<open>isError\<close> is a key that is present (and true) or absent.\<close>

record segment =
  seg_type :: string
  seg_text :: string

record envelope =
  content :: "segment list"
  isError :: bool

definition text_response :: "string \<Rightarrow> envelope" where
  "text_response t = \<lparr>content = [\<lparr>seg_type = ''text'', seg_text = t\<rparr>], isError = False\<rparr>"

definition error_response :: "string \<Rightarrow> envelope" where
  "error_response t = \<lparr>content = [\<lparr>seg_type = ''text'', seg_text = t\<rparr>], isError = True\<rparr>"

definition str_loc_item :: "loc_item \<Rightarrow> string" where
  "str_loc_item x = (case x of LKey k \<Rightarrow> k | LIdx i \<Rightarrow> str_nat i)"

fun join :: "string \<Rightarrow> string list \<Rightarrow> string" where
  "join sep [] = []"
| "join sep [x] = x"
| "join sep (x # y # ys) = x @ sep @ join sep (y # ys)"

definition to_mcp_response :: "error_details list \<Rightarrow> envelope" where
  "to_mcp_response errors =
     (let error_msgs = map (\<lambda>error.
            ''  - '' @ join ''.'' (map str_loc_item (loc error)) @ '': '' @ msg error
            @ '' (type: '' @ etype error @ '')'') errors
      in error_response
           ([CHR 0xC3, CHR 0xA2, CHR 0xC5, CHR 0x92] @ '' Validation Error:'' @ [CHR 0x0A]
            @ join [CHR 0x0A] error_msgs))"

text \<open>
  The \<open>validate_input\<close> decorator: the wrapper builds the model from the arguments and
  calls the handler; it catches \<open>ValidationError\<close> only, whether the model or the handler
  raised it, and lets every other exception through.
\<close>

definition validate_input ::
  "(arguments \<Rightarrow> exn + 'a) \<Rightarrow> ('a \<Rightarrow> 's \<Rightarrow> (exn + envelope) \<times> 's) \<Rightarrow> arguments \<Rightarrow> 's
     \<Rightarrow> (exn + envelope) \<times> 's" where
  "validate_input mdl func arguments s =
     (case mdl arguments of
        Inl (ValidationError es) \<Rightarrow> (Inr (to_mcp_response es), s)
      | Inl e \<Rightarrow> (Inl e, s)
      | Inr validated_input \<Rightarrow>
          (case func validated_input s of
             (Inl (ValidationError es), s') \<Rightarrow> (Inr (to_mcp_response es), s')
           | r \<Rightarrow> r))"

section \<open>models/pipelines.py\<close>

record create_pipeline_input =
  cpi_name :: string
  cpi_root_path :: string
  cpi_catalog :: string
  cpi_schema :: string
  cpi_workspace_notebook_paths :: "string list"
  cpi_serverless :: bool

definition CreatePipelineInput :: "arguments \<Rightarrow> exn + create_pipeline_input" where
  "CreatePipelineInput args =
     model (field (field (field (field (field (field
       (Inr (\<lambda>a b c d e f. \<lparr>cpi_name = a, cpi_root_path = b, cpi_catalog = c, cpi_schema = d,
                           cpi_workspace_notebook_paths = e, cpi_serverless = f\<rparr>))
       (required validate_str args ''name''))
       (required validate_str args ''root_path''))
       (required validate_str args ''catalog''))
       (required validate_str args ''schema''))
       (required (validate_list validate_str 1) args ''workspace_notebook_paths''))
       (with_default True validate_bool args ''serverless''))"

record pipeline_id_input =
  pii_pipeline_id :: string

definition PipelineIdInput :: "arguments \<Rightarrow> exn + pipeline_id_input" where
  "PipelineIdInput args =
     model (field (Inr (\<lambda>a. \<lparr>pii_pipeline_id = a\<rparr>)) (required validate_str args ''pipeline_id''))"

text \<open>
  \<open>GetPipelineInput\<close>, \<open>DeletePipelineInput\<close> and \<open>StopPipelineInput\<close> have the one
  required string field \<open>pipeline_id\<close>.
\<close>

abbreviation "GetPipelineInput \<equiv> PipelineIdInput"
abbreviation "DeletePipelineInput \<equiv> PipelineIdInput"
abbreviation "StopPipelineInput \<equiv> PipelineIdInput"

record update_pipeline_input =
  upi_pipeline_id :: string
  upi_name :: "string option"
  upi_root_path :: "string option"
  upi_catalog :: "string option"
  upi_schema :: "string option"
  upi_workspace_notebook_paths :: "string list option"
  upi_serverless :: "bool option"

definition UpdatePipelineInput :: "arguments \<Rightarrow> exn + update_pipeline_input" where
  "UpdatePipelineInput args =
     model (field (field (field (field (field (field (field
       (Inr (\<lambda>a b c d e f g. \<lparr>upi_pipeline_id = a, upi_name = b, upi_root_path = c,
                             upi_catalog = d, upi_schema = e,
                             upi_workspace_notebook_paths = f, upi_serverless = g\<rparr>))
       (required validate_str args ''pipeline_id''))
       (with_default None (nullable validate_str) args ''name''))
       (with_default None (nullable validate_str) args ''root_path''))
       (with_default None (nullable validate_str) args ''catalog''))
       (with_default None (nullable validate_str) args ''schema''))
       (with_default None (nullable (validate_list validate_str 0)) args ''workspace_notebook_paths''))
       (with_default None (nullable validate_bool) args ''serverless''))"

record start_pipeline_update_input =
  spu_pipeline_id :: string
  spu_refresh_selection :: "string list option"
  spu_full_refresh :: bool
  spu_full_refresh_selection :: "string list option"

definition StartPipelineUpdateInput :: "arguments \<Rightarrow> exn + start_pipeline_update_input" where
  "StartPipelineUpdateInput args =
     model (field (field (field (field
       (Inr (\<lambda>a b c d. \<lparr>spu_pipeline_id = a, spu_refresh_selection = b, spu_full_refresh = c,
                       spu_full_refresh_selection = d\<rparr>))
       (required validate_str args ''pipeline_id''))
       (with_default None (nullable (validate_list validate_str 0)) args ''refresh_selection''))
       (with_default False validate_bool args ''full_refresh''))
       (with_default None (nullable (validate_list validate_str 0)) args ''full_refresh_selection''))"

text \<open>\<open>ValidatePipelineInput\<close> declares the same four fields.\<close>

abbreviation "ValidatePipelineInput \<equiv> StartPipelineUpdateInput"

record get_pipeline_update_status_input =
  gus_pipeline_id :: string
  gus_update_id :: string

definition GetPipelineUpdateStatusInput :: "arguments \<Rightarrow> exn + get_pipeline_update_status_input" where
  "GetPipelineUpdateStatusInput args =
     model (field (field
       (Inr (\<lambda>a b. \<lparr>gus_pipeline_id = a, gus_update_id = b\<rparr>))
       (required validate_str args ''pipeline_id''))
       (required validate_str args ''update_id''))"

record get_pipeline_events_input =
  gpe_pipeline_id :: string
  gpe_max_results :: int

definition GetPipelineEventsInput :: "environment \<Rightarrow> arguments \<Rightarrow> exn + get_pipeline_events_input" where
  "GetPipelineEventsInput env args =
     model (field (field
       (Inr (\<lambda>a b. \<lparr>gpe_pipeline_id = a, gpe_max_results = b\<rparr>))
       (required validate_str args ''pipeline_id''))
       (with_default 100 (validate_int env 1 1000) args ''max_results''))"

record path_input =
  path_of :: string

definition PathInput :: "arguments \<Rightarrow> exn + path_input" where
  "PathInput args =
     model (field (Inr (\<lambda>a. \<lparr>path_of = a\<rparr>)) (required validate_str args ''path''))"

text \<open>
  \<open>ListPipelineFilesInput\<close>, \<open>GetPipelineFileStatusInput\<close>, \<open>ReadPipelineFileInput\<close> and
  \<open>CreatePipelineDirectoryInput\<close> have the one required string field \<open>path\<close>.
\<close>

abbreviation "ListPipelineFilesInput \<equiv> PathInput"
abbreviation "GetPipelineFileStatusInput \<equiv> PathInput"
abbreviation "ReadPipelineFileInput \<equiv> PathInput"
abbreviation "CreatePipelineDirectoryInput \<equiv> PathInput"

record write_pipeline_file_input =
  wpf_path :: string
  wpf_content :: string
  wpf_language :: string
  wpf_overwrite :: bool

definition WritePipelineFileInput :: "arguments \<Rightarrow> exn + write_pipeline_file_input" where
  "WritePipelineFileInput args =
     model (field (field (field (field
       (Inr (\<lambda>a b c d. \<lparr>wpf_path = a, wpf_content = b, wpf_language = c, wpf_overwrite = d\<rparr>))
       (required validate_str args ''path''))
       (required validate_str args ''content''))
       (with_default ''PYTHON'' validate_str args ''language''))
       (with_default True validate_bool args ''overwrite''))"

record delete_pipeline_path_input =
  dpp_path :: string
  dpp_recursive :: bool

definition DeletePipelinePathInput :: "arguments \<Rightarrow> exn + delete_pipeline_path_input" where
  "DeletePipelinePathInput args =
     model (field (field
       (Inr (\<lambda>a b. \<lparr>dpp_path = a, dpp_recursive = b\<rparr>))
       (required validate_str args ''path''))
       (with_default False validate_bool args ''recursive''))"

section \<open>tools/spark\_declarative\_pipelines.py\<close>

abbreviation NL :: string where "NL \<equiv> [CHR 0x0A]"
abbreviation check_mark :: string where "check_mark \<equiv> [CHR 0xE2, CHR 0x9C, CHR 0x85]"
abbreviation cross_mark :: string where "cross_mark \<equiv> [CHR 0xE2, CHR 0x9D, CHR 0x8C]"
abbreviation bar_chart :: string where "bar_chart \<equiv> [CHR 0xF0, CHR 0x9F, CHR 0x93, CHR 0x8A]"
abbreviation hourglass :: string where "hourglass \<equiv> [CHR 0xE2, CHR 0x8F, CHR 0xB3]"
abbreviation arrows :: string where "arrows \<equiv> [CHR 0xF0, CHR 0x9F, CHR 0x94, CHR 0x84]"
abbreviation prohibited :: string where "prohibited \<equiv> [CHR 0xF0, CHR 0x9F, CHR 0x9A, CHR 0xAB]"
abbreviation question_mark :: string where "question_mark \<equiv> [CHR 0xE2, CHR 0x9D, CHR 0x93]"
abbreviation clipboard :: string where "clipboard \<equiv> [CHR 0xF0, CHR 0x9F, CHR 0x93, CHR 0x8B]"
abbreviation folder :: string where "folder \<equiv> [CHR 0xF0, CHR 0x9F, CHR 0x93, CHR 0x81]"
abbreviation page :: string where "page \<equiv> [CHR 0xF0, CHR 0x9F, CHR 0x93, CHR 0x84]"
abbreviation books :: string where "books \<equiv> [CHR 0xF0, CHR 0x9F, CHR 0x93, CHR 0x9A]"

text \<open>
  The two handlers every tool of this module ends with:
  \<open>except ValidationError\<close> answers with the itemized envelope, \<open>except Exception\<close>
  with an error envelope of the tool's prefix and \<open>str(e)\<close>.
\<close>

definition except_handlers :: "string \<Rightarrow> (exn + envelope) \<times> 's \<Rightarrow> (exn + envelope) \<times> 's" where
  "except_handlers label r =
     (case r of
        (Inr result, s) \<Rightarrow> (Inr result, s)
      | (Inl (ValidationError es), s) \<Rightarrow> (Inr (to_mcp_response es), s)
      | (Inl (PyException m), s) \<Rightarrow> (Inr (error_response (label @ m)), s))"

type_synonym tool = "arguments \<Rightarrow> workspace_client \<Rightarrow> (exn + envelope) \<times> workspace_client"

definition create_pipeline_tool :: tool where
  "create_pipeline_tool arguments w =
     except_handlers (cross_mark @ '' Error creating pipeline: '')
       (case CreatePipelineInput arguments of
          Inl e \<Rightarrow> (Inl e, w)
        | Inr input \<Rightarrow>
            (case create_pipeline (cpi_name input) (cpi_root_path input) (cpi_catalog input)
                    (cpi_schema input) (cpi_workspace_notebook_paths input)
                    (cpi_serverless input) w of
               (Inl e, w') \<Rightarrow> (Inl e, w')
             | (Inr result, w') \<Rightarrow>
                 (Inr (text_response
                    (check_mark @ '' Pipeline created successfully!'' @ NL @ NL
                     @ ''Pipeline ID: '' @ cr_pipeline_id result @ NL
                     @ ''Name: '' @ cpi_name input @ NL
                     @ ''Target: '' @ cpi_catalog input @ ''.'' @ cpi_schema input @ NL
                     @ ''Storage: '' @ cpi_root_path input @ NL
                     @ ''Serverless: '' @ str_bool (cpi_serverless input))), w')))"

definition get_pipeline_tool :: "environment \<Rightarrow> tool" where
  "get_pipeline_tool env arguments w =
     except_handlers (cross_mark @ '' Error getting pipeline: '')
       (case GetPipelineInput arguments of
          Inl e \<Rightarrow> (Inl e, w)
        | Inr input \<Rightarrow>
            (case get_pipeline (pii_pipeline_id input) w of
               (Inl e, w') \<Rightarrow> (Inl e, w')
             | (Inr result, w') \<Rightarrow>
                 (let name = (if truthy_str (gp_name result) then the (gp_name result)
                              else ''unknown'');
                      st = (if truthy_str (gp_state result) then the (gp_state result)
                            else ''unknown'');
                      tgt = (case gp_spec result of
                               Some spec \<Rightarrow> str_opt (target spec)
                             | None \<Rightarrow> ''unknown'')
                  in (Inr (text_response
                    (bar_chart @ '' Pipeline Details'' @ NL @ NL
                     @ ''Name: '' @ name @ NL
                     @ ''State: '' @ st @ NL
                     @ ''Target: '' @ tgt @ NL
                     @ ''Pipeline ID: '' @ pii_pipeline_id input @ NL @ NL
                     @ ''Full configuration:'' @ NL @ json_dumps env (gp_as_dict result))), w'))))"

definition update_pipeline_config_tool :: tool where
  "update_pipeline_config_tool arguments w =
     except_handlers (cross_mark @ '' Error updating pipeline: '')
       (case UpdatePipelineInput arguments of
          Inl e \<Rightarrow> (Inl e, w)
        | Inr input \<Rightarrow>
            (case update_pipeline (upi_pipeline_id input) (upi_name input) (upi_root_path input)
                    (upi_catalog input) (upi_schema input)
                    (upi_workspace_notebook_paths input) (upi_serverless input) w of
               (Inl e, w') \<Rightarrow> (Inl e, w')
             | (Inr _, w') \<Rightarrow>
                 (Inr (text_response
                    (check_mark @ '' Pipeline configuration updated successfully!'' @ NL @ NL
                     @ ''Pipeline ID: '' @ upi_pipeline_id input)), w')))"

definition delete_pipeline_tool :: tool where
  "delete_pipeline_tool arguments w =
     except_handlers (cross_mark @ '' Error deleting pipeline: '')
       (case DeletePipelineInput arguments of
          Inl e \<Rightarrow> (Inl e, w)
        | Inr input \<Rightarrow>
            (case delete_pipeline (pii_pipeline_id input) w of
               (Inl e, w') \<Rightarrow> (Inl e, w')
             | (Inr _, w') \<Rightarrow>
                 (Inr (text_response
                    (check_mark @ '' Pipeline deleted successfully!'' @ NL @ NL
                     @ ''Pipeline ID: '' @ pii_pipeline_id input)), w')))"

definition start_pipeline_update_tool :: tool where
  "start_pipeline_update_tool arguments w =
     except_handlers (cross_mark @ '' Error starting update: '')
       (case StartPipelineUpdateInput arguments of
          Inl e \<Rightarrow> (Inl e, w)
        | Inr input \<Rightarrow>
            (case start_update (spu_pipeline_id input) (spu_refresh_selection input)
                    (spu_full_refresh input) (spu_full_refresh_selection input) False w of
               (Inl e, w') \<Rightarrow> (Inl e, w')
             | (Inr upd_id, w') \<Rightarrow>
                 (Inr (text_response
                    (check_mark @ '' Pipeline update started!'' @ NL @ NL
                     @ ''Pipeline ID: '' @ spu_pipeline_id input @ NL
                     @ ''Update ID: '' @ upd_id @ NL
                     @ ''Full Refresh: '' @ str_bool (spu_full_refresh input) @ NL @ NL
                     @ ''Use get_pipeline_update_status to poll.'')), w')))"

definition validate_pipeline_tool :: tool where
  "validate_pipeline_tool arguments w =
     except_handlers (cross_mark @ '' Error starting validation: '')
       (case ValidatePipelineInput arguments of
          Inl e \<Rightarrow> (Inl e, w)
        | Inr input \<Rightarrow>
            (case start_update (spu_pipeline_id input) (spu_refresh_selection input)
                    (spu_full_refresh input) (spu_full_refresh_selection input) True w of
               (Inl e, w') \<Rightarrow> (Inl e, w')
             | (Inr upd_id, w') \<Rightarrow>
                 (Inr (text_response
                    (check_mark @ '' Pipeline validation started (dry-run mode)!'' @ NL @ NL
                     @ ''Pipeline ID: '' @ spu_pipeline_id input @ NL
                     @ ''Update ID: '' @ upd_id @ NL @ NL
                     @ ''Use get_pipeline_update_status to check results.'')), w')))"

text \<open>
  The variable \<open>state\<close> of the status tool holds \<open>result.update.state\<close>, a member of the
  enum or \<open>None\<close>, or the string \<open>unknown\<close> when the answer has no update. The keys of
  the table of emoji are strings: only a string can be found in it.
\<close>

datatype state_value = Member UpdateInfoState | NoState | Str string

definition str_state :: "state_value \<Rightarrow> string" where
  "str_state st =
     (case st of
        Member (UpdateInfoState m) \<Rightarrow> ''UpdateInfoState.'' @ m
      | NoState \<Rightarrow> ''None''
      | Str k \<Rightarrow> k)"

definition state_emoji :: "state_value \<Rightarrow> string" where
  "state_emoji st =
     (case st of
        Str k \<Rightarrow>
          (case map_of [(''QUEUED'', hourglass), (''RUNNING'', arrows),
                        (''COMPLETED'', check_mark), (''FAILED'', cross_mark),
                        (''CANCELED'', prohibited)] k of
             Some e \<Rightarrow> e
           | None \<Rightarrow> question_mark)
      | _ \<Rightarrow> question_mark)"

definition status_text :: "environment \<Rightarrow> get_pipeline_update_status_input \<Rightarrow> get_update_response \<Rightarrow> string" where
  "status_text env input result =
     (let st = (case update result of
                  Some u \<Rightarrow> (case state u of Some m \<Rightarrow> Member m | None \<Rightarrow> NoState)
                | None \<Rightarrow> Str ''unknown'');
          emoji = state_emoji st
      in emoji @ '' Pipeline Update Status'' @ NL @ NL
         @ ''State: '' @ str_state st @ NL
         @ ''Pipeline ID: '' @ gus_pipeline_id input @ NL
         @ ''Update ID: '' @ gus_update_id input @ NL @ NL
         @ ''Full status:'' @ NL @ json_dumps env (gu_as_dict result))"

definition get_pipeline_update_status_tool :: "environment \<Rightarrow> tool" where
  "get_pipeline_update_status_tool env arguments w =
     except_handlers (cross_mark @ '' Error getting update status: '')
       (case GetPipelineUpdateStatusInput arguments of
          Inl e \<Rightarrow> (Inl e, w)
        | Inr input \<Rightarrow>
            (case get_update (gus_pipeline_id input) (gus_update_id input) w of
               (Inl e, w') \<Rightarrow> (Inl e, w')
             | (Inr result, w') \<Rightarrow> (Inr (text_response (status_text env input result)), w')))"

definition stop_pipeline_tool :: tool where
  "stop_pipeline_tool arguments w =
     except_handlers (cross_mark @ '' Error stopping pipeline: '')
       (case StopPipelineInput arguments of
          Inl e \<Rightarrow> (Inl e, w)
        | Inr input \<Rightarrow>
            (case stop_pipeline (pii_pipeline_id input) w of
               (Inl e, w') \<Rightarrow> (Inl e, w')
             | (Inr _, w') \<Rightarrow>
                 (Inr (text_response
                    (check_mark @ '' Pipeline stop request sent!'' @ NL @ NL
                     @ ''Pipeline ID: '' @ pii_pipeline_id input)), w')))"

text \<open>
  The counting pass of \<open>get_pipeline_events_tool\<close>:
  \<open>sum(1 for e in events if e.event_type and e.event_type.endswith("_failed"))\<close>.
\<close>

definition is_error_event :: "pipeline_event \<Rightarrow> bool" where
  "is_error_event e =
     (case event_type e of
        None \<Rightarrow> False
      | Some t \<Rightarrow> t \<noteq> [] \<and> endswith t ''_failed'')"

definition error_count :: "pipeline_event list \<Rightarrow> int" where
  "error_count events = sum_list (map (\<lambda>e. 1) (filter is_error_event events))"

definition event_count :: "pipeline_event list \<Rightarrow> int" where
  "event_count events = int (length events)"

definition events_text :: "environment \<Rightarrow> get_pipeline_events_input \<Rightarrow> pipeline_event list \<Rightarrow> string" where
  "events_text env input events =
     (let events_dict = PList (map ev_as_dict events)
      in clipboard @ '' Pipeline Events'' @ NL @ NL
         @ ''Pipeline ID: '' @ gpe_pipeline_id input @ NL
         @ ''Total Events: '' @ str_int (event_count events) @ NL
         @ ''Error Events: '' @ str_int (error_count events) @ NL @ NL
         @ ''Events:'' @ NL @ json_dumps env events_dict)"

definition get_pipeline_events_tool :: "environment \<Rightarrow> tool" where
  "get_pipeline_events_tool env arguments w =
     except_handlers (cross_mark @ '' Error getting pipeline events: '')
       (case GetPipelineEventsInput env arguments of
          Inl e \<Rightarrow> (Inl e, w)
        | Inr input \<Rightarrow>
            (case get_pipeline_events (gpe_pipeline_id input) (gpe_max_results input) w of
               (Inl e, w') \<Rightarrow> (Inl e, w')
             | (Inr events, w') \<Rightarrow> (Inr (text_response (events_text env input events)), w')))"

text \<open>The workspace file tools call the core module \<open>workspace_files\<close>.\<close>

definition list_pipeline_files_tool :: "environment \<Rightarrow> tool" where
  "list_pipeline_files_tool env arguments w =
     except_handlers (cross_mark @ '' Error listing files: '')
       (case ListPipelineFilesInput arguments of
          Inl e \<Rightarrow> (Inl e, w)
        | Inr input \<Rightarrow>
            (case list_files env (path_of input) of
               Inl e \<Rightarrow> (Inl e, w)
             | Inr files \<Rightarrow>
                 (Inr (text_response
                    (folder @ '' Files in '' @ path_of input @ NL @ NL
                     @ ''Total: '' @ str_nat (length files) @ NL @ NL
                     @ join NL (map (\<lambda>f. ''- '' @ str_opt (obj_path f)
                                         @ '' ('' @ str_opt (obj_object_type f) @ '')'') files))), w)))"

definition truthy_int :: "int option \<Rightarrow> bool" where
  "truthy_int i = (case i of None \<Rightarrow> False | Some v \<Rightarrow> v \<noteq> 0)"

definition get_pipeline_file_status_tool :: "environment \<Rightarrow> tool" where
  "get_pipeline_file_status_tool env arguments w =
     except_handlers (cross_mark @ '' Error getting file status: '')
       (case GetPipelineFileStatusInput arguments of
          Inl e \<Rightarrow> (Inl e, w)
        | Inr input \<Rightarrow>
            (case get_file_status env (path_of input) of
               Inl e \<Rightarrow> (Inl e, w)
             | Inr status \<Rightarrow>
                 (Inr (text_response
                    (page @ '' File Status'' @ NL @ NL
                     @ ''Path: '' @ str_opt (obj_path status) @ NL
                     @ ''Type: '' @ str_opt (obj_object_type status) @ NL
                     @ ''Language: '' @ (if truthy_str (obj_language status)
                                         then the (obj_language status) else ''N/A'') @ NL
                     @ ''Size: '' @ (if truthy_int (obj_size status)
                                     then str_int (the (obj_size status)) else ''N/A'')
                     @ '' bytes'')), w)))"

definition read_pipeline_file_tool :: "environment \<Rightarrow> tool" where
  "read_pipeline_file_tool env arguments w =
     except_handlers (cross_mark @ '' Error reading file: '')
       (case ReadPipelineFileInput arguments of
          Inl e \<Rightarrow> (Inl e, w)
        | Inr input \<Rightarrow>
            (case read_file env (path_of input) of
               Inl e \<Rightarrow> (Inl e, w)
             | Inr cont \<Rightarrow>
                 (Inr (text_response
                    (page @ '' File: '' @ path_of input @ NL @ NL
                     @ ''```'' @ NL @ cont @ NL @ ''```'')), w)))"

definition write_pipeline_file_tool :: "environment \<Rightarrow> tool" where
  "write_pipeline_file_tool env arguments w =
     except_handlers (cross_mark @ '' Error writing file: '')
       (case WritePipelineFileInput arguments of
          Inl e \<Rightarrow> (Inl e, w)
        | Inr input \<Rightarrow>
            (case write_file env (wpf_path input) (wpf_content input) (wpf_language input)
                    (wpf_overwrite input) of
               Inl e \<Rightarrow> (Inl e, w)
             | Inr _ \<Rightarrow>
                 (Inr (text_response
                    (check_mark @ '' File written successfully!'' @ NL @ NL
                     @ ''Path: '' @ wpf_path input @ NL
                     @ ''Language: '' @ wpf_language input)), w)))"

definition create_pipeline_directory_tool :: "environment \<Rightarrow> tool" where
  "create_pipeline_directory_tool env arguments w =
     except_handlers (cross_mark @ '' Error creating directory: '')
       (case CreatePipelineDirectoryInput arguments of
          Inl e \<Rightarrow> (Inl e, w)
        | Inr input \<Rightarrow>
            (case create_directory env (path_of input) of
               Inl e \<Rightarrow> (Inl e, w)
             | Inr _ \<Rightarrow>
                 (Inr (text_response
                    (check_mark @ '' Directory created successfully!'' @ NL @ NL
                     @ ''Path: '' @ path_of input)), w)))"

definition delete_pipeline_path_tool :: "environment \<Rightarrow> tool" where
  "delete_pipeline_path_tool env arguments w =
     except_handlers (cross_mark @ '' Error deleting path: '')
       (case DeletePipelinePathInput arguments of
          Inl e \<Rightarrow> (Inl e, w)
        | Inr input \<Rightarrow>
            (case delete_path env (dpp_path input) (dpp_recursive input) of
               Inl e \<Rightarrow> (Inl e, w)
             | Inr _ \<Rightarrow>
                 (Inr (text_response
                    (check_mark @ '' Path deleted successfully!'' @ NL @ NL
                     @ ''Path: '' @ dpp_path input)), w)))"

definition pipelines_TOOL_HANDLERS :: "(string \<times> (environment \<Rightarrow> tool)) list" where
  "pipelines_TOOL_HANDLERS =
     [(''create_pipeline'', \<lambda>env. create_pipeline_tool),
      (''get_pipeline'', get_pipeline_tool),
      (''update_pipeline_config'', \<lambda>env. update_pipeline_config_tool),
      (''delete_pipeline'', \<lambda>env. delete_pipeline_tool),
      (''start_pipeline_update'', \<lambda>env. start_pipeline_update_tool),
      (''validate_pipeline'', \<lambda>env. validate_pipeline_tool),
      (''get_pipeline_update_status'', get_pipeline_update_status_tool),
      (''stop_pipeline'', \<lambda>env. stop_pipeline_tool),
      (''get_pipeline_events'', get_pipeline_events_tool),
      (''list_pipeline_files'', list_pipeline_files_tool),
      (''get_pipeline_file_status'', get_pipeline_file_status_tool),
      (''read_pipeline_file'', read_pipeline_file_tool),
      (''write_pipeline_file'', write_pipeline_file_tool),
      (''create_pipeline_directory'', create_pipeline_directory_tool),
      (''delete_pipeline_path'', delete_pipeline_path_tool)]"

section \<open>models/common.py and models/unity\_catalog.py\<close>

text \<open>
  An enum field accepts the values of the enum; with \<open>use_enum_values=True\<close> the model
  holds the value, a string.
\<close>

definition validate_enum :: "string list \<Rightarrow> string \<Rightarrow> loc_item list \<Rightarrow> pyval \<Rightarrow> string validated" where
  "validate_enum vals expected l v =
     (case v of
        PStr s \<Rightarrow> if s \<in> set vals then Inr s
                  else Inl [error_entry l (''Input should be '' @ expected) ''enum'']
      | _ \<Rightarrow> Inl [error_entry l (''Input should be '' @ expected) ''enum''])"

abbreviation SQ :: string where "SQ \<equiv> [CHR 0x27]"

definition TableTypeEnum :: "loc_item list \<Rightarrow> pyval \<Rightarrow> string validated" where
  "TableTypeEnum =
     validate_enum [''MANAGED'', ''EXTERNAL'']
       (SQ @ ''MANAGED'' @ SQ @ '' or '' @ SQ @ ''EXTERNAL'' @ SQ)"

definition LanguageEnum :: "loc_item list \<Rightarrow> pyval \<Rightarrow> string validated" where
  "LanguageEnum =
     validate_enum [''python'', ''sql'', ''scala'', ''r'']
       (SQ @ ''python'' @ SQ @ '', '' @ SQ @ ''sql'' @ SQ @ '', '' @ SQ @ ''scala'' @ SQ
        @ '' or '' @ SQ @ ''r'' @ SQ)"

text \<open>A field of a model nested at location \<open>l\<close>.\<close>

definition required_in ::
  "loc_item list \<Rightarrow> (loc_item list \<Rightarrow> pyval \<Rightarrow> 'a validated) \<Rightarrow> arguments \<Rightarrow> string
     \<Rightarrow> 'a validated" where
  "required_in l inner args f =
     (case args f of
        None \<Rightarrow> Inl [error_entry (l @ [LKey f]) ''Field required'' ''missing'']
      | Some v \<Rightarrow> inner (l @ [LKey f]) v)"

definition with_default_in ::
  "loc_item list \<Rightarrow> 'a \<Rightarrow> (loc_item list \<Rightarrow> pyval \<Rightarrow> 'a validated) \<Rightarrow> arguments \<Rightarrow> string
     \<Rightarrow> 'a validated" where
  "with_default_in l d inner args f =
     (case args f of
        None \<Rightarrow> Inr d
      | Some v \<Rightarrow> inner (l @ [LKey f]) v)"

record column_model =
  cm_name :: string
  cm_type_name :: string
  cm_comment :: "string option"

definition ColumnModel :: "loc_item list \<Rightarrow> pyval \<Rightarrow> column_model validated" where
  "ColumnModel l v =
     (case v of
        PDict kvs \<Rightarrow>
          field (field (field
            (Inr (\<lambda>a b c. \<lparr>cm_name = a, cm_type_name = b, cm_comment = c\<rparr>))
            (required_in l validate_str (map_of kvs) ''name''))
            (required_in l validate_str (map_of kvs) ''type_name''))
            (with_default_in l None (nullable validate_str) (map_of kvs) ''comment'')
      | _ \<Rightarrow> Inl [error_entry l
                ''Input should be a valid dictionary or instance of ColumnModel''
                ''model_type''])"

definition to_sdk :: "environment \<Rightarrow> column_model \<Rightarrow> exn + column_info" where
  "to_sdk env c =
     (case ColumnTypeName env (cm_type_name c) of
        Inl e \<Rightarrow> Inl e
      | Inr t \<Rightarrow> Inr \<lparr>col_name = Some (cm_name c), col_type_name = Some t,
                      col_comment = cm_comment c\<rparr>)"

definition table_type_to_sdk :: "string \<Rightarrow> exn + TableType" where
  "table_type_to_sdk table_type =
     (if table_type = ''MANAGED'' then Inr MANAGED
      else if table_type = ''EXTERNAL'' then Inr EXTERNAL
      else Inl (PyException (''Unknown table type: '' @ table_type)))"

definition ListCatalogsInput :: "arguments \<Rightarrow> exn + unit" where
  "ListCatalogsInput args = model (Inr ())"

record get_catalog_input =
  gci_catalog_name :: string

definition GetCatalogInput :: "arguments \<Rightarrow> exn + get_catalog_input" where
  "GetCatalogInput args =
     model (field (Inr (\<lambda>a. \<lparr>gci_catalog_name = a\<rparr>))
       (required validate_str args ''catalog_name''))"

text \<open>
  \<open>any([self.new_name, self.comment])\<close>: one of the two is neither \<open>None\<close> nor the
  empty string.
\<close>

record update_catalog_input =
  uci_catalog_name :: string
  uci_new_name :: "string option"
  uci_comment :: "string option"

definition UpdateCatalogInput_at_least_one_update :: "update_catalog_input \<Rightarrow> exn + update_catalog_input" where
  "UpdateCatalogInput_at_least_one_update self =
     (if \<not> (truthy_str (uci_new_name self) \<or> truthy_str (uci_comment self))
      then Inl (value_error (''At least one of '' @ SQ @ ''new_name'' @ SQ @ '' or '' @ SQ
                             @ ''comment'' @ SQ @ '' must be provided''))
      else Inr self)"

definition UpdateCatalogInput :: "arguments \<Rightarrow> exn + update_catalog_input" where
  "UpdateCatalogInput args =
     (case model (field (field (field
              (Inr (\<lambda>a b c. \<lparr>uci_catalog_name = a, uci_new_name = b, uci_comment = c\<rparr>))
              (required validate_str args ''catalog_name''))
              (with_default None (nullable validate_str) args ''new_name''))
              (with_default None (nullable validate_str) args ''comment'')) of
        Inl e \<Rightarrow> Inl e
      | Inr self \<Rightarrow> UpdateCatalogInput_at_least_one_update self)"

definition ListSchemasInput :: "arguments \<Rightarrow> exn + get_catalog_input" where
  "ListSchemasInput args =
     model (field (Inr (\<lambda>a. \<lparr>gci_catalog_name = a\<rparr>))
       (required validate_str args ''catalog_name''))"

record create_schema_input =
  csi_catalog_name :: string
  csi_schema_name :: string
  csi_comment :: "string option"

definition CreateSchemaInput :: "arguments \<Rightarrow> exn + create_schema_input" where
  "CreateSchemaInput args =
     model (field (field (field
       (Inr (\<lambda>a b c. \<lparr>csi_catalog_name = a, csi_schema_name = b, csi_comment = c\<rparr>))
       (required validate_str args ''catalog_name''))
       (required validate_str args ''schema_name''))
       (with_default None (nullable validate_str) args ''comment''))"

record update_schema_input =
  usi_catalog_name :: string
  usi_schema_name :: string
  usi_new_name :: "string option"
  usi_comment :: "string option"

definition UpdateSchemaInput_at_least_one_update :: "update_schema_input \<Rightarrow> exn + update_schema_input" where
  "UpdateSchemaInput_at_least_one_update self =
     (if \<not> (truthy_str (usi_new_name self) \<or> truthy_str (usi_comment self))
      then Inl (value_error (''At least one of '' @ SQ @ ''new_name'' @ SQ @ '' or '' @ SQ
                             @ ''comment'' @ SQ @ '' must be provided''))
      else Inr self)"

definition UpdateSchemaInput :: "arguments \<Rightarrow> exn + update_schema_input" where
  "UpdateSchemaInput args =
     (case model (field (field (field (field
              (Inr (\<lambda>a b c d. \<lparr>usi_catalog_name = a, usi_schema_name = b, usi_new_name = c,
                              usi_comment = d\<rparr>))
              (required validate_str args ''catalog_name''))
              (required validate_str args ''schema_name''))
              (with_default None (nullable validate_str) args ''new_name''))
              (with_default None (nullable validate_str) args ''comment'')) of
        Inl e \<Rightarrow> Inl e
      | Inr self \<Rightarrow> UpdateSchemaInput_at_least_one_update self)"

record delete_schema_input =
  dsi_catalog_name :: string
  dsi_schema_name :: string
  dsi_force :: bool

definition DeleteSchemaInput :: "arguments \<Rightarrow> exn + delete_schema_input" where
  "DeleteSchemaInput args =
     model (field (field (field
       (Inr (\<lambda>a b c. \<lparr>dsi_catalog_name = a, dsi_schema_name = b, dsi_force = c\<rparr>))
       (required validate_str args ''catalog_name''))
       (required validate_str args ''schema_name''))
       (with_default False validate_bool args ''force''))"

record list_tables_input =
  lti_catalog_name :: string
  lti_schema_name :: string

definition ListTablesInput :: "arguments \<Rightarrow> exn + list_tables_input" where
  "ListTablesInput args =
     model (field (field
       (Inr (\<lambda>a b. \<lparr>lti_catalog_name = a, lti_schema_name = b\<rparr>))
       (required validate_str args ''catalog_name''))
       (required validate_str args ''schema_name''))"

record create_table_input =
  cti_catalog_name :: string
  cti_schema_name :: string
  cti_table_name :: string
  cti_columns :: "column_model list"
  cti_table_type :: string
  cti_comment :: "string option"
  cti_storage_location :: "string option"

definition validate_external_storage :: "create_table_input \<Rightarrow> exn + create_table_input" where
  "validate_external_storage self =
     (if cti_table_type self = ''EXTERNAL'' \<and> \<not> truthy_str (cti_storage_location self)
      then Inl (value_error ''storage_location is required for EXTERNAL tables'')
      else Inr self)"

definition CreateTableInput :: "arguments \<Rightarrow> exn + create_table_input" where
  "CreateTableInput args =
     (case model (field (field (field (field (field (field (field
              (Inr (\<lambda>a b c d e f g. \<lparr>cti_catalog_name = a, cti_schema_name = b,
                                    cti_table_name = c, cti_columns = d, cti_table_type = e,
                                    cti_comment = f, cti_storage_location = g\<rparr>))
              (required validate_str args ''catalog_name''))
              (required validate_str args ''schema_name''))
              (required validate_str args ''table_name''))
              (required (validate_list ColumnModel 1) args ''columns''))
              (with_default ''MANAGED'' TableTypeEnum args ''table_type''))
              (with_default None (nullable validate_str) args ''comment''))
              (with_default None (nullable validate_str) args ''storage_location'')) of
        Inl e \<Rightarrow> Inl e
      | Inr self \<Rightarrow> validate_external_storage self)"

section \<open>tools/unity\_catalog.py\<close>

text \<open>\<open>arguments.get(key)\<close>: \<open>None\<close> when the key is absent.\<close>

definition dict_get :: "arguments \<Rightarrow> string \<Rightarrow> pyval" where
  "dict_get arguments k = (case arguments k of None \<Rightarrow> PNone | Some v \<Rightarrow> v)"

definition str_exn :: "environment \<Rightarrow> exn \<Rightarrow> string" where
  "str_exn env e = (case e of PyException m \<Rightarrow> m | ValidationError es \<Rightarrow> str_validation_error env es)"

text \<open>A handler with the one clause \<open>except Exception\<close>.\<close>

definition except_exception ::
  "environment \<Rightarrow> string \<Rightarrow> (exn + envelope) \<times> 's \<Rightarrow> (exn + envelope) \<times> 's" where
  "except_exception env label r =
     (case r of
        (Inr result, s) \<Rightarrow> (Inr result, s)
      | (Inl e, s) \<Rightarrow> (Inr (error_response (label @ str_exn env e)), s))"

definition or_NA :: "string option \<Rightarrow> string" where
  "or_NA s = (if truthy_str s then the s else ''N/A'')"

definition list_catalogs_tool :: "environment \<Rightarrow> tool" where
  "list_catalogs_tool env arguments w =
     except_handlers ''Error: ''
       (case ListCatalogsInput arguments of
          Inl e \<Rightarrow> (Inl e, w)
        | Inr input \<Rightarrow>
            (case list_catalogs env of
               Inl e \<Rightarrow> (Inl e, w)
             | Inr catalog_list \<Rightarrow>
                 (Inr (text_response
                    (''Found '' @ str_nat (length catalog_list) @ '' catalogs:'' @ NL @ NL
                     @ concat (map (\<lambda>catalog.
                         books @ '' '' @ str_opt (cat_name catalog) @ NL
                         @ (if truthy_str (cat_comment catalog)
                            then ''   Comment: '' @ the (cat_comment catalog) @ NL else [])
                         @ ''   Owner: '' @ str_opt (cat_owner catalog) @ NL
                         @ (if truthy_int (cat_created_at catalog)
                            then ''   Created: '' @ str_int (the (cat_created_at catalog)) @ NL @ NL
                            else [])) catalog_list))), w)))"

definition get_catalog_tool :: "environment \<Rightarrow> tool" where
  "get_catalog_tool env arguments w =
     except_handlers ''Error: ''
       (case GetCatalogInput arguments of
          Inl e \<Rightarrow> (Inl e, w)
        | Inr input \<Rightarrow>
            (case get_catalog env (gci_catalog_name input) of
               Inl e \<Rightarrow> (Inl e, w)
             | Inr catalog \<Rightarrow>
                 (Inr (text_response
                    (books @ '' Catalog: '' @ str_opt (cat_name catalog) @ NL
                     @ ''   Full Name: '' @ str_opt (cat_full_name catalog) @ NL
                     @ ''   Owner: '' @ str_opt (cat_owner catalog) @ NL
                     @ ''   Comment: '' @ or_NA (cat_comment catalog) @ NL
                     @ (if truthy_int (cat_created_at catalog)
                        then ''   Created: '' @ str_int (the (cat_created_at catalog)) @ NL else [])
                     @ (if truthy_int (cat_updated_at catalog)
                        then ''   Updated: '' @ str_int (the (cat_updated_at catalog)) @ NL else [])
                     @ (if truthy_str (cat_storage_location catalog)
                        then ''   Storage Location: '' @ the (cat_storage_location catalog) @ NL
                        else []))), w)))"

definition list_schemas_tool :: "environment \<Rightarrow> tool" where
  "list_schemas_tool env arguments w =
     except_handlers ''Error: ''
       (case ListSchemasInput arguments of
          Inl e \<Rightarrow> (Inl e, w)
        | Inr input \<Rightarrow>
            (case list_schemas env (gci_catalog_name input) of
               Inl e \<Rightarrow> (Inl e, w)
             | Inr schema_list \<Rightarrow>
                 (Inr (text_response
                    (''Found '' @ str_nat (length schema_list) @ '' schemas in '' @ SQ
                     @ gci_catalog_name input @ SQ @ '':'' @ NL @ NL
                     @ concat (map (\<lambda>schema.
                         folder @ '' '' @ str_opt (sch_name schema) @ NL
                         @ (if truthy_str (sch_comment schema)
                            then ''   Comment: '' @ the (sch_comment schema) @ NL else [])
                         @ ''   Owner: '' @ str_opt (sch_owner schema) @ NL
                         @ ''   Full Name: '' @ str_opt (sch_full_name schema) @ NL @ NL)
                       schema_list))), w)))"

definition get_schema_tool :: "environment \<Rightarrow> tool" where
  "get_schema_tool env arguments w =
     except_exception env ''Error: ''
       (case get_schema env (dict_get arguments ''full_schema_name'') of
          Inl e \<Rightarrow> (Inl e, w)
        | Inr schema \<Rightarrow>
            (Inr (text_response
               (folder @ '' Schema: '' @ str_opt (sch_name schema) @ NL
                @ ''   Full Name: '' @ str_opt (sch_full_name schema) @ NL
                @ ''   Catalog: '' @ str_opt (sch_catalog_name schema) @ NL
                @ ''   Owner: '' @ str_opt (sch_owner schema) @ NL
                @ ''   Comment: '' @ or_NA (sch_comment schema) @ NL
                @ (if truthy_int (sch_created_at schema)
                   then ''   Created: '' @ str_int (the (sch_created_at schema)) @ NL else [])
                @ (if truthy_int (sch_updated_at schema)
                   then ''   Updated: '' @ str_int (the (sch_updated_at schema)) @ NL else [])
                @ (if truthy_str (sch_storage_location schema)
                   then ''   Storage Location: '' @ the (sch_storage_location schema) @ NL
                   else []))), w))"

definition create_schema_tool :: "environment \<Rightarrow> tool" where
  "create_schema_tool env arguments w =
     except_handlers ''Error creating schema: ''
       (case CreateSchemaInput arguments of
          Inl e \<Rightarrow> (Inl e, w)
        | Inr input \<Rightarrow>
            (case create_schema env (csi_catalog_name input) (csi_schema_name input)
                    (csi_comment input) of
               Inl e \<Rightarrow> (Inl e, w)
             | Inr schema \<Rightarrow>
                 (Inr (text_response
                    (check_mark @ '' Schema created successfully!'' @ NL @ NL
                     @ folder @ '' Schema: '' @ str_opt (sch_name schema) @ NL
                     @ ''   Full Name: '' @ str_opt (sch_full_name schema) @ NL
                     @ ''   Catalog: '' @ str_opt (sch_catalog_name schema) @ NL
                     @ ''   Owner: '' @ str_opt (sch_owner schema) @ NL
                     @ (if truthy_str (sch_comment schema)
                        then ''   Comment: '' @ the (sch_comment schema) @ NL else []))), w)))"

definition update_schema_tool :: "environment \<Rightarrow> tool" where
  "update_schema_tool env arguments w =
     except_handlers ''Error updating schema: ''
       (case UpdateSchemaInput arguments of
          Inl e \<Rightarrow> (Inl e, w)
        | Inr input \<Rightarrow>
            (let full_schema_name = usi_catalog_name input @ ''.'' @ usi_schema_name input
             in case update_schema env full_schema_name (usi_new_name input)
                       (usi_comment input) None of
                  Inl e \<Rightarrow> (Inl e, w)
                | Inr schema \<Rightarrow>
                    (Inr (text_response
                       (check_mark @ '' Schema updated successfully!'' @ NL @ NL
                        @ folder @ '' Schema: '' @ str_opt (sch_name schema) @ NL
                        @ ''   Full Name: '' @ str_opt (sch_full_name schema) @ NL
                        @ ''   Owner: '' @ str_opt (sch_owner schema) @ NL)), w)))"

definition delete_schema_tool :: "environment \<Rightarrow> tool" where
  "delete_schema_tool env arguments w =
     except_handlers ''Error deleting schema: ''
       (case DeleteSchemaInput arguments of
          Inl e \<Rightarrow> (Inl e, w)
        | Inr input \<Rightarrow>
            (let full_schema_name = dsi_catalog_name input @ ''.'' @ dsi_schema_name input
             in case delete_schema env full_schema_name of
                  Inl e \<Rightarrow> (Inl e, w)
                | Inr _ \<Rightarrow>
                    (Inr (text_response
                       (check_mark @ '' Schema '' @ SQ @ full_schema_name @ SQ
                        @ '' deleted successfully!'')), w)))"

definition list_tables_tool :: "environment \<Rightarrow> tool" where
  "list_tables_tool env arguments w =
     except_handlers ''Error: ''
       (case ListTablesInput arguments of
          Inl e \<Rightarrow> (Inl e, w)
        | Inr input \<Rightarrow>
            (case list_tables env (lti_catalog_name input) (lti_schema_name input) of
               Inl e \<Rightarrow> (Inl e, w)
             | Inr table_list \<Rightarrow>
                 (Inr (text_response
                    (''Found '' @ str_nat (length table_list) @ '' tables in ''
                     @ lti_catalog_name input @ ''.'' @ lti_schema_name input @ '':'' @ NL @ NL
                     @ concat (map (\<lambda>table.
                         bar_chart @ '' '' @ str_opt (tbl_name table) @ NL
                         @ ''   Type: '' @ str_opt (tbl_table_type table) @ NL
                         @ (if truthy_str (tbl_comment table)
                            then ''   Comment: '' @ the (tbl_comment table) @ NL else [])
                         @ ''   Owner: '' @ str_opt (tbl_owner table) @ NL
                         @ ''   Full Name: '' @ str_opt (tbl_full_name table) @ NL @ NL)
                       table_list))), w)))"

definition get_table_tool :: "environment \<Rightarrow> tool" where
  "get_table_tool env arguments w =
     except_exception env ''Error: ''
       (case get_table env (dict_get arguments ''full_table_name'') of
          Inl e \<Rightarrow> (Inl e, w)
        | Inr table \<Rightarrow>
            (Inr (text_response
               (bar_chart @ '' Table: '' @ str_opt (tbl_name table) @ NL
                @ ''   Full Name: '' @ str_opt (tbl_full_name table) @ NL
                @ ''   Catalog: '' @ str_opt (tbl_catalog_name table) @ NL
                @ ''   Schema: '' @ str_opt (tbl_schema_name table) @ NL
                @ ''   Type: '' @ str_opt (tbl_table_type table) @ NL
                @ ''   Owner: '' @ str_opt (tbl_owner table) @ NL
                @ ''   Comment: '' @ or_NA (tbl_comment table) @ NL
                @ (if truthy_int (tbl_created_at table)
                   then ''   Created: '' @ str_int (the (tbl_created_at table)) @ NL else [])
                @ (if truthy_int (tbl_updated_at table)
                   then ''   Updated: '' @ str_int (the (tbl_updated_at table)) @ NL else [])
                @ (if truthy_str (tbl_storage_location table)
                   then ''   Storage Location: '' @ the (tbl_storage_location table) @ NL
                   else [])
                @ (if truthy_list (tbl_columns table)
                   then NL @ ''   Columns ('' @ str_nat (length (the (tbl_columns table)))
                        @ ''):'' @ NL
                        @ concat (map (\<lambda>col.
                            ''     - '' @ str_opt (col_name col) @ '': ''
                            @ str_opt (col_type_name col) @ NL
                            @ (if truthy_str (col_comment col)
                               then ''       '' @ the (col_comment col) @ NL else []))
                          (the (tbl_columns table)))
                   else []))), w))"

text \<open>\<open>[col.to_sdk() for col in input.columns]\<close>: the first conversion that raises ends the loop.\<close>

fun to_sdk_all :: "environment \<Rightarrow> column_model list \<Rightarrow> exn + column_info list" where
  "to_sdk_all env [] = Inr []"
| "to_sdk_all env (c # cs) =
     (case to_sdk env c of
        Inl e \<Rightarrow> Inl e
      | Inr x \<Rightarrow> (case to_sdk_all env cs of Inl e \<Rightarrow> Inl e | Inr xs \<Rightarrow> Inr (x # xs)))"

definition create_table_tool :: "environment \<Rightarrow> tool" where
  "create_table_tool env arguments w =
     except_handlers ''Error creating table: ''
       (case CreateTableInput arguments of
          Inl e \<Rightarrow> (Inl e, w)
        | Inr input \<Rightarrow>
            (case to_sdk_all env (cti_columns input) of
               Inl e \<Rightarrow> (Inl e, w)
             | Inr cols \<Rightarrow>
                 (case table_type_to_sdk (cti_table_type input) of
                    Inl e \<Rightarrow> (Inl e, w)
                  | Inr table_type \<Rightarrow>
                      (case create_table env (cti_catalog_name input) (cti_schema_name input)
                              (cti_table_name input) cols table_type (cti_comment input)
                              (cti_storage_location input) of
                         Inl e \<Rightarrow> (Inl e, w)
                       | Inr table \<Rightarrow>
                           (Inr (text_response
                              (check_mark @ '' Table created successfully!'' @ NL @ NL
                               @ bar_chart @ '' Table: '' @ str_opt (tbl_name table) @ NL
                               @ ''   Full Name: '' @ str_opt (tbl_full_name table) @ NL
                               @ ''   Catalog: '' @ str_opt (tbl_catalog_name table) @ NL
                               @ ''   Schema: '' @ str_opt (tbl_schema_name table) @ NL
                               @ ''   Type: '' @ str_opt (tbl_table_type table) @ NL
                               @ ''   Owner: '' @ str_opt (tbl_owner table) @ NL
                               @ (if truthy_str (tbl_comment table)
                                  then ''   Comment: '' @ the (tbl_comment table) @ NL else [])
                               @ (if truthy_list (tbl_columns table)
                                  then NL @ ''   Columns (''
                                       @ str_nat (length (the (tbl_columns table)))
                                       @ ''):'' @ NL
                                       @ concat (map (\<lambda>col.
                                           ''     - '' @ str_opt (col_name col) @ '': ''
                                           @ str_opt (col_type_name col) @ NL)
                                         (the (tbl_columns table)))
                                  else []))), w)))))"

definition delete_table_tool :: "environment \<Rightarrow> tool" where
  "delete_table_tool env arguments w =
     except_exception env ''Error deleting table: ''
       (let full_table_name = dict_get arguments ''full_table_name''
        in case delete_table env full_table_name of
             Inl e \<Rightarrow> (Inl e, w)
           | Inr _ \<Rightarrow>
               (Inr (text_response
                  (check_mark @ '' Table '' @ SQ @ py_str env full_table_name @ SQ
                   @ '' deleted successfully!'')), w))"

definition unity_catalog_TOOL_HANDLERS :: "(string \<times> (environment \<Rightarrow> tool)) list" where
  "unity_catalog_TOOL_HANDLERS =
     [(''list_catalogs'', list_catalogs_tool),
      (''get_catalog'', get_catalog_tool),
      (''list_schemas'', list_schemas_tool),
      (''get_schema'', get_schema_tool),
      (''create_schema'', create_schema_tool),
      (''update_schema'', update_schema_tool),
      (''delete_schema'', delete_schema_tool),
      (''list_tables'', list_tables_tool),
      (''get_table'', get_table_tool),
      (''create_table'', create_table_tool),
      (''delete_table'', delete_table_tool)]"

section \<open>models/compute.py and tools/compute.py\<close>

record create_context_input =
  cci_cluster_id :: string
  cci_language :: string

definition CreateContextInput :: "arguments \<Rightarrow> exn + create_context_input" where
  "CreateContextInput args =
     model (field (field
       (Inr (\<lambda>a b. \<lparr>cci_cluster_id = a, cci_language = b\<rparr>))
       (required validate_str args ''cluster_id''))
       (with_default ''python'' LanguageEnum args ''language''))"

record execute_command_with_context_input =
  eci_cluster_id :: string
  eci_context_id :: string
  eci_code :: string

definition ExecuteCommandWithContextInput :: "arguments \<Rightarrow> exn + execute_command_with_context_input" where
  "ExecuteCommandWithContextInput args =
     model (field (field (field
       (Inr (\<lambda>a b c. \<lparr>eci_cluster_id = a, eci_context_id = b, eci_code = c\<rparr>))
       (required validate_str args ''cluster_id''))
       (required validate_str args ''context_id''))
       (required validate_str args ''code''))"

record destroy_context_input =
  dci_cluster_id :: string
  dci_context_id :: string

definition DestroyContextInput :: "arguments \<Rightarrow> exn + destroy_context_input" where
  "DestroyContextInput args =
     model (field (field
       (Inr (\<lambda>a b. \<lparr>dci_cluster_id = a, dci_context_id = b\<rparr>))
       (required validate_str args ''cluster_id''))
       (required validate_str args ''context_id''))"

record databricks_command_input =
  dbc_cluster_id :: string
  dbc_language :: string
  dbc_code :: string
  dbc_timeout :: int

definition DatabricksCommandInput :: "environment \<Rightarrow> arguments \<Rightarrow> exn + databricks_command_input" where
  "DatabricksCommandInput env args =
     model (field (field (field (field
       (Inr (\<lambda>a b c d. \<lparr>dbc_cluster_id = a, dbc_language = b, dbc_code = c, dbc_timeout = d\<rparr>))
       (required validate_str args ''cluster_id''))
       (with_default ''python'' LanguageEnum args ''language''))
       (required validate_str args ''code''))
       (with_default 120 (validate_int env 1 3600) args ''timeout''))"

definition create_context_func ::
  "environment \<Rightarrow> create_context_input \<Rightarrow> workspace_client \<Rightarrow> (exn + envelope) \<times> workspace_client" where
  "create_context_func env input w =
     except_exception env ''Error creating context: ''
       (case create_context env (cci_cluster_id input) (cci_language input) of
          Inl e \<Rightarrow> (Inl e, w)
        | Inr context_id \<Rightarrow>
            (Inr (text_response
               (''Context created successfully!'' @ NL @ NL
                @ ''Context ID: '' @ context_id @ NL
                @ ''Cluster ID: '' @ cci_cluster_id input @ NL
                @ ''Language: '' @ cci_language input @ NL @ NL
                @ ''Use this context_id for subsequent commands.'')), w))"

definition create_context_tool :: "environment \<Rightarrow> tool" where
  "create_context_tool env = validate_input CreateContextInput (create_context_func env)"

text \<open>
  A command that ran and did not succeed is reported by the result object, not by an
  exception.
\<close>

definition result_response :: "execution_result \<Rightarrow> envelope" where
  "result_response result =
     (if res_success result then text_response (res_output result)
      else error_response (''Error: '' @ str_opt (res_error result)))"

definition execute_command_with_context_func ::
  "environment \<Rightarrow> execute_command_with_context_input \<Rightarrow> workspace_client
     \<Rightarrow> (exn + envelope) \<times> workspace_client" where
  "execute_command_with_context_func env input w =
     except_exception env ''Error: ''
       (case execute_command_with_context env (eci_cluster_id input) (eci_context_id input)
               (eci_code input) of
          Inl e \<Rightarrow> (Inl e, w)
        | Inr result \<Rightarrow> (Inr (result_response result), w))"

definition execute_command_with_context_tool :: "environment \<Rightarrow> tool" where
  "execute_command_with_context_tool env =
     validate_input ExecuteCommandWithContextInput (execute_command_with_context_func env)"

definition destroy_context_func ::
  "environment \<Rightarrow> destroy_context_input \<Rightarrow> workspace_client \<Rightarrow> (exn + envelope) \<times> workspace_client" where
  "destroy_context_func env input w =
     except_exception env ''Error destroying context: ''
       (case destroy_context env (dci_cluster_id input) (dci_context_id input) of
          Inl e \<Rightarrow> (Inl e, w)
        | Inr _ \<Rightarrow>
            (Inr (text_response
               (''Context '' @ dci_context_id input @ '' destroyed successfully!'')), w))"

definition destroy_context_tool :: "environment \<Rightarrow> tool" where
  "destroy_context_tool env = validate_input DestroyContextInput (destroy_context_func env)"

definition databricks_command_func ::
  "environment \<Rightarrow> databricks_command_input \<Rightarrow> workspace_client \<Rightarrow> (exn + envelope) \<times> workspace_client" where
  "databricks_command_func env input w =
     except_exception env ''Error: ''
       (case execute_databricks_command env (dbc_cluster_id input) (dbc_language input)
               (dbc_code input) (dbc_timeout input) of
          Inl e \<Rightarrow> (Inl e, w)
        | Inr result \<Rightarrow> (Inr (result_response result), w))"

definition databricks_command_tool :: "environment \<Rightarrow> tool" where
  "databricks_command_tool env =
     validate_input (DatabricksCommandInput env) (databricks_command_func env)"

definition compute_TOOL_HANDLERS :: "(string \<times> (environment \<Rightarrow> tool)) list" where
  "compute_TOOL_HANDLERS =
     [(''create_context'', create_context_tool),
      (''execute_command_with_context'', execute_command_with_context_tool),
      (''destroy_context'', destroy_context_tool),
      (''databricks_command'', databricks_command_tool)]"

section \<open>What the properties are stated with\<close>

text \<open>
  An envelope is well formed when its content is a non-empty sequence of text segments.
\<close>

definition well_formed :: "envelope \<Rightarrow> bool" where
  "well_formed r = (content r \<noteq> [] \<and> list_all (\<lambda>seg. seg_type seg = ''text'') (content r))"

text \<open>
  When the operation of a tool fails: the validation of its arguments raises, or a call
  it makes to code outside the handler (the core, the SDK) raises, or, for the two tools
  that run a command, the result says the command did not succeed. The three tools that
  read their argument with \<open>arguments.get\<close> have no validation step.
\<close>

definition raises :: "exn + 'a \<Rightarrow> bool" where
  "raises v = (case v of Inl _ \<Rightarrow> True | Inr _ \<Rightarrow> False)"

definition fails_after :: "exn + 'a \<Rightarrow> ('a \<Rightarrow> bool) \<Rightarrow> bool" where
  "fails_after v rest = (case v of Inl _ \<Rightarrow> True | Inr x \<Rightarrow> rest x)"

definition unsuccessful :: "exn + execution_result \<Rightarrow> bool" where
  "unsuccessful v = (case v of Inl _ \<Rightarrow> True | Inr result \<Rightarrow> \<not> res_success result)"

definition create_pipeline_failed :: "environment \<Rightarrow> arguments \<Rightarrow> workspace_client \<Rightarrow> bool" where
  "create_pipeline_failed env args w =
     fails_after (CreatePipelineInput args) (\<lambda>i.
       raises (fst (create_pipeline (cpi_name i) (cpi_root_path i) (cpi_catalog i)
                      (cpi_schema i) (cpi_workspace_notebook_paths i) (cpi_serverless i) w)))"

definition get_pipeline_failed :: "environment \<Rightarrow> arguments \<Rightarrow> workspace_client \<Rightarrow> bool" where
  "get_pipeline_failed env args w =
     fails_after (GetPipelineInput args) (\<lambda>i.
       raises (fst (get_pipeline (pii_pipeline_id i) w)))"

definition update_pipeline_config_failed :: "environment \<Rightarrow> arguments \<Rightarrow> workspace_client \<Rightarrow> bool" where
  "update_pipeline_config_failed env args w =
     fails_after (UpdatePipelineInput args) (\<lambda>i.
       raises (fst (update_pipeline (upi_pipeline_id i) (upi_name i) (upi_root_path i)
                      (upi_catalog i) (upi_schema i) (upi_workspace_notebook_paths i)
                      (upi_serverless i) w)))"

definition delete_pipeline_failed :: "environment \<Rightarrow> arguments \<Rightarrow> workspace_client \<Rightarrow> bool" where
  "delete_pipeline_failed env args w =
     fails_after (DeletePipelineInput args) (\<lambda>i.
       raises (fst (delete_pipeline (pii_pipeline_id i) w)))"

definition start_pipeline_update_failed :: "environment \<Rightarrow> arguments \<Rightarrow> workspace_client \<Rightarrow> bool" where
  "start_pipeline_update_failed env args w =
     fails_after (StartPipelineUpdateInput args) (\<lambda>i.
       raises (fst (start_update (spu_pipeline_id i) (spu_refresh_selection i)
                      (spu_full_refresh i) (spu_full_refresh_selection i) False w)))"

definition validate_pipeline_failed :: "environment \<Rightarrow> arguments \<Rightarrow> workspace_client \<Rightarrow> bool" where
  "validate_pipeline_failed env args w =
     fails_after (ValidatePipelineInput args) (\<lambda>i.
       raises (fst (start_update (spu_pipeline_id i) (spu_refresh_selection i)
                      (spu_full_refresh i) (spu_full_refresh_selection i) True w)))"

definition get_pipeline_update_status_failed :: "environment \<Rightarrow> arguments \<Rightarrow> workspace_client \<Rightarrow> bool" where
  "get_pipeline_update_status_failed env args w =
     fails_after (GetPipelineUpdateStatusInput args) (\<lambda>i.
       raises (fst (get_update (gus_pipeline_id i) (gus_update_id i) w)))"

definition stop_pipeline_failed :: "environment \<Rightarrow> arguments \<Rightarrow> workspace_client \<Rightarrow> bool" where
  "stop_pipeline_failed env args w =
     fails_after (StopPipelineInput args) (\<lambda>i.
       raises (fst (stop_pipeline (pii_pipeline_id i) w)))"

definition get_pipeline_events_failed :: "environment \<Rightarrow> arguments \<Rightarrow> workspace_client \<Rightarrow> bool" where
  "get_pipeline_events_failed env args w =
     fails_after (GetPipelineEventsInput env args) (\<lambda>i.
       raises (fst (get_pipeline_events (gpe_pipeline_id i) (gpe_max_results i) w)))"

definition list_pipeline_files_failed :: "environment \<Rightarrow> arguments \<Rightarrow> workspace_client \<Rightarrow> bool" where
  "list_pipeline_files_failed env args w =
     fails_after (ListPipelineFilesInput args) (\<lambda>i. raises (list_files env (path_of i)))"

definition get_pipeline_file_status_failed :: "environment \<Rightarrow> arguments \<Rightarrow> workspace_client \<Rightarrow> bool" where
  "get_pipeline_file_status_failed env args w =
     fails_after (GetPipelineFileStatusInput args) (\<lambda>i.
       raises (get_file_status env (path_of i)))"

definition read_pipeline_file_failed :: "environment \<Rightarrow> arguments \<Rightarrow> workspace_client \<Rightarrow> bool" where
  "read_pipeline_file_failed env args w =
     fails_after (ReadPipelineFileInput args) (\<lambda>i. raises (read_file env (path_of i)))"

definition write_pipeline_file_failed :: "environment \<Rightarrow> arguments \<Rightarrow> workspace_client \<Rightarrow> bool" where
  "write_pipeline_file_failed env args w =
     fails_after (WritePipelineFileInput args) (\<lambda>i.
       raises (write_file env (wpf_path i) (wpf_content i) (wpf_language i)
                 (wpf_overwrite i)))"

definition create_pipeline_directory_failed :: "environment \<Rightarrow> arguments \<Rightarrow> workspace_client \<Rightarrow> bool" where
  "create_pipeline_directory_failed env args w =
     fails_after (CreatePipelineDirectoryInput args) (\<lambda>i.
       raises (create_directory env (path_of i)))"

definition delete_pipeline_path_failed :: "environment \<Rightarrow> arguments \<Rightarrow> workspace_client \<Rightarrow> bool" where
  "delete_pipeline_path_failed env args w =
     fails_after (DeletePipelinePathInput args) (\<lambda>i.
       raises (delete_path env (dpp_path i) (dpp_recursive i)))"

definition list_catalogs_failed :: "environment \<Rightarrow> arguments \<Rightarrow> workspace_client \<Rightarrow> bool" where
  "list_catalogs_failed env args w =
     fails_after (ListCatalogsInput args) (\<lambda>i. raises (list_catalogs env))"

definition get_catalog_failed :: "environment \<Rightarrow> arguments \<Rightarrow> workspace_client \<Rightarrow> bool" where
  "get_catalog_failed env args w =
     fails_after (GetCatalogInput args) (\<lambda>i. raises (get_catalog env (gci_catalog_name i)))"

definition list_schemas_failed :: "environment \<Rightarrow> arguments \<Rightarrow> workspace_client \<Rightarrow> bool" where
  "list_schemas_failed env args w =
     fails_after (ListSchemasInput args) (\<lambda>i. raises (list_schemas env (gci_catalog_name i)))"

definition get_schema_failed :: "environment \<Rightarrow> arguments \<Rightarrow> workspace_client \<Rightarrow> bool" where
  "get_schema_failed env args w =
     raises (get_schema env (dict_get args ''full_schema_name''))"

definition create_schema_failed :: "environment \<Rightarrow> arguments \<Rightarrow> workspace_client \<Rightarrow> bool" where
  "create_schema_failed env args w =
     fails_after (CreateSchemaInput args) (\<lambda>i.
       raises (create_schema env (csi_catalog_name i) (csi_schema_name i) (csi_comment i)))"

definition update_schema_failed :: "environment \<Rightarrow> arguments \<Rightarrow> workspace_client \<Rightarrow> bool" where
  "update_schema_failed env args w =
     fails_after (UpdateSchemaInput args) (\<lambda>i.
       raises (update_schema env (usi_catalog_name i @ ''.'' @ usi_schema_name i)
                 (usi_new_name i) (usi_comment i) None))"

definition delete_schema_failed :: "environment \<Rightarrow> arguments \<Rightarrow> workspace_client \<Rightarrow> bool" where
  "delete_schema_failed env args w =
     fails_after (DeleteSchemaInput args) (\<lambda>i.
       raises (delete_schema env (dsi_catalog_name i @ ''.'' @ dsi_schema_name i)))"

definition list_tables_failed :: "environment \<Rightarrow> arguments \<Rightarrow> workspace_client \<Rightarrow> bool" where
  "list_tables_failed env args w =
     fails_after (ListTablesInput args) (\<lambda>i.
       raises (list_tables env (lti_catalog_name i) (lti_schema_name i)))"

definition get_table_failed :: "environment \<Rightarrow> arguments \<Rightarrow> workspace_client \<Rightarrow> bool" where
  "get_table_failed env args w =
     raises (get_table env (dict_get args ''full_table_name''))"

definition create_table_failed :: "environment \<Rightarrow> arguments \<Rightarrow> workspace_client \<Rightarrow> bool" where
  "create_table_failed env args w =
     fails_after (CreateTableInput args) (\<lambda>i.
       fails_after (to_sdk_all env (cti_columns i)) (\<lambda>cols.
         fails_after (table_type_to_sdk (cti_table_type i)) (\<lambda>table_type.
           raises (create_table env (cti_catalog_name i) (cti_schema_name i)
                     (cti_table_name i) cols table_type (cti_comment i)
                     (cti_storage_location i)))))"

definition delete_table_failed :: "environment \<Rightarrow> arguments \<Rightarrow> workspace_client \<Rightarrow> bool" where
  "delete_table_failed env args w =
     raises (delete_table env (dict_get args ''full_table_name''))"

definition create_context_failed :: "environment \<Rightarrow> arguments \<Rightarrow> workspace_client \<Rightarrow> bool" where
  "create_context_failed env args w =
     fails_after (CreateContextInput args) (\<lambda>i.
       raises (create_context env (cci_cluster_id i) (cci_language i)))"

definition execute_command_with_context_failed :: "environment \<Rightarrow> arguments \<Rightarrow> workspace_client \<Rightarrow> bool" where
  "execute_command_with_context_failed env args w =
     fails_after (ExecuteCommandWithContextInput args) (\<lambda>i.
       unsuccessful (execute_command_with_context env (eci_cluster_id i)
                       (eci_context_id i) (eci_code i)))"

definition destroy_context_failed :: "environment \<Rightarrow> arguments \<Rightarrow> workspace_client \<Rightarrow> bool" where
  "destroy_context_failed env args w =
     fails_after (DestroyContextInput args) (\<lambda>i.
       raises (destroy_context env (dci_cluster_id i) (dci_context_id i)))"

definition databricks_command_failed :: "environment \<Rightarrow> arguments \<Rightarrow> workspace_client \<Rightarrow> bool" where
  "databricks_command_failed env args w =
     fails_after (DatabricksCommandInput env args) (\<lambda>i.
       unsuccessful (execute_databricks_command env (dbc_cluster_id i) (dbc_language i)
                       (dbc_code i) (dbc_timeout i)))"

definition operation_failed ::
  "(string \<times> (environment \<Rightarrow> arguments \<Rightarrow> workspace_client \<Rightarrow> bool)) list" where
  "operation_failed =
     [(''create_pipeline'', create_pipeline_failed),
      (''get_pipeline'', get_pipeline_failed),
      (''update_pipeline_config'', update_pipeline_config_failed),
      (''delete_pipeline'', delete_pipeline_failed),
      (''start_pipeline_update'', start_pipeline_update_failed),
      (''validate_pipeline'', validate_pipeline_failed),
      (''get_pipeline_update_status'', get_pipeline_update_status_failed),
      (''stop_pipeline'', stop_pipeline_failed),
      (''get_pipeline_events'', get_pipeline_events_failed),
      (''list_pipeline_files'', list_pipeline_files_failed),
      (''get_pipeline_file_status'', get_pipeline_file_status_failed),
      (''read_pipeline_file'', read_pipeline_file_failed),
      (''write_pipeline_file'', write_pipeline_file_failed),
      (''create_pipeline_directory'', create_pipeline_directory_failed),
      (''delete_pipeline_path'', delete_pipeline_path_failed),
      (''list_catalogs'', list_catalogs_failed),
      (''get_catalog'', get_catalog_failed),
      (''list_schemas'', list_schemas_failed),
      (''get_schema'', get_schema_failed),
      (''create_schema'', create_schema_failed),
      (''update_schema'', update_schema_failed),
      (''delete_schema'', delete_schema_failed),
      (''list_tables'', list_tables_failed),
      (''get_table'', get_table_failed),
      (''create_table'', create_table_failed),
      (''delete_table'', delete_table_failed),
      (''create_context'', create_context_failed),
      (''execute_command_with_context'', execute_command_with_context_failed),
      (''destroy_context'', destroy_context_failed),
      (''databricks_command'', databricks_command_failed)]"

text \<open>The \<open>TOOL_HANDLERS\<close> tables of the three tool modules, together.\<close>

definition TOOL_HANDLERS :: "(string \<times> (environment \<Rightarrow> tool)) list" where
  "TOOL_HANDLERS =
     pipelines_TOOL_HANDLERS @ unity_catalog_TOOL_HANDLERS @ compute_TOOL_HANDLERS"

text \<open>
  A stub platform that accepts every request and answers every poll with \<open>COMPLETED\<close>,
  and a stub environment; its \<open>json.dumps\<close> is right on the two values it is used on.
\<close>

definition stub_events :: "pipeline_event list" where
  "stub_events =
     [\<lparr>event_type = Some ''flow_failed'', ev_as_dict = PDict [(''event_type'', PStr ''flow_failed'')]\<rparr>,
      \<lparr>event_type = Some ''flow_progress'', ev_as_dict = PDict [(''event_type'', PStr ''flow_progress'')]\<rparr>,
      \<lparr>event_type = Some ''update_failed'', ev_as_dict = PDict [(''event_type'', PStr ''update_failed'')]\<rparr>]"

abbreviation DQ :: string where "DQ \<equiv> [CHR 0x22]"

definition stub_status :: pyval where
  "stub_status = PDict [(''update'', PDict [(''state'', PStr ''COMPLETED'')])]"

definition stub_json_dumps :: "pyval \<Rightarrow> string" where
  "stub_json_dumps v =
     (if v = stub_status
      then ''{'' @ NL @ ''  '' @ DQ @ ''update'' @ DQ @ '': {'' @ NL
           @ ''    '' @ DQ @ ''state'' @ DQ @ '': '' @ DQ @ ''COMPLETED'' @ DQ @ NL
           @ ''  }'' @ NL @ ''}''
      else if v = PList (map ev_as_dict stub_events)
      then ''['' @ NL
           @ ''  {'' @ NL @ ''    '' @ DQ @ ''event_type'' @ DQ @ '': '' @ DQ @ ''flow_failed'' @ DQ @ NL
           @ ''  },'' @ NL
           @ ''  {'' @ NL @ ''    '' @ DQ @ ''event_type'' @ DQ @ '': '' @ DQ @ ''flow_progress'' @ DQ @ NL
           @ ''  },'' @ NL
           @ ''  {'' @ NL @ ''    '' @ DQ @ ''event_type'' @ DQ @ '': '' @ DQ @ ''update_failed'' @ DQ @ NL
           @ ''  }'' @ NL @ '']''
      else ''{}'')"

definition stub_client :: workspace_client where
  "stub_client =
     \<lparr>on_create = (\<lambda>kw. Inr \<lparr>cr_pipeline_id = ''p1''\<rparr>),
      on_get_pipeline = (\<lambda>pid. Inr \<lparr>gp_name = Some ''demo'', gp_state = Some ''IDLE'',
                                     gp_spec = None, gp_as_dict = PDict []\<rparr>),
      on_update = (\<lambda>kw. Inr ()),
      on_delete = (\<lambda>pid. Inr ()),
      on_start_update = (\<lambda>kw. Inr \<lparr>update_id = ''u1''\<rparr>),
      on_get_update = (\<lambda>pid uid. Inr \<lparr>update = Some \<lparr>state = Some (UpdateInfoState ''COMPLETED'')\<rparr>,
                                       gu_as_dict = stub_status\<rparr>),
      on_stop = (\<lambda>pid. Inr ()),
      on_list_pipeline_events = (\<lambda>pid n. Inr stub_events),
      captured = []\<rparr>"

definition stub_env :: environment where
  "stub_env =
     \<lparr>json_dumps = stub_json_dumps,
      py_str = (\<lambda>v. case v of PStr s \<Rightarrow> s | _ \<Rightarrow> ''None''),
      str_as_int = (\<lambda>s. None),
      str_validation_error = (\<lambda>es. ''validation error''),
      ColumnTypeName = (\<lambda>s. if s \<in> set [''STRING'', ''INT'', ''DOUBLE'']
                              then Inr (''ColumnTypeName.'' @ s)
                              else Inl (PyException (s @ '' is not a valid ColumnTypeName''))),
      list_files = (\<lambda>p. Inr []),
      get_file_status = (\<lambda>p. Inl (PyException ''not found'')),
      read_file = (\<lambda>p. Inl (PyException ''not found'')),
      write_file = (\<lambda>p c l ov. Inr ()),
      create_directory = (\<lambda>p. Inr ()),
      delete_path = (\<lambda>p r. Inr ()),
      list_catalogs = Inr [],
      get_catalog = (\<lambda>n. Inl (PyException ''not found'')),
      list_schemas = (\<lambda>n. Inr []),
      get_schema = (\<lambda>n. Inl (PyException ''not found'')),
      create_schema = (\<lambda>c n cm. Inl (PyException ''permission denied'')),
      update_schema = (\<lambda>f n cm ow. Inl (PyException ''permission denied'')),
      delete_schema = (\<lambda>f. Inr ()),
      list_tables = (\<lambda>c n. Inr []),
      get_table = (\<lambda>n. Inl (PyException ''not found'')),
      create_table = (\<lambda>c n t cols ty cm loc. Inl (PyException ''permission denied'')),
      delete_table = (\<lambda>n. Inr ()),
      create_context = (\<lambda>c l. Inr ''ctx1''),
      execute_command_with_context = (\<lambda>c x code. Inr \<lparr>res_success = False, res_output = [],
                                                       res_error = Some ''division by zero''\<rparr>),
      destroy_context = (\<lambda>c x. Inr ()),
      execute_databricks_command = (\<lambda>c l code t. Inr \<lparr>res_success = False, res_output = [],
                                                       res_error = Some ''division by zero''\<rparr>)\<rparr>"

text \<open>The violation the two validators \<open>validate_at_least_one_update\<close> raise.\<close>

abbreviation at_least_one_violation :: exn where
  "at_least_one_violation \<equiv>
     value_error (''At least one of '' @ SQ @ ''new_name'' @ SQ @ '' or '' @ SQ
                             @ ''comment'' @ SQ @ '' must be provided'')"

text \<open>
  The shape of the results below: a value \<open>x\<close> is an answer for a failure condition
  \<open>F\<close> when it is a well-formed envelope whose \<open>isError\<close> is \<open>F\<close>; the body of a
  \<open>try\<close> is in order when it raises only under \<open>F\<close> and otherwise returns such an
  envelope.
\<close>

definition answers :: "exn + envelope \<Rightarrow> bool \<Rightarrow> bool" where
  "answers x F = (case x of Inl _ \<Rightarrow> False | Inr r \<Rightarrow> well_formed r \<and> isError r = F)"

definition outcome_ok :: "exn + envelope \<Rightarrow> bool \<Rightarrow> bool" where
  "outcome_ok x F = (case x of Inl _ \<Rightarrow> F | Inr r \<Rightarrow> well_formed r \<and> isError r = F)"

text \<open>
  The validation errors of a tool's arguments, when its input model rejects them; the
  three tools without an input model have none.
\<close>

definition validation_errors_of :: "exn + 'a \<Rightarrow> error_details list option" where
  "validation_errors_of v = (case v of Inl (ValidationError es) \<Rightarrow> Some es | _ \<Rightarrow> None)"

definition validation_errors ::
  "(string \<times> (environment \<Rightarrow> arguments \<Rightarrow> error_details list option)) list" where
  "validation_errors =
     [(''create_pipeline'', \<lambda>env args. validation_errors_of (CreatePipelineInput args)),
      (''get_pipeline'', \<lambda>env args. validation_errors_of (GetPipelineInput args)),
      (''update_pipeline_config'', \<lambda>env args. validation_errors_of (UpdatePipelineInput args)),
      (''delete_pipeline'', \<lambda>env args. validation_errors_of (DeletePipelineInput args)),
      (''start_pipeline_update'', \<lambda>env args. validation_errors_of (StartPipelineUpdateInput args)),
      (''validate_pipeline'', \<lambda>env args. validation_errors_of (ValidatePipelineInput args)),
      (''get_pipeline_update_status'', \<lambda>env args. validation_errors_of (GetPipelineUpdateStatusInput args)),
      (''stop_pipeline'', \<lambda>env args. validation_errors_of (StopPipelineInput args)),
      (''get_pipeline_events'', \<lambda>env args. validation_errors_of (GetPipelineEventsInput env args)),
      (''list_pipeline_files'', \<lambda>env args. validation_errors_of (ListPipelineFilesInput args)),
      (''get_pipeline_file_status'', \<lambda>env args. validation_errors_of (GetPipelineFileStatusInput args)),
      (''read_pipeline_file'', \<lambda>env args. validation_errors_of (ReadPipelineFileInput args)),
      (''write_pipeline_file'', \<lambda>env args. validation_errors_of (WritePipelineFileInput args)),
      (''create_pipeline_directory'', \<lambda>env args. validation_errors_of (CreatePipelineDirectoryInput args)),
      (''delete_pipeline_path'', \<lambda>env args. validation_errors_of (DeletePipelinePathInput args)),
      (''list_catalogs'', \<lambda>env args. validation_errors_of (ListCatalogsInput args)),
      (''get_catalog'', \<lambda>env args. validation_errors_of (GetCatalogInput args)),
      (''list_schemas'', \<lambda>env args. validation_errors_of (ListSchemasInput args)),
      (''get_schema'', \<lambda>env args. None),
      (''create_schema'', \<lambda>env args. validation_errors_of (CreateSchemaInput args)),
      (''update_schema'', \<lambda>env args. validation_errors_of (UpdateSchemaInput args)),
      (''delete_schema'', \<lambda>env args. validation_errors_of (DeleteSchemaInput args)),
      (''list_tables'', \<lambda>env args. validation_errors_of (ListTablesInput args)),
      (''get_table'', \<lambda>env args. None),
      (''create_table'', \<lambda>env args. validation_errors_of (CreateTableInput args)),
      (''delete_table'', \<lambda>env args. None),
      (''create_context'', \<lambda>env args. validation_errors_of (CreateContextInput args)),
      (''execute_command_with_context'', \<lambda>env args. validation_errors_of (ExecuteCommandWithContextInput args)),
      (''destroy_context'', \<lambda>env args. validation_errors_of (DestroyContextInput args)),
      (''databricks_command'', \<lambda>env args. validation_errors_of (DatabricksCommandInput env args))]"

definition tool_contract ::
  "(environment \<Rightarrow> tool) \<Rightarrow> (environment \<Rightarrow> arguments \<Rightarrow> workspace_client \<Rightarrow> bool)
     \<Rightarrow> (environment \<Rightarrow> arguments \<Rightarrow> error_details list option) \<Rightarrow> bool" where
  "tool_contract handler failed invalid =
     (\<forall>env args w.
        answers (fst (handler env args w)) (failed env args w)
        \<and> (case invalid env args of
             None \<Rightarrow> True
           | Some es \<Rightarrow> fst (handler env args w) = Inr (to_mcp_response es)))"

section \<open>Properties\<close>

subsection \<open>Auxiliary facts\<close>

lemmas strip_eval = strip_def white_space1_def white_space2_def white_space3_def

lemma captured_send: "captured (send c w) = captured w @ [c]"
  by (simp add: send_def)

lemma model_Inr: "model m = Inr v \<longleftrightarrow> m = Inr v"
  by (simp add: model_def split: sum.splits)

lemma field_Inr: "field m x = Inr y \<longleftrightarrow> (\<exists>g v. m = Inr g \<and> x = Inr v \<and> y = g v)"
  by (auto simp: field_def split: sum.splits)

lemma with_default_absent: "args f = None \<Longrightarrow> with_default d inner args f = Inr d"
  by (simp add: with_default_def)

lemma required_str_Inr:
  "required validate_str args f = Inr v \<longleftrightarrow> (\<exists>s. args f = Some (PStr s) \<and> v = strip s)"
  by (auto simp: required_def validate_str_def split: option.splits pyval.splits)

lemma except_handlers_snd: "snd (except_handlers l r) = snd r"
  by (auto simp: except_handlers_def split: prod.splits sum.splits exn.splits)

lemma except_handlers_Inr: "fst r = Inr x \<Longrightarrow> fst (except_handlers l r) = Inr x"
  by (cases r) (auto simp: except_handlers_def)

lemma truthy_str_None [simp]: "\<not> truthy_str None"
  by (simp add: truthy_str_def)

lemma truthy_list_None [simp]: "\<not> truthy_list None"
  by (simp add: truthy_list_def)

subsection \<open>Updating a pipeline\<close>

lemma UpdatePipelineInput_Inr:
  "UpdatePipelineInput args = Inr input \<longleftrightarrow>
     (\<exists>a b c d e f g.
        required validate_str args ''pipeline_id'' = Inr a \<and>
        with_default None (nullable validate_str) args ''name'' = Inr b \<and>
        with_default None (nullable validate_str) args ''root_path'' = Inr c \<and>
        with_default None (nullable validate_str) args ''catalog'' = Inr d \<and>
        with_default None (nullable validate_str) args ''schema'' = Inr e \<and>
        with_default None (nullable (validate_list validate_str 0)) args
          ''workspace_notebook_paths'' = Inr f \<and>
        with_default None (nullable validate_bool) args ''serverless'' = Inr g \<and>
        input = \<lparr>upi_pipeline_id = a, upi_name = b, upi_root_path = c,
                  upi_catalog = d, upi_schema = e,
                  upi_workspace_notebook_paths = f, upi_serverless = g\<rparr>)"
  unfolding UpdatePipelineInput_def model_Inr field_Inr by auto

lemma UpdatePipelineInput_absent:
  assumes "UpdatePipelineInput args = Inr input"
  shows "args ''name'' = None \<Longrightarrow> upi_name input = None"
    and "args ''root_path'' = None \<Longrightarrow> upi_root_path input = None"
    and "args ''catalog'' = None \<Longrightarrow> upi_catalog input = None"
    and "args ''schema'' = None \<Longrightarrow> upi_schema input = None"
    and "args ''workspace_notebook_paths'' = None \<Longrightarrow> upi_workspace_notebook_paths input = None"
    and "args ''serverless'' = None \<Longrightarrow> upi_serverless input = None"
proof -
  from assms obtain a b c d e f g where
    b: "with_default None (nullable validate_str) args ''name'' = Inr b" and
    c: "with_default None (nullable validate_str) args ''root_path'' = Inr c" and
    d: "with_default None (nullable validate_str) args ''catalog'' = Inr d" and
    e: "with_default None (nullable validate_str) args ''schema'' = Inr e" and
    f: "with_default None (nullable (validate_list validate_str 0)) args
          ''workspace_notebook_paths'' = Inr f" and
    g: "with_default None (nullable validate_bool) args ''serverless'' = Inr g" and
    i: "input = \<lparr>upi_pipeline_id = a, upi_name = b, upi_root_path = c,
                  upi_catalog = d, upi_schema = e,
                  upi_workspace_notebook_paths = f, upi_serverless = g\<rparr>"
    unfolding UpdatePipelineInput_Inr by blast
  show "args ''name'' = None \<Longrightarrow> upi_name input = None"
    using b i by (simp add: with_default_absent)
  show "args ''root_path'' = None \<Longrightarrow> upi_root_path input = None"
    using c i by (simp add: with_default_absent)
  show "args ''catalog'' = None \<Longrightarrow> upi_catalog input = None"
    using d i by (simp add: with_default_absent)
  show "args ''schema'' = None \<Longrightarrow> upi_schema input = None"
    using e i by (simp add: with_default_absent)
  show "args ''workspace_notebook_paths'' = None \<Longrightarrow> upi_workspace_notebook_paths input = None"
    using f i by (simp add: with_default_absent)
  show "args ''serverless'' = None \<Longrightarrow> upi_serverless input = None"
    using g i by (simp add: with_default_absent)
qed

lemma update_pipeline_eqD:
  "update_pipeline p n r c s nb sv w = (x, w') \<Longrightarrow>
     w' = send (PipelinesUpdate (update_kwargs p n r c s nb sv)) w
     \<and> x = on_update w (update_kwargs p n r c s nb sv)"
  by (auto simp: update_pipeline_def Let_def)

lemma update_tool_captured:
  "captured (snd (update_pipeline_config_tool args w)) =
     captured w @ (case UpdatePipelineInput args of
                     Inl _ \<Rightarrow> []
                   | Inr input \<Rightarrow>
                       [PipelinesUpdate (update_kwargs (upi_pipeline_id input) (upi_name input)
                          (upi_root_path input) (upi_catalog input) (upi_schema input)
                          (upi_workspace_notebook_paths input) (upi_serverless input))])"
  unfolding update_pipeline_config_tool_def except_handlers_snd
  by (auto split: sum.splits prod.splits simp: captured_send dest!: update_pipeline_eqD)

lemma update_kwargs_frame:
  "fst ` set (update_kwargs p n r c s nb sv) \<subseteq>
          {''pipeline_id'', ''name'', ''storage'', ''target'', ''libraries'', ''serverless''}"
  "n = None \<Longrightarrow> ''name'' \<notin> fst ` set (update_kwargs p n r c s nb sv)"
  "r = None \<Longrightarrow> ''storage'' \<notin> fst ` set (update_kwargs p n r c s nb sv)"
  "c = None \<or> s = None \<Longrightarrow> ''target'' \<notin> fst ` set (update_kwargs p n r c s nb sv)"
  "nb = None \<Longrightarrow> ''libraries'' \<notin> fst ` set (update_kwargs p n r c s nb sv)"
  "sv = None \<Longrightarrow> ''serverless'' \<notin> fst ` set (update_kwargs p n r c s nb sv)"
  by (simp_all add: update_kwargs_def split: option.split, auto)

text \<open>
  Claim C1. Whatever the arguments of the update tool, the platform receives at most one
  new request, an update whose keys are among the six the core knows; the key of every
  field that the arguments omit is absent from it (the target is absent when the catalog
  or the schema is omitted).
\<close>

theorem update_sends_only_supplied_fields:
  "\<exists>new. captured (snd (update_pipeline_config_tool args w)) = captured w @ new \<and>
     (\<forall>c \<in> set new. \<exists>kw. c = PipelinesUpdate kw \<and>
        fst ` set kw \<subseteq> {''pipeline_id'', ''name'', ''storage'', ''target'', ''libraries'',
                           ''serverless''} \<and>
        (args ''name'' = None \<longrightarrow> ''name'' \<notin> fst ` set kw) \<and>
        (args ''root_path'' = None \<longrightarrow> ''storage'' \<notin> fst ` set kw) \<and>
        (args ''catalog'' = None \<or> args ''schema'' = None \<longrightarrow> ''target'' \<notin> fst ` set kw) \<and>
        (args ''workspace_notebook_paths'' = None \<longrightarrow> ''libraries'' \<notin> fst ` set kw) \<and>
        (args ''serverless'' = None \<longrightarrow> ''serverless'' \<notin> fst ` set kw))"
proof (cases "UpdatePipelineInput args")
  case (Inl e)
  then show ?thesis by (simp add: update_tool_captured)
next
  case (Inr input)
  note abs = UpdatePipelineInput_absent [OF Inr]
  define kw where "kw = update_kwargs (upi_pipeline_id input) (upi_name input)
                        (upi_root_path input) (upi_catalog input) (upi_schema input)
                        (upi_workspace_notebook_paths input) (upi_serverless input)"
  have sent: "captured (snd (update_pipeline_config_tool args w)) = captured w @ [PipelinesUpdate kw]"
    by (simp add: update_tool_captured Inr kw_def)
  have 1: "fst ` set kw \<subseteq> {''pipeline_id'', ''name'', ''storage'', ''target'', ''libraries'',
                              ''serverless''}"
    unfolding kw_def by (rule update_kwargs_frame)
  have 2: "args ''name'' = None \<longrightarrow> ''name'' \<notin> fst ` set kw"
    unfolding kw_def using abs(1) update_kwargs_frame(2) by blast
  have 3: "args ''root_path'' = None \<longrightarrow> ''storage'' \<notin> fst ` set kw"
    unfolding kw_def using abs(2) update_kwargs_frame(3) by blast
  have 4: "args ''catalog'' = None \<or> args ''schema'' = None \<longrightarrow> ''target'' \<notin> fst ` set kw"
    unfolding kw_def using abs(3,4) update_kwargs_frame(4) by blast
  have 5: "args ''workspace_notebook_paths'' = None \<longrightarrow> ''libraries'' \<notin> fst ` set kw"
    unfolding kw_def using abs(5) update_kwargs_frame(5) by blast
  have 6: "args ''serverless'' = None \<longrightarrow> ''serverless'' \<notin> fst ` set kw"
    unfolding kw_def using abs(6) update_kwargs_frame(6) by blast
  show ?thesis
    using sent 1 2 3 4 5 6 by auto
qed

lemmas update_eval =
  UpdatePipelineInput_def model_def field_def required_def with_default_def validate_str_def
  nullable_def strip_eval update_pipeline_def update_kwargs_def truthy_str_def
  truthy_list_def stub_client_def send_def except_handlers_def

theorem update_sends_only_supplied_fields_witness:
  "captured (snd (update_pipeline_config_tool
       [''pipeline_id'' \<mapsto> PStr ''p1'', ''name'' \<mapsto> PStr ''new''] stub_client))
     = [PipelinesUpdate [(''pipeline_id'', KStr ''p1''), (''name'', KStr ''new'')]]
   \<and> [''pipeline_id'' \<mapsto> PStr ''p1'', ''name'' \<mapsto> PStr ''new''] ''root_path'' = None
   \<and> ''storage'' \<notin> fst ` set [(''pipeline_id'', KStr ''p1''), (''name'', KStr ''new'')]"
  using update_sends_only_supplied_fields
          [of "[''pipeline_id'' \<mapsto> PStr ''p1'', ''name'' \<mapsto> PStr ''new'']" stub_client]
  by (simp add: update_tool_captured update_eval)

text \<open>
  Claim C2, as stated, fails: the update tool called with a catalog and no schema does
  not fail. On a platform that accepts the request it answers with the success envelope,
  and the request it has sent carries the pipeline id and nothing else.
\<close>

theorem update_with_catalog_alone_succeeds:
  "update_pipeline_config_tool
       [''pipeline_id'' \<mapsto> PStr ''p1'', ''catalog'' \<mapsto> PStr ''main''] stub_client
   = (Inr (text_response (check_mark @ '' Pipeline configuration updated successfully!''
                          @ NL @ NL @ ''Pipeline ID: p1'')),
      stub_client\<lparr>captured := [PipelinesUpdate [(''pipeline_id'', KStr ''p1'')]]\<rparr>)"
  by (simp add: update_pipeline_config_tool_def update_eval)

lemma update_kwargs_target:
  "map_of (update_kwargs p n r c s nb sv) ''target'' =
     (if truthy_str c \<and> truthy_str s then Some (KStr (the c @ ''.'' @ the s)) else None)"
  by (simp add: update_kwargs_def split: option.split)

lemma update_kwargs_one_missing:
  "c = None \<or> s = None \<Longrightarrow> update_kwargs p n r c s nb sv = update_kwargs p n r None None nb sv"
  by (auto simp add: update_kwargs_def)

text \<open>
  Claim C2, amended. The request of an update carries a target exactly when the catalog
  and the schema are both supplied and non-empty, and the target is then
  \<open>catalog.schema\<close>. When one of the two is omitted the request is the one that is sent
  when both are omitted; the call sends it and returns what the platform answers.
\<close>

theorem update_target_needs_both:
  "map_of (update_kwargs p n r c s nb sv) ''target'' =
     (if truthy_str c \<and> truthy_str s then Some (KStr (the c @ ''.'' @ the s)) else None)
   \<and> (c = None \<or> s = None \<longrightarrow>
        update_kwargs p n r c s nb sv = update_kwargs p n r None None nb sv)
   \<and> update_pipeline p n r c s nb sv w =
       (on_update w (update_kwargs p n r c s nb sv),
        send (PipelinesUpdate (update_kwargs p n r c s nb sv)) w)"
proof (intro conjI impI)
  show "map_of (update_kwargs p n r c s nb sv) ''target'' =
     (if truthy_str c \<and> truthy_str s then Some (KStr (the c @ ''.'' @ the s)) else None)"
    by (rule update_kwargs_target)
  show "update_kwargs p n r c s nb sv = update_kwargs p n r None None nb sv"
    if "c = None \<or> s = None"
    using that by (rule update_kwargs_one_missing)
  show "update_pipeline p n r c s nb sv w =
       (on_update w (update_kwargs p n r c s nb sv),
        send (PipelinesUpdate (update_kwargs p n r c s nb sv)) w)"
    by (simp add: update_pipeline_def Let_def)
qed

theorem update_target_needs_both_witness:
  "map_of (update_kwargs ''p1'' None None (Some ''main'') (Some ''sales'') None None) ''target''
     = Some (KStr ''main.sales'')
   \<and> update_kwargs ''p1'' (Some ''new'') None (Some ''main'') None None None
     = update_kwargs ''p1'' (Some ''new'') None None None None None
   \<and> fst (update_pipeline ''p1'' (Some ''new'') None (Some ''main'') None None None stub_client)
     = Inr ()"
  using update_target_needs_both
          [of "''p1''" None None "Some ''main''" "Some ''sales''" None None stub_client]
        update_target_needs_both
          [of "''p1''" "Some ''new''" None "Some ''main''" None None None stub_client]
  by (simp add: truthy_str_def stub_client_def)

lemma update_kwargs_pipeline_id:
  "map_of (update_kwargs p n r c s nb sv) ''pipeline_id'' = Some (KStr p)"
  by (simp add: update_kwargs_def)

lemma update_kwargs_name:
  "map_of (update_kwargs p n r c s nb sv) ''name'' =
     (case n of None \<Rightarrow> None | Some v \<Rightarrow> if v = [] then None else Some (KStr v))"
  by (simp add: update_kwargs_def truthy_str_def split: option.split)

lemma update_kwargs_storage:
  "map_of (update_kwargs p n r c s nb sv) ''storage'' =
     (case r of None \<Rightarrow> None | Some v \<Rightarrow> if v = [] then None else Some (KStr v))"
  by (simp add: update_kwargs_def truthy_str_def split: option.split)

lemma update_kwargs_target_value:
  "map_of (update_kwargs p n r c s nb sv) ''target'' =
     (case c of
        None \<Rightarrow> None
      | Some cv \<Rightarrow>
          (case s of
             None \<Rightarrow> None
           | Some sv' \<Rightarrow> if cv = [] \<or> sv' = [] then None else Some (KStr (cv @ ''.'' @ sv'))))"
  by (simp add: update_kwargs_def truthy_str_def split: option.split)

lemma update_kwargs_libraries:
  "map_of (update_kwargs p n r c s nb sv) ''libraries'' =
     (case nb of
        None \<Rightarrow> None
      | Some ps \<Rightarrow> if ps = [] then None
                   else Some (KLibs (map (\<lambda>x. \<lparr>notebook = \<lparr>path = x\<rparr>\<rparr>) ps)))"
  by (simp add: update_kwargs_def truthy_str_def truthy_list_def notebook_libraries_def
        split: option.split)

lemma update_kwargs_serverless:
  "map_of (update_kwargs p n r c s nb sv) ''serverless'' =
     (case sv of None \<Rightarrow> None | Some b \<Rightarrow> Some (KBool b))"
  by (simp add: update_kwargs_def split: option.split)

lemma update_kwargs_distinct: "distinct (map fst (update_kwargs p n r c s nb sv))"
  by (cases "truthy_str n"; cases "truthy_str r"; cases "truthy_str c"; cases "truthy_str s";
      cases "truthy_list nb"; cases sv; simp add: update_kwargs_def)

lemma update_kwargs_falsy:
  "update_kwargs p (Some []) r c s nb sv = update_kwargs p None r c s nb sv
   \<and> update_kwargs p n (Some []) c s nb sv = update_kwargs p n None c s nb sv
   \<and> update_kwargs p n r (Some []) s nb sv = update_kwargs p n r None s nb sv
   \<and> update_kwargs p n r c (Some []) nb sv = update_kwargs p n r c None nb sv
   \<and> update_kwargs p n r c s (Some []) sv = update_kwargs p n r c s None sv
   \<and> (''serverless'', KBool False) \<in> set (update_kwargs p n r c s nb (Some False))
   \<and> update_kwargs p n r c s nb (Some False) \<noteq> update_kwargs p n r c s nb None
   \<and> (''name'', KStr []) \<notin> set (update_kwargs p n r c s nb sv)"
  by (simp add: update_kwargs_def truthy_str_def truthy_list_def split: option.split)

text \<open>
  Claim C10. The update operation sends one request, with each key once. It carries the
  pipeline id; the name and the root path when they are a non-empty string; the target
  when the catalog and the schema are both non-empty strings; the libraries when the list
  of notebook paths is non-empty; and \<open>serverless\<close> whenever it is not \<open>None\<close>, false
  included. So an empty string or an empty list gives the request of the omitted field,
  a \<open>serverless\<close> of false differs from an omitted one, and no request carries an empty
  name.
\<close>

theorem update_supplied_by_truthiness:
  "snd (update_pipeline p n r c s nb sv w) = send (PipelinesUpdate (update_kwargs p n r c s nb sv)) w
   \<and> distinct (map fst (update_kwargs p n r c s nb sv))
   \<and> fst ` set (update_kwargs p n r c s nb sv) \<subseteq>
        {''pipeline_id'', ''name'', ''storage'', ''target'', ''libraries'', ''serverless''}
   \<and> map_of (update_kwargs p n r c s nb sv) ''pipeline_id'' = Some (KStr p)
   \<and> map_of (update_kwargs p n r c s nb sv) ''name'' =
        (case n of None \<Rightarrow> None | Some v \<Rightarrow> if v = [] then None else Some (KStr v))
   \<and> map_of (update_kwargs p n r c s nb sv) ''storage'' =
        (case r of None \<Rightarrow> None | Some v \<Rightarrow> if v = [] then None else Some (KStr v))
   \<and> map_of (update_kwargs p n r c s nb sv) ''target'' =
        (case c of
           None \<Rightarrow> None
         | Some cv \<Rightarrow>
             (case s of
                None \<Rightarrow> None
              | Some sv' \<Rightarrow> if cv = [] \<or> sv' = [] then None
                             else Some (KStr (cv @ ''.'' @ sv'))))
   \<and> map_of (update_kwargs p n r c s nb sv) ''libraries'' =
        (case nb of
           None \<Rightarrow> None
         | Some ps \<Rightarrow> if ps = [] then None
                      else Some (KLibs (map (\<lambda>x. \<lparr>notebook = \<lparr>path = x\<rparr>\<rparr>) ps)))
   \<and> map_of (update_kwargs p n r c s nb sv) ''serverless'' =
        (case sv of None \<Rightarrow> None | Some b \<Rightarrow> Some (KBool b))
   \<and> update_kwargs p (Some []) r c s nb sv = update_kwargs p None r c s nb sv
   \<and> update_kwargs p n (Some []) c s nb sv = update_kwargs p n None c s nb sv
   \<and> update_kwargs p n r (Some []) s nb sv = update_kwargs p n r None s nb sv
   \<and> update_kwargs p n r c (Some []) nb sv = update_kwargs p n r c None nb sv
   \<and> update_kwargs p n r c s (Some []) sv = update_kwargs p n r c s None sv
   \<and> (''serverless'', KBool False) \<in> set (update_kwargs p n r c s nb (Some False))
   \<and> update_kwargs p n r c s nb (Some False) \<noteq> update_kwargs p n r c s nb None
   \<and> (''name'', KStr []) \<notin> set (update_kwargs p n r c s nb sv)"
  using update_kwargs_falsy [of p r c s nb sv n]
  by (simp only: update_kwargs_pipeline_id update_kwargs_name update_kwargs_storage
        update_kwargs_target_value update_kwargs_libraries update_kwargs_serverless
        update_kwargs_distinct update_kwargs_frame(1) update_pipeline_def Let_def snd_conv
        simp_thms)

theorem update_supplied_by_truthiness_witness:
  "update_kwargs ''p1'' (Some ''new'') (Some []) (Some ''main'') (Some ''sales'')
       (Some [''/nb/a.py'']) (Some False)
     = [(''pipeline_id'', KStr ''p1''), (''name'', KStr ''new''), (''target'', KStr ''main.sales''),
        (''libraries'', KLibs [\<lparr>notebook = \<lparr>path = ''/nb/a.py''\<rparr>\<rparr>]),
        (''serverless'', KBool False)]
   \<and> map_of (update_kwargs ''p1'' (Some ''new'') (Some []) (Some ''main'') (Some ''sales'')
       (Some [''/nb/a.py'']) (Some False)) ''name'' = Some (KStr ''new'')
   \<and> map_of (update_kwargs ''p1'' (Some ''new'') (Some []) (Some ''main'') (Some ''sales'')
       (Some [''/nb/a.py'']) (Some False)) ''storage'' = None"
  using update_supplied_by_truthiness
          [where p = "''p1''" and n = "Some ''new''" and r = "Some []" and c = "Some ''main''"
             and s = "Some ''sales''" and nb = "Some [''/nb/a.py'']" and sv = "Some False"]
  by (simp add: update_kwargs_def truthy_str_def truthy_list_def notebook_libraries_def)

subsection \<open>Creating a pipeline\<close>

lemma create_pipeline_eqD:
  "create_pipeline n r c s nb sv w = (x, w') \<Longrightarrow>
     w' = send (PipelinesCreate \<lparr>ck_name = n, ck_storage = r, ck_target = c @ ''.'' @ s,
                ck_libraries = notebook_libraries nb, ck_continuous = False,
                ck_serverless = sv\<rparr>) w"
  by (auto simp: create_pipeline_def Let_def)

lemma create_tool_captured:
  "captured (snd (create_pipeline_tool args w)) =
     captured w @ (case CreatePipelineInput args of
                     Inl _ \<Rightarrow> []
                   | Inr i \<Rightarrow>
                       [PipelinesCreate \<lparr>ck_name = cpi_name i, ck_storage = cpi_root_path i,
                          ck_target = cpi_catalog i @ ''.'' @ cpi_schema i,
                          ck_libraries = notebook_libraries (cpi_workspace_notebook_paths i),
                          ck_continuous = False, ck_serverless = cpi_serverless i\<rparr>])"
  unfolding create_pipeline_tool_def except_handlers_snd
  by (auto split: sum.splits prod.splits simp: captured_send dest!: create_pipeline_eqD)

lemma CreatePipelineInput_Inr:
  "CreatePipelineInput args = Inr i \<longleftrightarrow>
     (\<exists>a b c d e f.
        required validate_str args ''name'' = Inr a \<and>
        required validate_str args ''root_path'' = Inr b \<and>
        required validate_str args ''catalog'' = Inr c \<and>
        required validate_str args ''schema'' = Inr d \<and>
        required (validate_list validate_str 1) args ''workspace_notebook_paths'' = Inr e \<and>
        with_default True validate_bool args ''serverless'' = Inr f \<and>
        i = \<lparr>cpi_name = a, cpi_root_path = b, cpi_catalog = c, cpi_schema = d,
              cpi_workspace_notebook_paths = e, cpi_serverless = f\<rparr>)"
  unfolding CreatePipelineInput_def model_Inr field_Inr by auto

lemma CreatePipelineInput_extra:
  "CreatePipelineInput (args(''continuous'' \<mapsto> x)) = CreatePipelineInput args"
  by (simp add: CreatePipelineInput_def required_def with_default_def)

text \<open>
  Claim C8. For arguments that validate, the create tool sends one request; its
  \<open>continuous\<close> flag is false and its target is the catalog and the schema of the
  arguments (stripped), joined by a dot. A \<open>continuous\<close> key in the arguments changes
  nothing.
\<close>

theorem create_always_triggered:
  assumes "CreatePipelineInput args = Inr i"
  shows "\<exists>kw c s. captured (snd (create_pipeline_tool args w)) = captured w @ [PipelinesCreate kw]
           \<and> ck_continuous kw = False
           \<and> args ''catalog'' = Some (PStr c) \<and> args ''schema'' = Some (PStr s)
           \<and> ck_target kw = strip c @ ''.'' @ strip s
           \<and> create_pipeline_tool (args(''continuous'' \<mapsto> x)) w = create_pipeline_tool args w"
proof -
  from assms obtain c s where c: "args ''catalog'' = Some (PStr c)" "cpi_catalog i = strip c"
    and s: "args ''schema'' = Some (PStr s)" "cpi_schema i = strip s"
    unfolding CreatePipelineInput_Inr required_str_Inr by auto
  have "CreatePipelineInput (args(''continuous'' \<mapsto> x)) = CreatePipelineInput args"
    by (rule CreatePipelineInput_extra)
  then have "create_pipeline_tool (args(''continuous'' \<mapsto> x)) w = create_pipeline_tool args w"
    by (simp add: create_pipeline_tool_def)
  then show ?thesis
    using c s assms by (simp add: create_tool_captured)
qed

lemmas create_eval =
  CreatePipelineInput_def model_def field_def required_def with_default_def validate_str_def
  validate_list_def validate_bool_def strip_eval create_pipeline_def
  notebook_libraries_def stub_client_def send_def except_handlers_def

theorem create_always_triggered_witness:
  "CreatePipelineInput [''name'' \<mapsto> PStr ''demo'', ''root_path'' \<mapsto> PStr ''/pipelines/demo'',
               ''catalog'' \<mapsto> PStr (CHR 0xC2 # CHR 0xA0 # ''main ''), ''schema'' \<mapsto> PStr ''sales'',
               ''workspace_notebook_paths'' \<mapsto> PList [PStr ''/nb/a.py''],
               ''continuous'' \<mapsto> PBool True]
     = Inr \<lparr>cpi_name = ''demo'', cpi_root_path = ''/pipelines/demo'', cpi_catalog = ''main'',
             cpi_schema = ''sales'', cpi_workspace_notebook_paths = [''/nb/a.py''],
             cpi_serverless = True\<rparr>
   \<and> captured (snd (create_pipeline_tool
          [''name'' \<mapsto> PStr ''demo'', ''root_path'' \<mapsto> PStr ''/pipelines/demo'',
           ''catalog'' \<mapsto> PStr (CHR 0xC2 # CHR 0xA0 # ''main ''), ''schema'' \<mapsto> PStr ''sales'',
           ''workspace_notebook_paths'' \<mapsto> PList [PStr ''/nb/a.py''],
           ''continuous'' \<mapsto> PBool True] stub_client))
     = [PipelinesCreate \<lparr>ck_name = ''demo'', ck_storage = ''/pipelines/demo'',
          ck_target = ''main.sales'',
          ck_libraries = [\<lparr>notebook = \<lparr>path = ''/nb/a.py''\<rparr>\<rparr>],
          ck_continuous = False, ck_serverless = True\<rparr>]"
proof -
  have h: "CreatePipelineInput [''name'' \<mapsto> PStr ''demo'', ''root_path'' \<mapsto> PStr ''/pipelines/demo'',
               ''catalog'' \<mapsto> PStr (CHR 0xC2 # CHR 0xA0 # ''main ''), ''schema'' \<mapsto> PStr ''sales'',
               ''workspace_notebook_paths'' \<mapsto> PList [PStr ''/nb/a.py''],
               ''continuous'' \<mapsto> PBool True]
     = Inr \<lparr>cpi_name = ''demo'', cpi_root_path = ''/pipelines/demo'', cpi_catalog = ''main'',
             cpi_schema = ''sales'', cpi_workspace_notebook_paths = [''/nb/a.py''],
             cpi_serverless = True\<rparr>"
    by (simp add: create_eval)
  from create_always_triggered [OF h, of stub_client "PBool False"]
  show ?thesis using h
    by (simp add: create_tool_captured notebook_libraries_def stub_client_def)
qed

subsection \<open>Starting an update\<close>

lemma start_update_eqD:
  "start_update p rs fr frs vo w = (x, w') \<Longrightarrow>
     w' = send (PipelinesStartUpdate \<lparr>su_pipeline_id = p, su_refresh_selection = rs,
                su_full_refresh = fr, su_full_refresh_selection = frs,
                su_validate_only = vo\<rparr>) w"
  by (auto simp: start_update_def Let_def)

lemma start_tool_captured:
  "captured (snd (start_pipeline_update_tool args w)) =
     captured w @ (case StartPipelineUpdateInput args of
                     Inl _ \<Rightarrow> []
                   | Inr i \<Rightarrow> [PipelinesStartUpdate
                        \<lparr>su_pipeline_id = spu_pipeline_id i,
                         su_refresh_selection = spu_refresh_selection i,
                         su_full_refresh = spu_full_refresh i,
                         su_full_refresh_selection = spu_full_refresh_selection i,
                         su_validate_only = False\<rparr>])"
  unfolding start_pipeline_update_tool_def except_handlers_snd
  by (auto split: sum.splits prod.splits simp: captured_send dest!: start_update_eqD)


lemma StartPipelineUpdateInput_extra:
  "StartPipelineUpdateInput (args(''validate_only'' \<mapsto> x)) = StartPipelineUpdateInput args"
  by (simp add: StartPipelineUpdateInput_def required_def with_default_def)

lemmas start_eval =
  StartPipelineUpdateInput_def model_def field_def required_def with_default_def
  validate_str_def validate_bool_def strip_eval stub_client_def

text \<open>
  Claim C9. The \<open>start_pipeline_update\<close> tool sends nothing when its arguments do not
  validate, and otherwise one start-update request, whose \<open>validate_only\<close> is false;
  so every start-update request it adds has \<open>validate_only\<close> false. A \<open>validate_only\<close>
  key in the arguments, whatever its value, changes neither the answer nor the request.
\<close>

theorem start_update_never_validate_only:
  "captured (snd (start_pipeline_update_tool args w)) =
     captured w @ (case StartPipelineUpdateInput args of
                     Inl _ \<Rightarrow> []
                   | Inr i \<Rightarrow> [PipelinesStartUpdate
                        \<lparr>su_pipeline_id = spu_pipeline_id i,
                         su_refresh_selection = spu_refresh_selection i,
                         su_full_refresh = spu_full_refresh i,
                         su_full_refresh_selection = spu_full_refresh_selection i,
                         su_validate_only = False\<rparr>])
   \<and> (\<forall>kw. PipelinesStartUpdate kw \<in> set (captured (snd (start_pipeline_update_tool args w)))
          \<and> PipelinesStartUpdate kw \<notin> set (captured w) \<longrightarrow> su_validate_only kw = False)
   \<and> start_pipeline_update_tool (args(''validate_only'' \<mapsto> x)) w
       = start_pipeline_update_tool args w"
proof (intro conjI)
  show "start_pipeline_update_tool (args(''validate_only'' \<mapsto> x)) w
          = start_pipeline_update_tool args w"
    by (simp add: start_pipeline_update_tool_def StartPipelineUpdateInput_extra)
  show "\<forall>kw. PipelinesStartUpdate kw \<in> set (captured (snd (start_pipeline_update_tool args w)))
          \<and> PipelinesStartUpdate kw \<notin> set (captured w) \<longrightarrow> su_validate_only kw = False"
    unfolding start_tool_captured by (auto split: sum.splits)
qed (rule start_tool_captured)

theorem start_update_never_validate_only_witness:
  "captured (snd (start_pipeline_update_tool
       [''pipeline_id'' \<mapsto> PStr ''p1'', ''validate_only'' \<mapsto> PBool True] stub_client))
     = [PipelinesStartUpdate \<lparr>su_pipeline_id = ''p1'', su_refresh_selection = None,
          su_full_refresh = False, su_full_refresh_selection = None, su_validate_only = False\<rparr>]
   \<and> start_pipeline_update_tool
         [''pipeline_id'' \<mapsto> PStr ''p1'', ''validate_only'' \<mapsto> PBool True] stub_client
     = start_pipeline_update_tool [''pipeline_id'' \<mapsto> PStr ''p1''] stub_client"
  using start_update_never_validate_only
          [of "[''pipeline_id'' \<mapsto> PStr ''p1'']" stub_client "PBool True"]
  by (simp add: start_eval)

subsection \<open>Classifying events\<close>

lemma endswith_suffix: "endswith s suf \<longleftrightarrow> suffix suf s"
proof
  assume "endswith s suf"
  then have "s = take (length s - length suf) s @ suf"
    by (metis append_take_drop_id endswith_def)
  then show "suffix suf s" by (metis suffixI)
next
  assume "suffix suf s"
  then obtain zs where "s = zs @ suf" by (auto simp: suffix_def)
  then show "endswith s suf" by (simp add: endswith_def)
qed

lemma is_error_event_iff:
  "is_error_event e \<longleftrightarrow> (\<exists>t. event_type e = Some t \<and> suffix ''_failed'' t)"
  by (auto simp: is_error_event_def endswith_suffix split: option.splits)

lemma sum_list_ones: "sum_list (map (\<lambda>e. 1) xs) = int (length xs)"
  by (induction xs) auto

lemma error_count_eq:
  "error_count events =
     int (length (filter (\<lambda>e. \<exists>t. event_type e = Some t \<and> suffix ''_failed'' t) events))"
  unfolding error_count_def sum_list_ones
  by (simp add: is_error_event_iff [abs_def])

lemma events_tool_report:
  assumes "GetPipelineEventsInput env args = Inr i"
    and "on_list_pipeline_events w (gpe_pipeline_id i) (gpe_max_results i) = Inr events"
  shows "fst (get_pipeline_events_tool env args w) = Inr (text_response (events_text env i events))"
  unfolding get_pipeline_events_tool_def
  by (rule except_handlers_Inr) (simp add: assms get_pipeline_events_def)

text \<open>
  Claim C5. The error count is the number of events whose \<open>event_type\<close> is a string
  that ends with \<open>_failed\<close>, the total is the length of the sequence, and these are the
  two numbers the events tool prints. Three events of types \<open>flow_failed\<close>,
  \<open>flow_progress\<close> and \<open>update_failed\<close> give total 3 and error count 2.
\<close>

theorem events_classified_by_suffix:
  "error_count events =
     int (length (filter (\<lambda>e. \<exists>t. event_type e = Some t \<and> suffix ''_failed'' t) events))
   \<and> event_count events = int (length events)
   \<and> (GetPipelineEventsInput env args = Inr i
        \<and> on_list_pipeline_events w (gpe_pipeline_id i) (gpe_max_results i) = Inr events
      \<longrightarrow> fst (get_pipeline_events_tool env args w) =
            Inr (text_response
              (clipboard @ '' Pipeline Events'' @ NL @ NL
               @ ''Pipeline ID: '' @ gpe_pipeline_id i @ NL
               @ ''Total Events: '' @ str_int (event_count events) @ NL
               @ ''Error Events: '' @ str_int (error_count events) @ NL @ NL
               @ ''Events:'' @ NL @ json_dumps env (PList (map ev_as_dict events)))))
   \<and> (map event_type evs3 = [Some ''flow_failed'', Some ''flow_progress'', Some ''update_failed'']
      \<longrightarrow> event_count evs3 = 3 \<and> error_count evs3 = 2)"
proof (intro conjI impI)
  show "error_count events =
     int (length (filter (\<lambda>e. \<exists>t. event_type e = Some t \<and> suffix ''_failed'' t) events))"
    by (rule error_count_eq)
  show "event_count events = int (length events)"
    by (simp add: event_count_def)
  show "fst (get_pipeline_events_tool env args w) =
            Inr (text_response
              (clipboard @ '' Pipeline Events'' @ NL @ NL
               @ ''Pipeline ID: '' @ gpe_pipeline_id i @ NL
               @ ''Total Events: '' @ str_int (event_count events) @ NL
               @ ''Error Events: '' @ str_int (error_count events) @ NL @ NL
               @ ''Events:'' @ NL @ json_dumps env (PList (map ev_as_dict events))))"
    if "GetPipelineEventsInput env args = Inr i
        \<and> on_list_pipeline_events w (gpe_pipeline_id i) (gpe_max_results i) = Inr events"
    using events_tool_report [of env args i w events] that
    by (simp add: events_text_def Let_def)
  assume a: "map event_type evs3 = [Some ''flow_failed'', Some ''flow_progress'', Some ''update_failed'']"
  then obtain e1 e2 e3 where e: "evs3 = [e1, e2, e3]" "event_type e1 = Some ''flow_failed''"
     "event_type e2 = Some ''flow_progress''" "event_type e3 = Some ''update_failed''"
    by (auto simp: map_eq_Cons_conv)
  show "event_count evs3 = 3" using e by (simp add: event_count_def)
  show "error_count evs3 = 2" using e
    by (simp add: error_count_def is_error_event_def endswith_def)
qed

lemmas events_eval = GetPipelineEventsInput_def model_def field_def required_def with_default_def
  validate_str_def strip_eval stub_client_def stub_env_def

theorem events_classified_by_suffix_witness:
  "fst (get_pipeline_events_tool stub_env [''pipeline_id'' \<mapsto> PStr ''p1''] stub_client) =
     Inr (text_response
       (clipboard @ '' Pipeline Events'' @ NL @ NL
        @ ''Pipeline ID: p1'' @ NL
        @ ''Total Events: 3'' @ NL
        @ ''Error Events: 2'' @ NL @ NL
        @ ''Events:'' @ NL @ stub_json_dumps (PList (map ev_as_dict stub_events))))"
proof -
  have v: "GetPipelineEventsInput stub_env [''pipeline_id'' \<mapsto> PStr ''p1'']
             = Inr \<lparr>gpe_pipeline_id = ''p1'', gpe_max_results = 100\<rparr>"
    by (simp add: events_eval)
  have r: "on_list_pipeline_events stub_client ''p1'' 100 = Inr stub_events"
    by (simp add: stub_client_def)
  have m: "map event_type stub_events = [Some ''flow_failed'', Some ''flow_progress'', Some ''update_failed'']"
    by (simp add: stub_events_def)
  have j: "json_dumps stub_env = stub_json_dumps"
    by (simp add: stub_env_def)
  note inst = events_classified_by_suffix
         [of stub_events stub_env "[''pipeline_id'' \<mapsto> PStr ''p1'']"
             "\<lparr>gpe_pipeline_id = ''p1'', gpe_max_results = 100\<rparr>" stub_client stub_events]
  have c: "event_count stub_events = 3" "error_count stub_events = 2"
    using inst m by blast+
  have "fst (get_pipeline_events_tool stub_env [''pipeline_id'' \<mapsto> PStr ''p1''] stub_client) =
            Inr (text_response
              (clipboard @ '' Pipeline Events'' @ NL @ NL
               @ ''Pipeline ID: '' @ gpe_pipeline_id \<lparr>gpe_pipeline_id = ''p1'', gpe_max_results = 100\<rparr> @ NL
               @ ''Total Events: '' @ str_int (event_count stub_events) @ NL
               @ ''Error Events: '' @ str_int (error_count stub_events) @ NL @ NL
               @ ''Events:'' @ NL @ json_dumps stub_env (PList (map ev_as_dict stub_events))))"
    using inst v r by simp
  then show ?thesis
    unfolding c j by (simp add: str_int_def digit_def)
qed

subsection \<open>Dry runs and the status report\<close>
















subsection \<open>The update contracts of Unity Catalog\<close>

lemma model_Inl: "model m = Inl e \<longleftrightarrow> (\<exists>es. m = Inl es \<and> e = ValidationError es)"
  by (auto simp: model_def split: sum.splits)

lemma model_cases:
  obtains es where "model m = Inl (ValidationError es)" | v where "model m = Inr v" "m = Inr v"
  by (cases m) (auto simp: model_def)

lemma default_nullable_str_absent:
  "args f = None \<Longrightarrow> with_default None (nullable validate_str) args f = Inr v \<longleftrightarrow> v = None"
  by (auto simp: with_default_def)

lemma UpdateCatalogInput_fields:
  "model (field (field (field
              (Inr (\<lambda>a b c. \<lparr>uci_catalog_name = a, uci_new_name = b, uci_comment = c\<rparr>))
              (required validate_str args ''catalog_name''))
              (with_default None (nullable validate_str) args ''new_name''))
              (with_default None (nullable validate_str) args ''comment'')) = Inr self
   \<longleftrightarrow> (\<exists>a b c. required validate_str args ''catalog_name'' = Inr a
          \<and> with_default None (nullable validate_str) args ''new_name'' = Inr b
          \<and> with_default None (nullable validate_str) args ''comment'' = Inr c
          \<and> self = \<lparr>uci_catalog_name = a, uci_new_name = b, uci_comment = c\<rparr>)"
  unfolding model_Inr field_Inr by auto

lemma UpdateSchemaInput_fields:
  "model (field (field (field (field
              (Inr (\<lambda>a b c d. \<lparr>usi_catalog_name = a, usi_schema_name = b, usi_new_name = c,
                              usi_comment = d\<rparr>))
              (required validate_str args ''catalog_name''))
              (required validate_str args ''schema_name''))
              (with_default None (nullable validate_str) args ''new_name''))
              (with_default None (nullable validate_str) args ''comment'')) = Inr self
   \<longleftrightarrow> (\<exists>a b c d. required validate_str args ''catalog_name'' = Inr a
          \<and> required validate_str args ''schema_name'' = Inr b
          \<and> with_default None (nullable validate_str) args ''new_name'' = Inr c
          \<and> with_default None (nullable validate_str) args ''comment'' = Inr d
          \<and> self = \<lparr>usi_catalog_name = a, usi_schema_name = b, usi_new_name = c,
                              usi_comment = d\<rparr>)"
  unfolding model_Inr field_Inr by auto

lemma UpdateCatalogInput_both_absent:
  assumes "args ''new_name'' = None" "args ''comment'' = None"
  shows "\<exists>es. UpdateCatalogInput args = Inl (ValidationError es)"
    and "args ''catalog_name'' = Some (PStr s) \<Longrightarrow> UpdateCatalogInput args = Inl at_least_one_violation"
    and "(\<forall>s. args ''catalog_name'' \<noteq> Some (PStr s)) \<Longrightarrow>
           \<exists>e. UpdateCatalogInput args = Inl (ValidationError [e]) \<and> loc e = [LKey ''catalog_name'']"
proof -
  let ?m = "field (field (field
              (Inr (\<lambda>a b c. \<lparr>uci_catalog_name = a, uci_new_name = b, uci_comment = c\<rparr>))
              (required validate_str args ''catalog_name''))
              (with_default None (nullable validate_str) args ''new_name''))
              (with_default None (nullable validate_str) args ''comment'')"
  show "\<exists>es. UpdateCatalogInput args = Inl (ValidationError es)"
  proof (cases ?m rule: model_cases)
    case (1 es)
    then show ?thesis by (simp add: UpdateCatalogInput_def)
  next
    case (2 self)
    then have "uci_new_name self = None" "uci_comment self = None"
      using assms unfolding UpdateCatalogInput_fields by (auto simp: with_default_absent)
    then show ?thesis using 2
      by (simp add: UpdateCatalogInput_def UpdateCatalogInput_at_least_one_update_def value_error_def)
  qed
  show "UpdateCatalogInput args = Inl at_least_one_violation" if "args ''catalog_name'' = Some (PStr s)"
    using that assms
    by (simp add: UpdateCatalogInput_def model_def field_def required_def with_default_def
          validate_str_def UpdateCatalogInput_at_least_one_update_def)
  show "\<exists>e. UpdateCatalogInput args = Inl (ValidationError [e]) \<and> loc e = [LKey ''catalog_name'']"
    if "\<forall>s. args ''catalog_name'' \<noteq> Some (PStr s)"
    using that assms
    by (auto simp: UpdateCatalogInput_def model_def field_def required_def with_default_def
          validate_str_def error_entry_def split: option.splits pyval.splits)
qed

lemma required_str_Inl:
  "(\<forall>s. args f \<noteq> Some (PStr s)) \<Longrightarrow>
     \<exists>e. required validate_str args f = Inl [e] \<and> loc e = [LKey f]"
  by (auto simp: required_def validate_str_def error_entry_def split: option.splits pyval.splits)

lemma field_Inl_right: "x = Inl es \<Longrightarrow> \<exists>es'. field m x = Inl (es' @ es)"
  by (cases m) (auto simp: field_def)

lemma field_Inl_left: "m = Inl es \<Longrightarrow> \<exists>es'. field m x = Inl (es @ es')"
  by (cases x) (auto simp: field_def)

lemma violation_entry:
  "value_error m = ValidationError es \<Longrightarrow> es = [error_entry [] (''Value error, '' @ m) ''value_error'']"
  by (simp add: value_error_def)

lemma UpdateSchemaInput_both_absent:
  assumes "args ''new_name'' = None" "args ''comment'' = None"
  shows "\<exists>es. UpdateSchemaInput args = Inl (ValidationError es)"
    and "args ''catalog_name'' = Some (PStr s) \<Longrightarrow> args ''schema_name'' = Some (PStr t)
           \<Longrightarrow> UpdateSchemaInput args = Inl at_least_one_violation"
    and "(\<forall>s. args ''catalog_name'' \<noteq> Some (PStr s)) \<or> (\<forall>t. args ''schema_name'' \<noteq> Some (PStr t)) \<Longrightarrow>
           \<exists>es. UpdateSchemaInput args = Inl (ValidationError es) \<and> (\<forall>e \<in> set es. loc e \<noteq> [])"
proof -
  let ?m = "field (field (field (field
              (Inr (\<lambda>a b c d. \<lparr>usi_catalog_name = a, usi_schema_name = b, usi_new_name = c,
                              usi_comment = d\<rparr>))
              (required validate_str args ''catalog_name''))
              (required validate_str args ''schema_name''))
              (with_default None (nullable validate_str) args ''new_name''))
              (with_default None (nullable validate_str) args ''comment'')"
  show "\<exists>es. UpdateSchemaInput args = Inl (ValidationError es)"
  proof (cases ?m rule: model_cases)
    case (1 es)
    then show ?thesis by (simp add: UpdateSchemaInput_def)
  next
    case (2 self)
    then have "usi_new_name self = None" "usi_comment self = None"
      using assms unfolding UpdateSchemaInput_fields by (auto simp: with_default_absent)
    then show ?thesis using 2
      by (simp add: UpdateSchemaInput_def UpdateSchemaInput_at_least_one_update_def value_error_def)
  qed
  show "UpdateSchemaInput args = Inl at_least_one_violation"
    if "args ''catalog_name'' = Some (PStr s)" "args ''schema_name'' = Some (PStr t)"
    using that assms
    by (simp add: UpdateSchemaInput_def model_def field_def required_def with_default_def
          validate_str_def UpdateSchemaInput_at_least_one_update_def)
  show "\<exists>es. UpdateSchemaInput args = Inl (ValidationError es) \<and> (\<forall>e \<in> set es. loc e \<noteq> [])"
    if h: "(\<forall>s. args ''catalog_name'' \<noteq> Some (PStr s)) \<or> (\<forall>t. args ''schema_name'' \<noteq> Some (PStr t))"
  proof -
    have nn: "with_default None (nullable validate_str) args ''new_name'' = Inr None"
      and cm: "with_default None (nullable validate_str) args ''comment'' = Inr None"
      using assms by (simp_all add: with_default_absent)
    have str: "(\<exists>s. args f = Some (PStr s) \<and> required validate_str args f = Inr (strip s))
            \<or> (\<exists>e. required validate_str args f = Inl [e] \<and> loc e = [LKey f])" for f
    proof (cases "\<exists>s. args f = Some (PStr s)")
      case True
      then show ?thesis by (auto simp: required_def validate_str_def)
    next
      case False
      then show ?thesis using required_str_Inl [of args f] by blast
    qed
    from str [of "''catalog_name''"] str [of "''schema_name''"] h
    have "\<exists>es. ?m = Inl es \<and> (\<forall>e \<in> set es. loc e \<noteq> [])"
      unfolding nn cm by (auto simp: field_def)
    then show ?thesis
      by (auto simp: UpdateSchemaInput_def model_def)
  qed
qed

text \<open>
  Claim C6, amended. When the arguments have neither \<open>new_name\<close> nor \<open>comment\<close>,
  \<open>UpdateCatalogInput\<close> and \<open>UpdateSchemaInput\<close> raise a validation error and give no
  command. The error is the cross-field violation exactly when the required names
  (\<open>catalog_name\<close>, and \<open>schema_name\<close> for a schema) are given as strings: the
  validator runs after the fields have validated.
\<close>

theorem both_absent_rejected:
  assumes "args ''new_name'' = None" and "args ''comment'' = None"
  shows "(\<exists>es. UpdateCatalogInput args = Inl (ValidationError es))
       \<and> (\<exists>es. UpdateSchemaInput args = Inl (ValidationError es))
       \<and> (UpdateCatalogInput args = Inl at_least_one_violation
            \<longleftrightarrow> (\<exists>s. args ''catalog_name'' = Some (PStr s)))
       \<and> (UpdateSchemaInput args = Inl at_least_one_violation
            \<longleftrightarrow> (\<exists>s t. args ''catalog_name'' = Some (PStr s) \<and> args ''schema_name'' = Some (PStr t)))"
proof (intro conjI)
  show "\<exists>es. UpdateCatalogInput args = Inl (ValidationError es)"
    using assms by (rule UpdateCatalogInput_both_absent)
  show "\<exists>es. UpdateSchemaInput args = Inl (ValidationError es)"
    using assms by (rule UpdateSchemaInput_both_absent)
  show "UpdateCatalogInput args = Inl at_least_one_violation
            \<longleftrightarrow> (\<exists>s. args ''catalog_name'' = Some (PStr s))"
  proof
    assume v: "UpdateCatalogInput args = Inl at_least_one_violation"
    show "\<exists>s. args ''catalog_name'' = Some (PStr s)"
    proof (rule ccontr)
      assume "\<not> ?thesis"
      then have "\<exists>e. UpdateCatalogInput args = Inl (ValidationError [e]) \<and> loc e = [LKey ''catalog_name'']"
        using UpdateCatalogInput_both_absent(3) [OF assms] by blast
      with v show False by (auto simp: value_error_def error_entry_def)
    qed
  next
    assume "\<exists>s. args ''catalog_name'' = Some (PStr s)"
    then show "UpdateCatalogInput args = Inl at_least_one_violation"
      using UpdateCatalogInput_both_absent(2) [OF assms] by blast
  qed
  show "UpdateSchemaInput args = Inl at_least_one_violation
            \<longleftrightarrow> (\<exists>s t. args ''catalog_name'' = Some (PStr s) \<and> args ''schema_name'' = Some (PStr t))"
  proof
    assume v: "UpdateSchemaInput args = Inl at_least_one_violation"
    show "\<exists>s t. args ''catalog_name'' = Some (PStr s) \<and> args ''schema_name'' = Some (PStr t)"
    proof (rule ccontr)
      assume "\<not> ?thesis"
      then have "(\<forall>s. args ''catalog_name'' \<noteq> Some (PStr s)) \<or> (\<forall>t. args ''schema_name'' \<noteq> Some (PStr t))"
        by blast
      then have "\<exists>es. UpdateSchemaInput args = Inl (ValidationError es) \<and> (\<forall>e \<in> set es. loc e \<noteq> [])"
        by (rule UpdateSchemaInput_both_absent(3) [OF assms])
      with v show False by (auto simp: value_error_def error_entry_def)
    qed
  next
    assume "\<exists>s t. args ''catalog_name'' = Some (PStr s) \<and> args ''schema_name'' = Some (PStr t)"
    then show "UpdateSchemaInput args = Inl at_least_one_violation"
      using UpdateSchemaInput_both_absent(2) [OF assms] by blast
  qed
qed

lemmas uc_eval = UpdateCatalogInput_def UpdateSchemaInput_def model_def field_def required_def
  with_default_def validate_str_def strip_eval
  UpdateCatalogInput_at_least_one_update_def UpdateSchemaInput_at_least_one_update_def
  value_error_def error_entry_def truthy_str_def

theorem both_absent_rejected_witness:
  "UpdateCatalogInput [''catalog_name'' \<mapsto> PStr ''main''] =
     Inl (ValidationError [\<lparr>loc = [], msg = ''Value error, At least one of '' @ SQ @ ''new_name''
            @ SQ @ '' or '' @ SQ @ ''comment'' @ SQ @ '' must be provided'', etype = ''value_error''\<rparr>])
   \<and> UpdateSchemaInput [''catalog_name'' \<mapsto> PStr ''main''] \<noteq>
     Inl (ValidationError [\<lparr>loc = [], msg = ''Value error, At least one of '' @ SQ @ ''new_name''
            @ SQ @ '' or '' @ SQ @ ''comment'' @ SQ @ '' must be provided'', etype = ''value_error''\<rparr>])"
  using both_absent_rejected [of "[''catalog_name'' \<mapsto> PStr ''main'']"]
  by (simp add: value_error_def error_entry_def)

text \<open>
  Claim C6, as stated, fails: with \<open>new_name\<close> and \<open>comment\<close> absent and a required name
  missing too, the validation error lists the missing field and not the cross-field
  violation.
\<close>

theorem missing_name_hides_cross_field_violation:
  "UpdateCatalogInput Map.empty =
     Inl (ValidationError [\<lparr>loc = [LKey ''catalog_name''], msg = ''Field required'', etype = ''missing''\<rparr>])
   \<and> UpdateSchemaInput [''catalog_name'' \<mapsto> PStr ''main''] =
     Inl (ValidationError [\<lparr>loc = [LKey ''schema_name''], msg = ''Field required'', etype = ''missing''\<rparr>])"
  by (simp add: uc_eval)

subsection \<open>External tables\<close>

lemma CreateTableInput_fields:
  "model (field (field (field (field (field (field (field
              (Inr (\<lambda>a b c d e f g. \<lparr>cti_catalog_name = a, cti_schema_name = b,
                                    cti_table_name = c, cti_columns = d, cti_table_type = e,
                                    cti_comment = f, cti_storage_location = g\<rparr>))
              (required validate_str args ''catalog_name''))
              (required validate_str args ''schema_name''))
              (required validate_str args ''table_name''))
              (required (validate_list ColumnModel 1) args ''columns''))
              (with_default ''MANAGED'' TableTypeEnum args ''table_type''))
              (with_default None (nullable validate_str) args ''comment''))
              (with_default None (nullable validate_str) args ''storage_location'')) = Inr self
   \<longleftrightarrow> (\<exists>a b c d e f g.
          required validate_str args ''catalog_name'' = Inr a
        \<and> required validate_str args ''schema_name'' = Inr b
        \<and> required validate_str args ''table_name'' = Inr c
        \<and> required (validate_list ColumnModel 1) args ''columns'' = Inr d
        \<and> with_default ''MANAGED'' TableTypeEnum args ''table_type'' = Inr e
        \<and> with_default None (nullable validate_str) args ''comment'' = Inr f
        \<and> with_default None (nullable validate_str) args ''storage_location'' = Inr g
        \<and> self = \<lparr>cti_catalog_name = a, cti_schema_name = b,
                                    cti_table_name = c, cti_columns = d, cti_table_type = e,
                                    cti_comment = f, cti_storage_location = g\<rparr>)"
  unfolding model_Inr field_Inr by auto

lemma external_type:
  "args ''table_type'' = Some (PStr ''EXTERNAL'')
     \<Longrightarrow> with_default ''MANAGED'' TableTypeEnum args ''table_type'' = Inr ''EXTERNAL''"
  by (simp add: with_default_def TableTypeEnum_def validate_enum_def)

lemma storage_location_value:
  "args ''storage_location'' = None
     \<Longrightarrow> with_default None (nullable validate_str) args ''storage_location'' = Inr None"
  "args ''storage_location'' = Some PNone
     \<Longrightarrow> with_default None (nullable validate_str) args ''storage_location'' = Inr None"
  "args ''storage_location'' = Some (PStr s)
     \<Longrightarrow> with_default None (nullable validate_str) args ''storage_location'' = Inr (Some (strip s))"
  by (simp_all add: with_default_def nullable_def validate_str_def)

lemma CreateTableInput_external_falsy:
  assumes "args ''table_type'' = Some (PStr ''EXTERNAL'')"
    and "with_default None (nullable validate_str) args ''storage_location'' = Inr g"
    and "\<not> truthy_str g"
  shows "\<exists>es. CreateTableInput args = Inl (ValidationError es)"
proof (cases "field (field (field (field (field (field (field
              (Inr (\<lambda>a b c d e f g. \<lparr>cti_catalog_name = a, cti_schema_name = b,
                                    cti_table_name = c, cti_columns = d, cti_table_type = e,
                                    cti_comment = f, cti_storage_location = g\<rparr>))
              (required validate_str args ''catalog_name''))
              (required validate_str args ''schema_name''))
              (required validate_str args ''table_name''))
              (required (validate_list ColumnModel 1) args ''columns''))
              (with_default ''MANAGED'' TableTypeEnum args ''table_type''))
              (with_default None (nullable validate_str) args ''comment''))
              (with_default None (nullable validate_str) args ''storage_location'')" rule: model_cases)
  case (1 es)
  then show ?thesis by (simp add: CreateTableInput_def)
next
  case (2 self)
  then have "cti_table_type self = ''EXTERNAL''" "cti_storage_location self = g"
    using assms(1,2) external_type [of args] unfolding CreateTableInput_fields by auto
  then show ?thesis using 2 assms(3)
    by (simp add: CreateTableInput_def validate_external_storage_def value_error_def)
qed

text \<open>
  Claim C7, amended. For arguments whose \<open>table_type\<close> is \<open>EXTERNAL\<close>: when
  \<open>storage_location\<close> is omitted, null, or a string that is empty once stripped,
  \<open>CreateTableInput\<close> raises a validation error; when it is a string that is not empty
  once stripped and the other fields validate, \<open>CreateTableInput\<close> gives the command, with
  the stripped location.
\<close>

theorem external_needs_storage_location:
  assumes "args ''table_type'' = Some (PStr ''EXTERNAL'')"
  shows "(args ''storage_location'' = None \<or> args ''storage_location'' = Some PNone
            \<or> (\<exists>s. args ''storage_location'' = Some (PStr s) \<and> strip s = [])
          \<longrightarrow> (\<exists>es. CreateTableInput args = Inl (ValidationError es)))
       \<and> (args ''storage_location'' = Some (PStr s) \<and> strip s \<noteq> []
            \<and> required validate_str args ''catalog_name'' = Inr a
            \<and> required validate_str args ''schema_name'' = Inr b
            \<and> required validate_str args ''table_name'' = Inr c
            \<and> required (validate_list ColumnModel 1) args ''columns'' = Inr cols
            \<and> with_default None (nullable validate_str) args ''comment'' = Inr cm
          \<longrightarrow> CreateTableInput args =
                Inr \<lparr>cti_catalog_name = a, cti_schema_name = b, cti_table_name = c,
                     cti_columns = cols, cti_table_type = ''EXTERNAL'', cti_comment = cm,
                     cti_storage_location = Some (strip s)\<rparr>)"
proof (intro conjI impI)
  assume "args ''storage_location'' = None \<or> args ''storage_location'' = Some PNone
            \<or> (\<exists>s. args ''storage_location'' = Some (PStr s) \<and> strip s = [])"
  then have "\<exists>g. with_default None (nullable validate_str) args ''storage_location'' = Inr g
               \<and> \<not> truthy_str g"
    using storage_location_value [of args] by (auto simp: truthy_str_def)
  then show "\<exists>es. CreateTableInput args = Inl (ValidationError es)"
    using CreateTableInput_external_falsy [of args] assms by blast
next
  assume h: "args ''storage_location'' = Some (PStr s) \<and> strip s \<noteq> []
            \<and> required validate_str args ''catalog_name'' = Inr a
            \<and> required validate_str args ''schema_name'' = Inr b
            \<and> required validate_str args ''table_name'' = Inr c
            \<and> required (validate_list ColumnModel 1) args ''columns'' = Inr cols
            \<and> with_default None (nullable validate_str) args ''comment'' = Inr cm"
  then have g: "with_default None (nullable validate_str) args ''storage_location'' = Inr (Some (strip s))"
    by (simp add: storage_location_value)
  show "CreateTableInput args =
                Inr \<lparr>cti_catalog_name = a, cti_schema_name = b, cti_table_name = c,
                     cti_columns = cols, cti_table_type = ''EXTERNAL'', cti_comment = cm,
                     cti_storage_location = Some (strip s)\<rparr>"
    unfolding CreateTableInput_def
    using h g assms external_type [of args]
    by (simp add: model_def field_def validate_external_storage_def truthy_str_def)
qed

lemmas ct_eval = CreateTableInput_def model_def field_def required_def with_default_def
  validate_str_def nullable_def strip_eval validate_list_def ColumnModel_def
  required_in_def with_default_in_def TableTypeEnum_def validate_enum_def
  validate_external_storage_def value_error_def error_entry_def truthy_str_def

text \<open>
  Claim C7, as stated, fails: an \<open>EXTERNAL\<close> table whose \<open>storage_location\<close> is present
  and is the empty string, every field being valid, is rejected.
\<close>

theorem external_with_empty_storage_location_rejected:
  "CreateTableInput
     [''catalog_name'' \<mapsto> PStr ''main'', ''schema_name'' \<mapsto> PStr ''sales'',
      ''table_name'' \<mapsto> PStr ''orders'',
      ''columns'' \<mapsto> PList [PDict [(''name'', PStr ''id''), (''type_name'', PStr ''INT'')]],
      ''table_type'' \<mapsto> PStr ''EXTERNAL'', ''storage_location'' \<mapsto> PStr '''']
   = Inl (ValidationError [\<lparr>loc = [],
            msg = ''Value error, storage_location is required for EXTERNAL tables'',
            etype = ''value_error''\<rparr>])"
  by (simp add: ct_eval)

theorem external_needs_storage_location_witness:
  "CreateTableInput
     [''catalog_name'' \<mapsto> PStr ''main'', ''schema_name'' \<mapsto> PStr ''sales'',
      ''table_name'' \<mapsto> PStr ''orders'',
      ''columns'' \<mapsto> PList [PDict [(''name'', PStr ''id''), (''type_name'', PStr ''INT'')]],
      ''table_type'' \<mapsto> PStr ''EXTERNAL'', ''storage_location'' \<mapsto> PStr ''s3://bucket/orders '']
   = Inr \<lparr>cti_catalog_name = ''main'', cti_schema_name = ''sales'', cti_table_name = ''orders'',
          cti_columns = [\<lparr>cm_name = ''id'', cm_type_name = ''INT'', cm_comment = None\<rparr>],
          cti_table_type = ''EXTERNAL'', cti_comment = None,
          cti_storage_location = Some ''s3://bucket/orders''\<rparr>
   \<and> (\<exists>es. CreateTableInput
     [''catalog_name'' \<mapsto> PStr ''main'', ''schema_name'' \<mapsto> PStr ''sales'',
      ''table_name'' \<mapsto> PStr ''orders'',
      ''columns'' \<mapsto> PList [PDict [(''name'', PStr ''id''), (''type_name'', PStr ''INT'')]],
      ''table_type'' \<mapsto> PStr ''EXTERNAL''] = Inl (ValidationError es))
   \<and> (\<exists>es. CreateTableInput
     [''catalog_name'' \<mapsto> PStr ''main'', ''schema_name'' \<mapsto> PStr ''sales'',
      ''table_name'' \<mapsto> PStr ''orders'',
      ''columns'' \<mapsto> PList [PDict [(''name'', PStr ''id''), (''type_name'', PStr ''INT'')]],
      ''table_type'' \<mapsto> PStr ''EXTERNAL'', ''storage_location'' \<mapsto> PStr [CHR 0xC2, CHR 0xA0]]
       = Inl (ValidationError es))"
proof -
  let ?base = "[''catalog_name'' \<mapsto> PStr ''main'', ''schema_name'' \<mapsto> PStr ''sales'',
      ''table_name'' \<mapsto> PStr ''orders'',
      ''columns'' \<mapsto> PList [PDict [(''name'', PStr ''id''), (''type_name'', PStr ''INT'')]],
      ''table_type'' \<mapsto> PStr ''EXTERNAL'']"
  let ?full = "?base(''storage_location'' \<mapsto> PStr ''s3://bucket/orders '')"
  have s: "strip ''s3://bucket/orders '' = ''s3://bucket/orders''"
    by (simp add: strip_eval)
  have f: "required validate_str ?full ''catalog_name'' = Inr ''main''"
      "required validate_str ?full ''schema_name'' = Inr ''sales''"
      "required validate_str ?full ''table_name'' = Inr ''orders''"
      "required (validate_list ColumnModel 1) ?full ''columns''
         = Inr [\<lparr>cm_name = ''id'', cm_type_name = ''INT'', cm_comment = None\<rparr>]"
      "with_default None (nullable validate_str) ?full ''comment'' = Inr None"
    by (simp_all add: ct_eval)
  have 1: "CreateTableInput ?full = Inr \<lparr>cti_catalog_name = ''main'', cti_schema_name = ''sales'', cti_table_name = ''orders'',
          cti_columns = [\<lparr>cm_name = ''id'', cm_type_name = ''INT'', cm_comment = None\<rparr>],
          cti_table_type = ''EXTERNAL'', cti_comment = None,
          cti_storage_location = Some ''s3://bucket/orders''\<rparr>"
    using external_needs_storage_location [of ?full "''s3://bucket/orders ''" "''main''" "''sales''"
            "''orders''" "[\<lparr>cm_name = ''id'', cm_type_name = ''INT'', cm_comment = None\<rparr>]" None] f s
    by simp
  have 2: "\<exists>es. CreateTableInput ?base = Inl (ValidationError es)"
    using external_needs_storage_location [of ?base]
    by simp
  have n: "strip [CHR 0xC2, CHR 0xA0] = []"
    by (simp add: strip_eval)
  have 3: "\<exists>es. CreateTableInput (?base(''storage_location'' \<mapsto> PStr [CHR 0xC2, CHR 0xA0]))
             = Inl (ValidationError es)"
    using external_needs_storage_location
            [of "?base(''storage_location'' \<mapsto> PStr [CHR 0xC2, CHR 0xA0])"] n
    by simp
  show ?thesis using 1 2 3 by simp
qed

subsection \<open>The response envelope of every tool\<close>

lemma well_formed_responses [simp]:
  "well_formed (text_response t)" "well_formed (error_response t)" "well_formed (to_mcp_response es)"
  by (simp_all add: well_formed_def text_response_def error_response_def to_mcp_response_def)

lemma isError_responses [simp]:
  "\<not> isError (text_response t)" "isError (error_response t)" "isError (to_mcp_response es)"
  by (simp_all add: text_response_def error_response_def to_mcp_response_def)

lemma except_handlers_answers:
  "outcome_ok (fst b) F \<Longrightarrow> answers (fst (except_handlers l b)) F"
  by (cases b) (auto simp: except_handlers_def outcome_ok_def answers_def split: sum.splits exn.splits)

lemma except_exception_answers:
  "outcome_ok (fst b) F \<Longrightarrow> answers (fst (except_exception env l b)) F"
  by (cases b) (auto simp: except_exception_def outcome_ok_def answers_def split: sum.splits)

lemma validate_input_answers:
  assumes "\<And>e. mdl args = Inl e \<Longrightarrow> \<exists>es. e = ValidationError es"
    and "\<And>i. mdl args = Inr i \<Longrightarrow> answers (fst (func i w)) (F i)"
  shows "answers (fst (validate_input mdl func args w)) (fails_after (mdl args) F)"
proof (cases "mdl args")
  case (Inl e)
  then obtain es where "e = ValidationError es" using assms(1) by blast
  then show ?thesis using Inl
    by (simp add: validate_input_def fails_after_def answers_def)
next
  case (Inr i)
  from assms(2) [OF Inr] obtain r s where "func i w = (Inr r, s)"
    by (cases "func i w") (auto simp: answers_def split: sum.splits)
  then show ?thesis using Inr assms(2) [OF Inr]
    by (simp add: validate_input_def fails_after_def)
qed

lemma outcome_ok_text [simp]: "outcome_ok (Inr (text_response t)) F \<longleftrightarrow> \<not> F"
  by (simp add: outcome_ok_def)

lemma outcome_ok_Inl [simp]: "outcome_ok (Inl e) F \<longleftrightarrow> F"
  by (simp add: outcome_ok_def)

lemma raises_simps [simp]: "raises (Inl e)" "\<not> raises (Inr x)"
  by (simp_all add: raises_def)

lemma fails_after_simps [simp]: "fails_after (Inl e) k" "fails_after (Inr x) k = k x"
  by (simp_all add: fails_after_def)

lemma unsuccessful_simps [simp]: "unsuccessful (Inl e)" "unsuccessful (Inr r) = (\<not> res_success r)"
  by (simp_all add: unsuccessful_def)

lemma outcome_ok_result [simp]: "outcome_ok (Inr (result_response r)) F \<longleftrightarrow> (F \<longleftrightarrow> \<not> res_success r)"
  by (auto simp: outcome_ok_def result_response_def)

lemma create_pipeline_answers:
  "answers (fst (create_pipeline_tool args w)) (create_pipeline_failed env args w)"
  unfolding create_pipeline_tool_def create_pipeline_failed_def
  by (rule except_handlers_answers)
     (simp add: Let_def split: sum.splits prod.splits)

lemma get_pipeline_answers:
  "answers (fst (get_pipeline_tool env args w)) (get_pipeline_failed env args w)"
  unfolding get_pipeline_tool_def get_pipeline_failed_def
  by (rule except_handlers_answers)
     (simp add: Let_def split: sum.splits prod.splits)

lemma update_pipeline_config_answers:
  "answers (fst (update_pipeline_config_tool args w)) (update_pipeline_config_failed env args w)"
  unfolding update_pipeline_config_tool_def update_pipeline_config_failed_def
  by (rule except_handlers_answers)
     (simp add: Let_def split: sum.splits prod.splits)

lemma delete_pipeline_answers:
  "answers (fst (delete_pipeline_tool args w)) (delete_pipeline_failed env args w)"
  unfolding delete_pipeline_tool_def delete_pipeline_failed_def
  by (rule except_handlers_answers)
     (simp add: Let_def split: sum.splits prod.splits)

lemma start_pipeline_update_answers:
  "answers (fst (start_pipeline_update_tool args w)) (start_pipeline_update_failed env args w)"
  unfolding start_pipeline_update_tool_def start_pipeline_update_failed_def
  by (rule except_handlers_answers)
     (simp add: Let_def split: sum.splits prod.splits)

lemma validate_pipeline_answers:
  "answers (fst (validate_pipeline_tool args w)) (validate_pipeline_failed env args w)"
  unfolding validate_pipeline_tool_def validate_pipeline_failed_def
  by (rule except_handlers_answers)
     (simp add: Let_def split: sum.splits prod.splits)

lemma get_pipeline_update_status_answers:
  "answers (fst (get_pipeline_update_status_tool env args w)) (get_pipeline_update_status_failed env args w)"
  unfolding get_pipeline_update_status_tool_def get_pipeline_update_status_failed_def
  by (rule except_handlers_answers)
     (simp add: Let_def split: sum.splits prod.splits)

lemma stop_pipeline_answers:
  "answers (fst (stop_pipeline_tool args w)) (stop_pipeline_failed env args w)"
  unfolding stop_pipeline_tool_def stop_pipeline_failed_def
  by (rule except_handlers_answers)
     (simp add: Let_def split: sum.splits prod.splits)

lemma get_pipeline_events_answers:
  "answers (fst (get_pipeline_events_tool env args w)) (get_pipeline_events_failed env args w)"
  unfolding get_pipeline_events_tool_def get_pipeline_events_failed_def
  by (rule except_handlers_answers)
     (simp add: Let_def split: sum.splits prod.splits)

lemma list_pipeline_files_answers:
  "answers (fst (list_pipeline_files_tool env args w)) (list_pipeline_files_failed env args w)"
  unfolding list_pipeline_files_tool_def list_pipeline_files_failed_def
  by (rule except_handlers_answers)
     (simp add: Let_def split: sum.splits prod.splits)

lemma get_pipeline_file_status_answers:
  "answers (fst (get_pipeline_file_status_tool env args w)) (get_pipeline_file_status_failed env args w)"
  unfolding get_pipeline_file_status_tool_def get_pipeline_file_status_failed_def
  by (rule except_handlers_answers)
     (simp add: Let_def split: sum.splits prod.splits)

lemma read_pipeline_file_answers:
  "answers (fst (read_pipeline_file_tool env args w)) (read_pipeline_file_failed env args w)"
  unfolding read_pipeline_file_tool_def read_pipeline_file_failed_def
  by (rule except_handlers_answers)
     (simp add: Let_def split: sum.splits prod.splits)

lemma write_pipeline_file_answers:
  "answers (fst (write_pipeline_file_tool env args w)) (write_pipeline_file_failed env args w)"
  unfolding write_pipeline_file_tool_def write_pipeline_file_failed_def
  by (rule except_handlers_answers)
     (simp add: Let_def split: sum.splits prod.splits)

lemma create_pipeline_directory_answers:
  "answers (fst (create_pipeline_directory_tool env args w)) (create_pipeline_directory_failed env args w)"
  unfolding create_pipeline_directory_tool_def create_pipeline_directory_failed_def
  by (rule except_handlers_answers)
     (simp add: Let_def split: sum.splits prod.splits)

lemma delete_pipeline_path_answers:
  "answers (fst (delete_pipeline_path_tool env args w)) (delete_pipeline_path_failed env args w)"
  unfolding delete_pipeline_path_tool_def delete_pipeline_path_failed_def
  by (rule except_handlers_answers)
     (simp add: Let_def split: sum.splits prod.splits)

lemma list_catalogs_answers:
  "answers (fst (list_catalogs_tool env args w)) (list_catalogs_failed env args w)"
  unfolding list_catalogs_tool_def list_catalogs_failed_def
  by (rule except_handlers_answers)
     (simp add: Let_def split: sum.splits prod.splits)

lemma get_catalog_answers:
  "answers (fst (get_catalog_tool env args w)) (get_catalog_failed env args w)"
  unfolding get_catalog_tool_def get_catalog_failed_def
  by (rule except_handlers_answers)
     (simp add: Let_def split: sum.splits prod.splits)

lemma list_schemas_answers:
  "answers (fst (list_schemas_tool env args w)) (list_schemas_failed env args w)"
  unfolding list_schemas_tool_def list_schemas_failed_def
  by (rule except_handlers_answers)
     (simp add: Let_def split: sum.splits prod.splits)

lemma get_schema_answers:
  "answers (fst (get_schema_tool env args w)) (get_schema_failed env args w)"
  unfolding get_schema_tool_def get_schema_failed_def
  by (rule except_exception_answers)
     (simp add: Let_def split: sum.splits prod.splits)

lemma create_schema_answers:
  "answers (fst (create_schema_tool env args w)) (create_schema_failed env args w)"
  unfolding create_schema_tool_def create_schema_failed_def
  by (rule except_handlers_answers)
     (simp add: Let_def split: sum.splits prod.splits)

lemma update_schema_answers:
  "answers (fst (update_schema_tool env args w)) (update_schema_failed env args w)"
  unfolding update_schema_tool_def update_schema_failed_def
  by (rule except_handlers_answers)
     (simp add: Let_def split: sum.splits prod.splits)

lemma delete_schema_answers:
  "answers (fst (delete_schema_tool env args w)) (delete_schema_failed env args w)"
  unfolding delete_schema_tool_def delete_schema_failed_def
  by (rule except_handlers_answers)
     (simp add: Let_def split: sum.splits prod.splits)

lemma list_tables_answers:
  "answers (fst (list_tables_tool env args w)) (list_tables_failed env args w)"
  unfolding list_tables_tool_def list_tables_failed_def
  by (rule except_handlers_answers)
     (simp add: Let_def split: sum.splits prod.splits)

lemma get_table_answers:
  "answers (fst (get_table_tool env args w)) (get_table_failed env args w)"
  unfolding get_table_tool_def get_table_failed_def
  by (rule except_exception_answers)
     (simp add: Let_def split: sum.splits prod.splits)

lemma create_table_answers:
  "answers (fst (create_table_tool env args w)) (create_table_failed env args w)"
  unfolding create_table_tool_def create_table_failed_def
  by (rule except_handlers_answers)
     (simp add: Let_def split: sum.splits prod.splits)

lemma delete_table_answers:
  "answers (fst (delete_table_tool env args w)) (delete_table_failed env args w)"
  unfolding delete_table_tool_def delete_table_failed_def
  by (rule except_exception_answers)
     (simp add: Let_def split: sum.splits prod.splits)

lemma create_context_func_answers:
  "answers (fst (create_context_func env i w)) (raises (create_context env (cci_cluster_id i) (cci_language i)))"
  unfolding create_context_func_def
  by (rule except_exception_answers) (simp split: sum.splits)

lemma create_context_answers:
  "answers (fst (create_context_tool env args w)) (create_context_failed env args w)"
  unfolding create_context_tool_def create_context_failed_def
proof (rule validate_input_answers)
  show "\<exists>es. e = ValidationError es" if "CreateContextInput args = Inl e" for e
    using that by (auto simp: CreateContextInput_def model_Inl)
  show "answers (fst (create_context_func env i w)) (raises (create_context env (cci_cluster_id i) (cci_language i)))" for i
    by (rule create_context_func_answers)
qed

lemma execute_command_with_context_func_answers:
  "answers (fst (execute_command_with_context_func env i w)) (unsuccessful (execute_command_with_context env (eci_cluster_id i) (eci_context_id i) (eci_code i)))"
  unfolding execute_command_with_context_func_def
  by (rule except_exception_answers) (simp split: sum.splits)

lemma execute_command_with_context_answers:
  "answers (fst (execute_command_with_context_tool env args w)) (execute_command_with_context_failed env args w)"
  unfolding execute_command_with_context_tool_def execute_command_with_context_failed_def
proof (rule validate_input_answers)
  show "\<exists>es. e = ValidationError es" if "ExecuteCommandWithContextInput args = Inl e" for e
    using that by (auto simp: ExecuteCommandWithContextInput_def model_Inl)
  show "answers (fst (execute_command_with_context_func env i w)) (unsuccessful (execute_command_with_context env (eci_cluster_id i) (eci_context_id i) (eci_code i)))" for i
    by (rule execute_command_with_context_func_answers)
qed

lemma destroy_context_func_answers:
  "answers (fst (destroy_context_func env i w)) (raises (destroy_context env (dci_cluster_id i) (dci_context_id i)))"
  unfolding destroy_context_func_def
  by (rule except_exception_answers) (simp split: sum.splits)

lemma destroy_context_answers:
  "answers (fst (destroy_context_tool env args w)) (destroy_context_failed env args w)"
  unfolding destroy_context_tool_def destroy_context_failed_def
proof (rule validate_input_answers)
  show "\<exists>es. e = ValidationError es" if "DestroyContextInput args = Inl e" for e
    using that by (auto simp: DestroyContextInput_def model_Inl)
  show "answers (fst (destroy_context_func env i w)) (raises (destroy_context env (dci_cluster_id i) (dci_context_id i)))" for i
    by (rule destroy_context_func_answers)
qed

lemma databricks_command_func_answers:
  "answers (fst (databricks_command_func env i w)) (unsuccessful (execute_databricks_command env (dbc_cluster_id i) (dbc_language i) (dbc_code i) (dbc_timeout i)))"
  unfolding databricks_command_func_def
  by (rule except_exception_answers) (simp split: sum.splits)

lemma databricks_command_answers:
  "answers (fst (databricks_command_tool env args w)) (databricks_command_failed env args w)"
  unfolding databricks_command_tool_def databricks_command_failed_def
proof (rule validate_input_answers)
  show "\<exists>es. e = ValidationError es" if "DatabricksCommandInput env args = Inl e" for e
    using that by (auto simp: DatabricksCommandInput_def model_Inl)
  show "answers (fst (databricks_command_func env i w)) (unsuccessful (execute_databricks_command env (dbc_cluster_id i) (dbc_language i) (dbc_code i) (dbc_timeout i)))" for i
    by (rule databricks_command_func_answers)
qed

lemma validation_errors_of_Some:
  "validation_errors_of v = Some es \<longleftrightarrow> v = Inl (ValidationError es)"
  by (auto simp: validation_errors_of_def split: sum.splits exn.splits)

lemma except_handlers_invalid:
  "fst b = Inl (ValidationError es) \<Longrightarrow> fst (except_handlers l b) = Inr (to_mcp_response es)"
  by (cases b) (simp add: except_handlers_def)

lemma create_pipeline_invalid:
  "CreatePipelineInput args = Inl (ValidationError es)
     \<Longrightarrow> fst (create_pipeline_tool args w) = Inr (to_mcp_response es)"
  by (simp add: create_pipeline_tool_def except_handlers_invalid)

lemma create_pipeline_contract:
  "tool_contract (\<lambda>env. create_pipeline_tool) create_pipeline_failed (\<lambda>env args. validation_errors_of (CreatePipelineInput args))"
  unfolding tool_contract_def
  by (simp add: create_pipeline_answers create_pipeline_invalid validation_errors_of_Some split: option.split)

lemma get_pipeline_invalid:
  "GetPipelineInput args = Inl (ValidationError es)
     \<Longrightarrow> fst (get_pipeline_tool env args w) = Inr (to_mcp_response es)"
  by (simp add: get_pipeline_tool_def except_handlers_invalid)

lemma get_pipeline_contract:
  "tool_contract get_pipeline_tool get_pipeline_failed (\<lambda>env args. validation_errors_of (GetPipelineInput args))"
  unfolding tool_contract_def
  by (simp add: get_pipeline_answers get_pipeline_invalid validation_errors_of_Some split: option.split)

lemma update_pipeline_config_invalid:
  "UpdatePipelineInput args = Inl (ValidationError es)
     \<Longrightarrow> fst (update_pipeline_config_tool args w) = Inr (to_mcp_response es)"
  by (simp add: update_pipeline_config_tool_def except_handlers_invalid)

lemma update_pipeline_config_contract:
  "tool_contract (\<lambda>env. update_pipeline_config_tool) update_pipeline_config_failed (\<lambda>env args. validation_errors_of (UpdatePipelineInput args))"
  unfolding tool_contract_def
  by (simp add: update_pipeline_config_answers update_pipeline_config_invalid validation_errors_of_Some split: option.split)

lemma delete_pipeline_invalid:
  "DeletePipelineInput args = Inl (ValidationError es)
     \<Longrightarrow> fst (delete_pipeline_tool args w) = Inr (to_mcp_response es)"
  by (simp add: delete_pipeline_tool_def except_handlers_invalid)

lemma delete_pipeline_contract:
  "tool_contract (\<lambda>env. delete_pipeline_tool) delete_pipeline_failed (\<lambda>env args. validation_errors_of (DeletePipelineInput args))"
  unfolding tool_contract_def
  by (simp add: delete_pipeline_answers delete_pipeline_invalid validation_errors_of_Some split: option.split)

lemma start_pipeline_update_invalid:
  "StartPipelineUpdateInput args = Inl (ValidationError es)
     \<Longrightarrow> fst (start_pipeline_update_tool args w) = Inr (to_mcp_response es)"
  by (simp add: start_pipeline_update_tool_def except_handlers_invalid)

lemma start_pipeline_update_contract:
  "tool_contract (\<lambda>env. start_pipeline_update_tool) start_pipeline_update_failed (\<lambda>env args. validation_errors_of (StartPipelineUpdateInput args))"
  unfolding tool_contract_def
  by (simp add: start_pipeline_update_answers start_pipeline_update_invalid validation_errors_of_Some split: option.split)

lemma validate_pipeline_invalid:
  "ValidatePipelineInput args = Inl (ValidationError es)
     \<Longrightarrow> fst (validate_pipeline_tool args w) = Inr (to_mcp_response es)"
  by (simp add: validate_pipeline_tool_def except_handlers_invalid)

lemma validate_pipeline_contract:
  "tool_contract (\<lambda>env. validate_pipeline_tool) validate_pipeline_failed (\<lambda>env args. validation_errors_of (ValidatePipelineInput args))"
  unfolding tool_contract_def
  by (simp add: validate_pipeline_answers validate_pipeline_invalid validation_errors_of_Some split: option.split)

lemma get_pipeline_update_status_invalid:
  "GetPipelineUpdateStatusInput args = Inl (ValidationError es)
     \<Longrightarrow> fst (get_pipeline_update_status_tool env args w) = Inr (to_mcp_response es)"
  by (simp add: get_pipeline_update_status_tool_def except_handlers_invalid)

lemma get_pipeline_update_status_contract:
  "tool_contract get_pipeline_update_status_tool get_pipeline_update_status_failed (\<lambda>env args. validation_errors_of (GetPipelineUpdateStatusInput args))"
  unfolding tool_contract_def
  by (simp add: get_pipeline_update_status_answers get_pipeline_update_status_invalid validation_errors_of_Some split: option.split)

lemma stop_pipeline_invalid:
  "StopPipelineInput args = Inl (ValidationError es)
     \<Longrightarrow> fst (stop_pipeline_tool args w) = Inr (to_mcp_response es)"
  by (simp add: stop_pipeline_tool_def except_handlers_invalid)

lemma stop_pipeline_contract:
  "tool_contract (\<lambda>env. stop_pipeline_tool) stop_pipeline_failed (\<lambda>env args. validation_errors_of (StopPipelineInput args))"
  unfolding tool_contract_def
  by (simp add: stop_pipeline_answers stop_pipeline_invalid validation_errors_of_Some split: option.split)

lemma get_pipeline_events_invalid:
  "GetPipelineEventsInput env args = Inl (ValidationError es)
     \<Longrightarrow> fst (get_pipeline_events_tool env args w) = Inr (to_mcp_response es)"
  by (simp add: get_pipeline_events_tool_def except_handlers_invalid)

lemma get_pipeline_events_contract:
  "tool_contract get_pipeline_events_tool get_pipeline_events_failed (\<lambda>env args. validation_errors_of (GetPipelineEventsInput env args))"
  unfolding tool_contract_def
  by (simp add: get_pipeline_events_answers get_pipeline_events_invalid validation_errors_of_Some split: option.split)

lemma list_pipeline_files_invalid:
  "ListPipelineFilesInput args = Inl (ValidationError es)
     \<Longrightarrow> fst (list_pipeline_files_tool env args w) = Inr (to_mcp_response es)"
  by (simp add: list_pipeline_files_tool_def except_handlers_invalid)

lemma list_pipeline_files_contract:
  "tool_contract list_pipeline_files_tool list_pipeline_files_failed (\<lambda>env args. validation_errors_of (ListPipelineFilesInput args))"
  unfolding tool_contract_def
  by (simp add: list_pipeline_files_answers list_pipeline_files_invalid validation_errors_of_Some split: option.split)

lemma get_pipeline_file_status_invalid:
  "GetPipelineFileStatusInput args = Inl (ValidationError es)
     \<Longrightarrow> fst (get_pipeline_file_status_tool env args w) = Inr (to_mcp_response es)"
  by (simp add: get_pipeline_file_status_tool_def except_handlers_invalid)

lemma get_pipeline_file_status_contract:
  "tool_contract get_pipeline_file_status_tool get_pipeline_file_status_failed (\<lambda>env args. validation_errors_of (GetPipelineFileStatusInput args))"
  unfolding tool_contract_def
  by (simp add: get_pipeline_file_status_answers get_pipeline_file_status_invalid validation_errors_of_Some split: option.split)

lemma read_pipeline_file_invalid:
  "ReadPipelineFileInput args = Inl (ValidationError es)
     \<Longrightarrow> fst (read_pipeline_file_tool env args w) = Inr (to_mcp_response es)"
  by (simp add: read_pipeline_file_tool_def except_handlers_invalid)

lemma read_pipeline_file_contract:
  "tool_contract read_pipeline_file_tool read_pipeline_file_failed (\<lambda>env args. validation_errors_of (ReadPipelineFileInput args))"
  unfolding tool_contract_def
  by (simp add: read_pipeline_file_answers read_pipeline_file_invalid validation_errors_of_Some split: option.split)

lemma write_pipeline_file_invalid:
  "WritePipelineFileInput args = Inl (ValidationError es)
     \<Longrightarrow> fst (write_pipeline_file_tool env args w) = Inr (to_mcp_response es)"
  by (simp add: write_pipeline_file_tool_def except_handlers_invalid)

lemma write_pipeline_file_contract:
  "tool_contract write_pipeline_file_tool write_pipeline_file_failed (\<lambda>env args. validation_errors_of (WritePipelineFileInput args))"
  unfolding tool_contract_def
  by (simp add: write_pipeline_file_answers write_pipeline_file_invalid validation_errors_of_Some split: option.split)

lemma create_pipeline_directory_invalid:
  "CreatePipelineDirectoryInput args = Inl (ValidationError es)
     \<Longrightarrow> fst (create_pipeline_directory_tool env args w) = Inr (to_mcp_response es)"
  by (simp add: create_pipeline_directory_tool_def except_handlers_invalid)

lemma create_pipeline_directory_contract:
  "tool_contract create_pipeline_directory_tool create_pipeline_directory_failed (\<lambda>env args. validation_errors_of (CreatePipelineDirectoryInput args))"
  unfolding tool_contract_def
  by (simp add: create_pipeline_directory_answers create_pipeline_directory_invalid validation_errors_of_Some split: option.split)

lemma delete_pipeline_path_invalid:
  "DeletePipelinePathInput args = Inl (ValidationError es)
     \<Longrightarrow> fst (delete_pipeline_path_tool env args w) = Inr (to_mcp_response es)"
  by (simp add: delete_pipeline_path_tool_def except_handlers_invalid)

lemma delete_pipeline_path_contract:
  "tool_contract delete_pipeline_path_tool delete_pipeline_path_failed (\<lambda>env args. validation_errors_of (DeletePipelinePathInput args))"
  unfolding tool_contract_def
  by (simp add: delete_pipeline_path_answers delete_pipeline_path_invalid validation_errors_of_Some split: option.split)

lemma list_catalogs_invalid:
  "ListCatalogsInput args = Inl (ValidationError es)
     \<Longrightarrow> fst (list_catalogs_tool env args w) = Inr (to_mcp_response es)"
  by (simp add: list_catalogs_tool_def except_handlers_invalid)

lemma list_catalogs_contract:
  "tool_contract list_catalogs_tool list_catalogs_failed (\<lambda>env args. validation_errors_of (ListCatalogsInput args))"
  unfolding tool_contract_def
  by (simp add: list_catalogs_answers list_catalogs_invalid validation_errors_of_Some split: option.split)

lemma get_catalog_invalid:
  "GetCatalogInput args = Inl (ValidationError es)
     \<Longrightarrow> fst (get_catalog_tool env args w) = Inr (to_mcp_response es)"
  by (simp add: get_catalog_tool_def except_handlers_invalid)

lemma get_catalog_contract:
  "tool_contract get_catalog_tool get_catalog_failed (\<lambda>env args. validation_errors_of (GetCatalogInput args))"
  unfolding tool_contract_def
  by (simp add: get_catalog_answers get_catalog_invalid validation_errors_of_Some split: option.split)

lemma list_schemas_invalid:
  "ListSchemasInput args = Inl (ValidationError es)
     \<Longrightarrow> fst (list_schemas_tool env args w) = Inr (to_mcp_response es)"
  by (simp add: list_schemas_tool_def except_handlers_invalid)

lemma list_schemas_contract:
  "tool_contract list_schemas_tool list_schemas_failed (\<lambda>env args. validation_errors_of (ListSchemasInput args))"
  unfolding tool_contract_def
  by (simp add: list_schemas_answers list_schemas_invalid validation_errors_of_Some split: option.split)

lemma get_schema_contract:
  "tool_contract get_schema_tool get_schema_failed (\<lambda>env args. None)"
  unfolding tool_contract_def by (simp add: get_schema_answers)

lemma create_schema_invalid:
  "CreateSchemaInput args = Inl (ValidationError es)
     \<Longrightarrow> fst (create_schema_tool env args w) = Inr (to_mcp_response es)"
  by (simp add: create_schema_tool_def except_handlers_invalid)

lemma create_schema_contract:
  "tool_contract create_schema_tool create_schema_failed (\<lambda>env args. validation_errors_of (CreateSchemaInput args))"
  unfolding tool_contract_def
  by (simp add: create_schema_answers create_schema_invalid validation_errors_of_Some split: option.split)

lemma update_schema_invalid:
  "UpdateSchemaInput args = Inl (ValidationError es)
     \<Longrightarrow> fst (update_schema_tool env args w) = Inr (to_mcp_response es)"
  by (simp add: update_schema_tool_def except_handlers_invalid)

lemma update_schema_contract:
  "tool_contract update_schema_tool update_schema_failed (\<lambda>env args. validation_errors_of (UpdateSchemaInput args))"
  unfolding tool_contract_def
  by (simp add: update_schema_answers update_schema_invalid validation_errors_of_Some split: option.split)

lemma delete_schema_invalid:
  "DeleteSchemaInput args = Inl (ValidationError es)
     \<Longrightarrow> fst (delete_schema_tool env args w) = Inr (to_mcp_response es)"
  by (simp add: delete_schema_tool_def except_handlers_invalid)

lemma delete_schema_contract:
  "tool_contract delete_schema_tool delete_schema_failed (\<lambda>env args. validation_errors_of (DeleteSchemaInput args))"
  unfolding tool_contract_def
  by (simp add: delete_schema_answers delete_schema_invalid validation_errors_of_Some split: option.split)

lemma list_tables_invalid:
  "ListTablesInput args = Inl (ValidationError es)
     \<Longrightarrow> fst (list_tables_tool env args w) = Inr (to_mcp_response es)"
  by (simp add: list_tables_tool_def except_handlers_invalid)

lemma list_tables_contract:
  "tool_contract list_tables_tool list_tables_failed (\<lambda>env args. validation_errors_of (ListTablesInput args))"
  unfolding tool_contract_def
  by (simp add: list_tables_answers list_tables_invalid validation_errors_of_Some split: option.split)

lemma get_table_contract:
  "tool_contract get_table_tool get_table_failed (\<lambda>env args. None)"
  unfolding tool_contract_def by (simp add: get_table_answers)

lemma create_table_invalid:
  "CreateTableInput args = Inl (ValidationError es)
     \<Longrightarrow> fst (create_table_tool env args w) = Inr (to_mcp_response es)"
  by (simp add: create_table_tool_def except_handlers_invalid)

lemma create_table_contract:
  "tool_contract create_table_tool create_table_failed (\<lambda>env args. validation_errors_of (CreateTableInput args))"
  unfolding tool_contract_def
  by (simp add: create_table_answers create_table_invalid validation_errors_of_Some split: option.split)

lemma delete_table_contract:
  "tool_contract delete_table_tool delete_table_failed (\<lambda>env args. None)"
  unfolding tool_contract_def by (simp add: delete_table_answers)

lemma create_context_invalid:
  "CreateContextInput args = Inl (ValidationError es)
     \<Longrightarrow> fst (create_context_tool env args w) = Inr (to_mcp_response es)"
  by (simp add: create_context_tool_def validate_input_def)

lemma create_context_contract:
  "tool_contract create_context_tool create_context_failed (\<lambda>env args. validation_errors_of (CreateContextInput args))"
  unfolding tool_contract_def
  by (simp add: create_context_answers create_context_invalid validation_errors_of_Some split: option.split)

lemma execute_command_with_context_invalid:
  "ExecuteCommandWithContextInput args = Inl (ValidationError es)
     \<Longrightarrow> fst (execute_command_with_context_tool env args w) = Inr (to_mcp_response es)"
  by (simp add: execute_command_with_context_tool_def validate_input_def)

lemma execute_command_with_context_contract:
  "tool_contract execute_command_with_context_tool execute_command_with_context_failed (\<lambda>env args. validation_errors_of (ExecuteCommandWithContextInput args))"
  unfolding tool_contract_def
  by (simp add: execute_command_with_context_answers execute_command_with_context_invalid validation_errors_of_Some split: option.split)

lemma destroy_context_invalid:
  "DestroyContextInput args = Inl (ValidationError es)
     \<Longrightarrow> fst (destroy_context_tool env args w) = Inr (to_mcp_response es)"
  by (simp add: destroy_context_tool_def validate_input_def)

lemma destroy_context_contract:
  "tool_contract destroy_context_tool destroy_context_failed (\<lambda>env args. validation_errors_of (DestroyContextInput args))"
  unfolding tool_contract_def
  by (simp add: destroy_context_answers destroy_context_invalid validation_errors_of_Some split: option.split)

lemma databricks_command_invalid:
  "DatabricksCommandInput env args = Inl (ValidationError es)
     \<Longrightarrow> fst (databricks_command_tool env args w) = Inr (to_mcp_response es)"
  by (simp add: databricks_command_tool_def validate_input_def)

lemma databricks_command_contract:
  "tool_contract databricks_command_tool databricks_command_failed (\<lambda>env args. validation_errors_of (DatabricksCommandInput env args))"
  unfolding tool_contract_def
  by (simp add: databricks_command_answers databricks_command_invalid validation_errors_of_Some split: option.split)

lemmas tool_contracts =
  create_pipeline_contract get_pipeline_contract update_pipeline_config_contract delete_pipeline_contract start_pipeline_update_contract validate_pipeline_contract get_pipeline_update_status_contract stop_pipeline_contract get_pipeline_events_contract list_pipeline_files_contract get_pipeline_file_status_contract read_pipeline_file_contract write_pipeline_file_contract create_pipeline_directory_contract delete_pipeline_path_contract list_catalogs_contract get_catalog_contract list_schemas_contract get_schema_contract create_schema_contract update_schema_contract delete_schema_contract list_tables_contract get_table_contract create_table_contract delete_table_contract create_context_contract execute_command_with_context_contract destroy_context_contract databricks_command_contract

lemma all_tools_contract:
  "list_all (\<lambda>(name, handler). \<exists>failed invalid.
       map_of operation_failed name = Some failed
       \<and> map_of validation_errors name = Some invalid
       \<and> tool_contract handler failed invalid) TOOL_HANDLERS"
  by (simp add: TOOL_HANDLERS_def pipelines_TOOL_HANDLERS_def unity_catalog_TOOL_HANDLERS_def
        compute_TOOL_HANDLERS_def operation_failed_def validation_errors_def tool_contracts)

text \<open>
  Claim C4. Every handler of the three tables, on every argument mapping, environment
  and platform, returns an envelope and raises nothing; the envelope is well formed, and
  its \<open>isError\<close> is set exactly when the operation of the tool failed. When the input
  model of the tool rejects the arguments, the operation has failed and the envelope
  holds one text segment: the header and one line for each validation error, with its
  location, its message and its type.
\<close>

theorem every_tool_answers_with_an_envelope:
  assumes "(name, handler) \<in> set TOOL_HANDLERS"
  shows "\<exists>r failed invalid.
           fst (handler env args w) = Inr r \<and> well_formed r
         \<and> map_of operation_failed name = Some failed \<and> isError r = failed env args w
         \<and> map_of validation_errors name = Some invalid
         \<and> (\<forall>es. invalid env args = Some es \<longrightarrow>
               failed env args w
             \<and> content r =
                 [\<lparr>seg_type = ''text'',
                   seg_text = [CHR 0xC3, CHR 0xA2, CHR 0xC5, CHR 0x92] @ '' Validation Error:'' @ NL
                     @ join NL (map (\<lambda>e. ''  - '' @ join ''.'' (map str_loc_item (loc e)) @ '': ''
                                          @ msg e @ '' (type: '' @ etype e @ '')'') es)\<rparr>])"
proof -
  from assms all_tools_contract obtain failed invalid where
    f: "map_of operation_failed name = Some failed"
    and i: "map_of validation_errors name = Some invalid"
    and c: "tool_contract handler failed invalid"
    unfolding list_all_iff by blast
  from c have a: "answers (fst (handler env args w)) (failed env args w)"
    and v: "case invalid env args of None \<Rightarrow> True
            | Some es \<Rightarrow> fst (handler env args w) = Inr (to_mcp_response es)"
    unfolding tool_contract_def by blast+
  from a obtain r where r: "fst (handler env args w) = Inr r" "well_formed r"
      "isError r = failed env args w"
    by (auto simp: answers_def split: sum.splits)
  have "failed env args w
             \<and> content r =
                 [\<lparr>seg_type = ''text'',
                   seg_text = [CHR 0xC3, CHR 0xA2, CHR 0xC5, CHR 0x92] @ '' Validation Error:'' @ NL
                     @ join NL (map (\<lambda>e. ''  - '' @ join ''.'' (map str_loc_item (loc e)) @ '': ''
                                          @ msg e @ '' (type: '' @ etype e @ '')'') es)\<rparr>]"
    if "invalid env args = Some es" for es
  proof -
    from v that r(1) have "r = to_mcp_response es" by simp
    then show ?thesis using r(3) [symmetric]
      by (simp add: to_mcp_response_def error_response_def Let_def)
  qed
  with r f i show ?thesis by blast
qed

lemmas command_eval =
  databricks_command_tool_def validate_input_def DatabricksCommandInput_def model_def field_def
  required_def with_default_def validate_str_def validate_int_def LanguageEnum_def
  validate_enum_def strip_eval databricks_command_func_def except_exception_def
  result_response_def error_response_def str_opt_def stub_env_def error_entry_def
  to_mcp_response_def str_loc_item_def str_int_def digit_def

theorem every_tool_answers_with_an_envelope_witness:
  "(''databricks_command'', databricks_command_tool) \<in> set TOOL_HANDLERS
   \<and> fst (databricks_command_tool stub_env
          [''cluster_id'' \<mapsto> PStr ''c1'', ''code'' \<mapsto> PStr ''1/0'', ''timeout'' \<mapsto> PInt 5]
          stub_client)
     = Inr \<lparr>content = [\<lparr>seg_type = ''text'', seg_text = ''Error: division by zero''\<rparr>],
            isError = True\<rparr>
   \<and> fst (databricks_command_tool stub_env
          [''cluster_id'' \<mapsto> PStr ''c1'', ''code'' \<mapsto> PStr ''1/0'', ''timeout'' \<mapsto> PInt 0]
          stub_client)
     = Inr \<lparr>content = [\<lparr>seg_type = ''text'',
               seg_text = [CHR 0xC3, CHR 0xA2, CHR 0xC5, CHR 0x92] @ '' Validation Error:'' @ NL
                 @ ''  - timeout: Input should be greater than or equal to 1 (type: greater_than_equal)''\<rparr>],
            isError = True\<rparr>"
proof -
  have m: "(''databricks_command'', databricks_command_tool) \<in> set TOOL_HANDLERS"
    by (simp add: TOOL_HANDLERS_def compute_TOOL_HANDLERS_def)
  from every_tool_answers_with_an_envelope [OF m, of stub_env
         "[''cluster_id'' \<mapsto> PStr ''c1'', ''code'' \<mapsto> PStr ''1/0'', ''timeout'' \<mapsto> PInt 5]"
         stub_client]
  show ?thesis using m
    by (simp add: command_eval)
qed

end
